theory Spec2Isabelle
  imports Main "HOL-Library.Word"
begin

unbundle bit_operations_syntax

section \<open>The target representation built by the code generator\<close>

text \<open>
  The lowering engine (\<^verbatim>\<open>CodeGenerator\<close>, codegen.cc) drives an instruction builder of
  the target library. This section models the part of the target representation that
  the modelled functions produce: types, values, instructions and basic blocks.

  Values are identified as the source identifies them, by object identity: the result
  of an emitted instruction is \<open>Inst n t\<close>, with \<open>n\<close> the number of the instruction and
  \<open>t\<close> its type; a stack slot is \<open>AllocaV n t\<close>, with \<open>t\<close> the allocated type.
  A double is held as its 64-bit pattern.

  The builder's folding of operations on constants is not modelled: an operation on
  constants is emitted as an instruction, which computes the value the folded constant has.
\<close>

datatype ty = I1 | I8 | I16 | I32 | I64 | DoubleTy | PtrTy | VoidTy | ArrayTy ty nat

type_synonym double = "64 word"

datatype val =
    ConstInt ty int
  | ConstFP double
  | ConstNaN
  | ConstNull ty
  | GlobalString string
  | GlobalVar string ty
  | Inst nat ty
  | AllocaV nat ty
  | Argument string ty

fun getType_val :: "val \<Rightarrow> ty" where
  "getType_val (ConstInt t _) = t"
| "getType_val (ConstFP _) = DoubleTy"
| "getType_val ConstNaN = DoubleTy"
| "getType_val (ConstNull t) = t"
| "getType_val (GlobalString _) = PtrTy"
| "getType_val (GlobalVar _ _) = PtrTy"
| "getType_val (Inst _ t) = t"
| "getType_val (AllocaV _ _) = PtrTy"
| "getType_val (Argument _ t) = t"

fun isIntegerTy :: "ty \<Rightarrow> bool" where
  "isIntegerTy I1 = True"
| "isIntegerTy I8 = True"
| "isIntegerTy I16 = True"
| "isIntegerTy I32 = True"
| "isIntegerTy I64 = True"
| "isIntegerTy _ = False"

fun getIntegerBitWidth :: "ty \<Rightarrow> nat" where
  "getIntegerBitWidth I1 = 1"
| "getIntegerBitWidth I8 = 8"
| "getIntegerBitWidth I16 = 16"
| "getIntegerBitWidth I32 = 32"
| "getIntegerBitWidth I64 = 64"
| "getIntegerBitWidth _ = 0"

fun isArrayTy :: "ty \<Rightarrow> bool" where
  "isArrayTy (ArrayTy _ _) = True"
| "isArrayTy _ = False"

fun getElementType :: "ty \<Rightarrow> ty" where
  "getElementType (ArrayTy t _) = t"
| "getElementType t = t"

datatype icmp_pred = ICMP_EQ | ICMP_NE | ICMP_SLT | ICMP_SGT | ICMP_SLE | ICMP_SGE

datatype fcmp_pred = FCMP_OEQ | FCMP_ONE | FCMP_OLT | FCMP_OGT | FCMP_OLE | FCMP_OGE

datatype binop = Add | Sub | Mul | SDiv | SRem | FAdd | FSub | FMul | FDiv | FRem | Or | Xor

datatype castop = ZExt | SExt | Trunc | BitCast | SIToFP | UIToFP | FPToSI

text \<open>
  An instruction carries the number of its result where it has one. A branch target is
  a block number; \<open>Br None\<close> is a branch built from a null block pointer.
\<close>

datatype instr =
    ICmp nat icmp_pred val val
  | FCmp nat fcmp_pred val val
  | BinOp nat binop val val
  | FNeg nat val
  | Cast nat castop val ty
  | Select nat val val val
  | Call nat string "val list"
  | Alloca nat ty
  | Load nat ty val
  | Store val val
  | GEP nat ty val "val list"
  | Phi nat ty "(val \<times> nat option) list"
  | Br "nat option"
  | CondBr val nat nat
  | Ret "val option"
  | Unreachable

fun isTerminator :: "instr \<Rightarrow> bool" where
  "isTerminator (Br _) = True"
| "isTerminator (CondBr _ _ _) = True"
| "isTerminator (Ret _) = True"
| "isTerminator Unreachable = True"
| "isTerminator _ = False"

text \<open>\<^verbatim>\<open>BasicBlock::getTerminator\<close>: the last instruction of the block, if it is a terminator.\<close>

definition getTerminator :: "instr list \<Rightarrow> instr option" where
  "getTerminator is = (if is \<noteq> [] \<and> isTerminator (last is) then Some (last is) else None)"

section \<open>The parsed tree\<close>

text \<open>The expression nodes of node.h. A character literal is held as its byte.\<close>

datatype expr =
    IntLiteralNode int
  | DoubleLiteralNode double
  | StringLiteralNode string
  | InterpolatedStringNode "string list" "expr list" "string list"
  | CharLiteralNode int
  | BoolLiteralNode bool
  | ArrayLiteralNode "expr list"
  | IdentifierNode string
  | BinaryOpNode string expr expr
  | UnaryOpNode string expr
  | FunctionCallNode string "expr list" "expr option"
  | ArrayAccessNode expr expr
  | MemberAccessNode "expr option" string

section \<open>The state of the code generator\<close>

text \<open>
  \<^verbatim>\<open>struct LoopContext\<close> of codegen.h: the targets of \<^verbatim>\<open>continue\<close> and \<^verbatim>\<open>break\<close>.
  A switch pushes a context whose continue target is the null pointer.
\<close>

record LoopContext =
  continueBlock :: "nat option"
  breakBlock :: "nat option"

text \<open>
  The signature of a function of the target module: return type, parameter types,
  variadic flag.
\<close>

record funsig =
  retTy :: ty
  paramTys :: "ty list"
  isVarArg :: bool

text \<open>
  The members of \<^verbatim>\<open>class CodeGenerator\<close> (codegen.h) that the modelled functions read
  or write, together with the state of the builder and of the target module:
  the instruction list, name and parent function of every basic block, the insertion
  block of the builder, and the function table of the target module
  (\<^verbatim>\<open>module->getFunction\<close>). \<open>stderr\<close> is the list of lines written to the error stream.
  The symbol tables are maps to pointers: an entry may hold the null pointer (\<open>Some None\<close>),
  which \<^verbatim>\<open>operator[]\<close> stores when it is used to look up a missing name.
  codegen.cc counts in the members \<^verbatim>\<open>errorCount\<close> and \<^verbatim>\<open>warningCount\<close>; \<open>g_errorCount\<close> is
  the global counter of error.cc, which the error reporter of the parser increments and
  codegen.cc never writes. \<open>globalVars\<close> are the global variables of the target module
  (\<^verbatim>\<open>new llvm::GlobalVariable\<close>), \<open>globalInitializers\<close> the list of the globals that are
  initialised when the program starts.
\<close>

record globalVariable =
  valueType :: ty
  isConstant :: bool
  initialValue :: val

record cg =
  blocks :: "nat \<Rightarrow> instr list"
  blockName :: "nat \<Rightarrow> string"
  blockParent :: "nat \<Rightarrow> string option"
  nextBlock :: nat
  nextInst :: nat
  insertBlock :: "nat option"
  moduleFns :: "string \<rightharpoonup> funsig"
  currentFunction :: "string option"
  namedValues :: "string \<rightharpoonup> val option"
  globalValues :: "string \<rightharpoonup> val option"
  functions_tab :: "string \<rightharpoonup> string"
  variableTypes :: "string \<rightharpoonup> string"
  loopContextStack :: "LoopContext list"
  tempMemoryStack :: "val list"
  ownedStringMemory :: "string \<rightharpoonup> val"
  loadedModules :: "string set"
  moduleAliases :: "string \<rightharpoonup> string"
  moduleFunctions :: "string \<rightharpoonup> (string \<rightharpoonup> string)"
  moduleGlobals :: "string \<rightharpoonup> (string \<rightharpoonup> val option)"
  errorCount :: nat
  warningCount :: nat
  g_errorCount :: nat
  globalVars :: "string \<rightharpoonup> globalVariable"
  globalInitializers :: "(val \<times> expr) list"
  stderr :: "string list"

subsection \<open>Builder primitives\<close>

text \<open>
  Appending an instruction at the insertion point. Without an insertion block the
  builder creates the instruction and inserts it nowhere.
\<close>

definition emit :: "instr \<Rightarrow> cg \<Rightarrow> cg" where
  "emit i s = (case insertBlock s of
       None \<Rightarrow> s
     | Some b \<Rightarrow> s\<lparr>blocks := (blocks s)(b := blocks s b @ [i])\<rparr>)"

text \<open>An instruction with a result takes the next instruction number.\<close>

definition emitv :: "(nat \<Rightarrow> instr) \<Rightarrow> ty \<Rightarrow> cg \<Rightarrow> val \<times> cg" where
  "emitv mk t s = (Inst (nextInst s) t, (emit (mk (nextInst s)) s)\<lparr>nextInst := Suc (nextInst s)\<rparr>)"

text \<open>\<^verbatim>\<open>BasicBlock::Create(context, name, parent)\<close>; \<open>parent = None\<close> is a block not yet
  inserted into a function.\<close>

definition BasicBlock_Create :: "string \<Rightarrow> string option \<Rightarrow> cg \<Rightarrow> nat \<times> cg" where
  "BasicBlock_Create name parent s =
     (nextBlock s,
      s\<lparr>blocks := (blocks s)(nextBlock s := []),
        blockName := (blockName s)(nextBlock s := name),
        blockParent := (blockParent s)(nextBlock s := parent),
        nextBlock := Suc (nextBlock s)\<rparr>)"

text \<open>\<^verbatim>\<open>function->insert(function->end(), bb)\<close>.\<close>

definition Function_insert :: "string option \<Rightarrow> nat \<Rightarrow> cg \<Rightarrow> cg" where
  "Function_insert f b s = s\<lparr>blockParent := (blockParent s)(b := f)\<rparr>"

definition SetInsertPoint :: "nat \<Rightarrow> cg \<Rightarrow> cg" where
  "SetInsertPoint b s = s\<lparr>insertBlock := Some b\<rparr>"

text \<open>\<^verbatim>\<open>builder->GetInsertBlock()->getParent()\<close>. The source dereferences the insertion
  block; the theorems below are about states that have one.\<close>

definition GetInsertParent :: "cg \<Rightarrow> string option" where
  "GetInsertParent s = (case insertBlock s of None \<Rightarrow> None | Some b \<Rightarrow> blockParent s b)"

definition CreateBr :: "nat option \<Rightarrow> cg \<Rightarrow> cg" where
  "CreateBr target s = emit (Br target) s"

definition CreateCondBr :: "val \<Rightarrow> nat \<Rightarrow> nat \<Rightarrow> cg \<Rightarrow> cg" where
  "CreateCondBr c t f s = emit (CondBr c t f) s"

definition CreateCall :: "string \<Rightarrow> ty \<Rightarrow> val list \<Rightarrow> cg \<Rightarrow> val \<times> cg" where
  "CreateCall callee rt args s = emitv (\<lambda>n. Call n callee args) rt s"

text \<open>\<^verbatim>\<open>builder->CreateGlobalString(text, "", 0, module)\<close>: a pointer to a constant string
  of the module; no instruction is emitted.\<close>

definition CreateGlobalString :: "string \<Rightarrow> val" where
  "CreateGlobalString text = GlobalString text"

text \<open>A name between apostrophes, as the diagnostics print it.\<close>

definition sq :: "string \<Rightarrow> string" where
  "sq name = CHR 0x27 # name @ [CHR 0x27]"

text \<open>Writing a line to the error stream.\<close>

definition cerr :: "string \<Rightarrow> cg \<Rightarrow> cg" where
  "cerr line s = s\<lparr>stderr := stderr s @ [line]\<rparr>"

subsection \<open>Error and warning management\<close>

text \<open>\<^verbatim>\<open>CodeGenerator::reportError\<close> and \<^verbatim>\<open>reportWarning\<close> (the line number only changes
  the text written).\<close>

definition reportError :: "string \<Rightarrow> cg \<Rightarrow> cg" where
  "reportError message s = (cerr (''Error: '' @ message) s)\<lparr>errorCount := Suc (errorCount s)\<rparr>"

definition reportWarning :: "string \<Rightarrow> cg \<Rightarrow> cg" where
  "reportWarning message s =
     (cerr (''Warning: '' @ message) s)\<lparr>warningCount := Suc (warningCount s)\<rparr>"

text \<open>\<^verbatim>\<open>hasErrors\<close> of codegen.h: \<^verbatim>\<open>return g_errorCount > 0\<close>. It reads the global counter,
  not the member that \<^verbatim>\<open>reportError\<close> increments. \<^verbatim>\<open>CodeGenerator::generate\<close> returns
  false, and no code is emitted, when it holds after lowering.\<close>

definition hasErrors :: "cg \<Rightarrow> bool" where
  "hasErrors s = (g_errorCount s > 0)"

subsection \<open>Temporary memory and owned strings\<close>

fun isPointerTy :: "ty \<Rightarrow> bool" where
  "isPointerTy PtrTy = True"
| "isPointerTy _ = False"

definition pushTempMemory :: "val \<Rightarrow> cg \<Rightarrow> cg" where
  "pushTempMemory ptr s =
     (if \<not> isPointerTy (getType_val ptr) then s
      else s\<lparr>tempMemoryStack := tempMemoryStack s @ [ptr]\<rparr>)"

text \<open>\<^verbatim>\<open>std::find\<close> followed by \<^verbatim>\<open>erase\<close>: the first occurrence is removed.\<close>

definition removeTempMemory :: "val \<Rightarrow> cg \<Rightarrow> cg" where
  "removeTempMemory ptr s = s\<lparr>tempMemoryStack := remove1 ptr (tempMemoryStack s)\<rparr>"

text \<open>The loop of \<^verbatim>\<open>clearTempMemory\<close>: one call of \<^verbatim>\<open>free\<close> per entry.\<close>

fun freeAll :: "val list \<Rightarrow> cg \<Rightarrow> cg" where
  "freeAll [] s = s"
| "freeAll (p # ps) s = freeAll ps (snd (CreateCall ''free'' VoidTy [p] s))"

definition clearTempMemory :: "cg \<Rightarrow> cg" where
  "clearTempMemory s =
     (if tempMemoryStack s = [] then s
      else if moduleFns s ''free'' = None then
        (cerr ''Warning: free function not found, cannot auto-release temp memory'' s)
          \<lparr>tempMemoryStack := []\<rparr>
      else (freeAll (rev (tempMemoryStack s)) s)\<lparr>tempMemoryStack := []\<rparr>)"

definition freeOwnedString :: "string \<Rightarrow> cg \<Rightarrow> cg" where
  "freeOwnedString varName s =
     (case ownedStringMemory s varName of
        None \<Rightarrow> s
      | Some old \<Rightarrow>
          if moduleFns s ''free'' = None then
            (cerr ''Warning: free function not found'' s)
              \<lparr>ownedStringMemory := (ownedStringMemory s)(varName := None)\<rparr>
          else (let s1 = snd (CreateCall ''free'' VoidTy [old] s)
                in s1\<lparr>ownedStringMemory := (ownedStringMemory s1)(varName := None)\<rparr>))"

definition trackOwnedString :: "string \<Rightarrow> val \<Rightarrow> cg \<Rightarrow> cg" where
  "trackOwnedString varName ptr s =
     (if \<not> isPointerTy (getType_val ptr) then s
      else (let s1 = freeOwnedString varName s
            in s1\<lparr>ownedStringMemory := (ownedStringMemory s1)(varName \<mapsto> ptr)\<rparr>))"

section \<open>Break and continue\<close>

text \<open>\<^verbatim>\<open>CodeGenerator::codegenBreakStmt\<close>.\<close>

definition codegenBreakStmt :: "cg \<Rightarrow> cg" where
  "codegenBreakStmt s =
     (if loopContextStack s = [] then
        cerr (''Error: '' @ sq ''break'' @ '' statement not in loop or switch'') s
      else
        (let s1 = clearTempMemory s;
             s2 = CreateBr (breakBlock (last (loopContextStack s1))) s1;
             (afterBreakBB, s3) = BasicBlock_Create ''after_break'' (GetInsertParent s2) s2
         in SetInsertPoint afterBreakBB s3))"

text \<open>\<^verbatim>\<open>CodeGenerator::codegenContinueStmt\<close>.\<close>

definition codegenContinueStmt :: "cg \<Rightarrow> cg" where
  "codegenContinueStmt s =
     (if loopContextStack s = [] then
        cerr (''Error: '' @ sq ''continue'' @ '' statement not in loop'') s
      else
        (let s1 = clearTempMemory s;
             s2 = CreateBr (continueBlock (last (loopContextStack s1))) s1;
             (afterContinueBB, s3) = BasicBlock_Create ''after_continue'' (GetInsertParent s2) s2
         in SetInsertPoint afterContinueBB s3))"

section \<open>Construction\<close>

text \<open>\<^verbatim>\<open>CodeGenerator::declareBuiltinFunctions\<close> and
  \<^verbatim>\<open>declareExceptionHandlingFunctions\<close>: the runtime support routines declared in
  the target module.\<close>

definition builtinFunctions :: "(string \<times> funsig) list" where
  "builtinFunctions =
     [(''printf'', \<lparr>retTy = I32, paramTys = [PtrTy], isVarArg = True\<rparr>),
      (''strlen'', \<lparr>retTy = I64, paramTys = [PtrTy], isVarArg = False\<rparr>),
      (''malloc'', \<lparr>retTy = PtrTy, paramTys = [I64], isVarArg = False\<rparr>),
      (''strcpy'', \<lparr>retTy = PtrTy, paramTys = [PtrTy, PtrTy], isVarArg = False\<rparr>),
      (''strcat'', \<lparr>retTy = PtrTy, paramTys = [PtrTy, PtrTy], isVarArg = False\<rparr>),
      (''scanf'', \<lparr>retTy = I32, paramTys = [PtrTy], isVarArg = True\<rparr>),
      (''getchar'', \<lparr>retTy = I32, paramTys = [], isVarArg = False\<rparr>),
      (''atoi'', \<lparr>retTy = I32, paramTys = [PtrTy], isVarArg = False\<rparr>),
      (''atof'', \<lparr>retTy = DoubleTy, paramTys = [PtrTy], isVarArg = False\<rparr>),
      (''sprintf'', \<lparr>retTy = I32, paramTys = [PtrTy, PtrTy], isVarArg = True\<rparr>),
      (''exit'', \<lparr>retTy = VoidTy, paramTys = [I32], isVarArg = False\<rparr>),
      (''free'', \<lparr>retTy = VoidTy, paramTys = [PtrTy], isVarArg = False\<rparr>),
      (''setjmp'', \<lparr>retTy = I32, paramTys = [PtrTy], isVarArg = False\<rparr>),
      (''longjmp'', \<lparr>retTy = VoidTy, paramTys = [PtrTy, I32], isVarArg = False\<rparr>)]"

text \<open>The constructor \<^verbatim>\<open>CodeGenerator::CodeGenerator\<close>, in a process in which no error
  has been reported (error.cc initialises \<^verbatim>\<open>g_errorCount\<close> to 0).\<close>

definition CodeGenerator_new :: cg where
  "CodeGenerator_new =
     \<lparr>blocks = (\<lambda>_. []), blockName = (\<lambda>_. []), blockParent = (\<lambda>_. None),
      nextBlock = 0, nextInst = 0, insertBlock = None,
      moduleFns = map_of builtinFunctions, currentFunction = None,
      namedValues = Map.empty, globalValues = Map.empty, functions_tab = Map.empty,
      variableTypes = Map.empty, loopContextStack = [], tempMemoryStack = [],
      ownedStringMemory = Map.empty, loadedModules = {}, moduleAliases = Map.empty,
      moduleFunctions = Map.empty, moduleGlobals = Map.empty,
      errorCount = 0, warningCount = 0, g_errorCount = 0, globalVars = Map.empty,
      globalInitializers = [], stderr = []\<rparr>"

section \<open>Lowering functions\<close>

text \<open>
  The lowering functions call the dispatcher \<^verbatim>\<open>codegenExpr\<close> on the children of a node.
  Each is modelled with the dispatcher as its first argument; the dispatcher of the model
  is defined after them. A lowering returns the value, \<open>None\<close> for the null pointer.
\<close>

type_synonym expr_lowering = "expr \<Rightarrow> cg \<Rightarrow> val option \<times> cg"

section \<open>Expression lowering\<close>

subsection \<open>Instruction creation\<close>

definition CreateICmp :: "icmp_pred \<Rightarrow> val \<Rightarrow> val \<Rightarrow> cg \<Rightarrow> val \<times> cg" where
  "CreateICmp p a b s = emitv (\<lambda>n. ICmp n p a b) I1 s"

definition CreateFCmp :: "fcmp_pred \<Rightarrow> val \<Rightarrow> val \<Rightarrow> cg \<Rightarrow> val \<times> cg" where
  "CreateFCmp p a b s = emitv (\<lambda>n. FCmp n p a b) I1 s"

definition CreateBinOp :: "binop \<Rightarrow> val \<Rightarrow> val \<Rightarrow> cg \<Rightarrow> val \<times> cg" where
  "CreateBinOp op a b s = emitv (\<lambda>n. BinOp n op a b) (getType_val a) s"

definition CreateCast :: "castop \<Rightarrow> val \<Rightarrow> ty \<Rightarrow> cg \<Rightarrow> val \<times> cg" where
  "CreateCast op a t s = emitv (\<lambda>n. Cast n op a t) t s"

text \<open>\<^verbatim>\<open>CreatePHI\<close> followed by the calls of \<^verbatim>\<open>addIncoming\<close>.\<close>

definition CreatePHI :: "ty \<Rightarrow> (val \<times> nat option) list \<Rightarrow> cg \<Rightarrow> val \<times> cg" where
  "CreatePHI t incoming s = emitv (\<lambda>n. Phi n t incoming) t s"

definition CreateLoad :: "ty \<Rightarrow> val \<Rightarrow> cg \<Rightarrow> val \<times> cg" where
  "CreateLoad t p s = emitv (\<lambda>n. Load n t p) t s"

definition CreateStore :: "val \<Rightarrow> val \<Rightarrow> cg \<Rightarrow> cg" where
  "CreateStore v p s = emit (Store v p) s"

definition CreateGEP :: "ty \<Rightarrow> val \<Rightarrow> val list \<Rightarrow> cg \<Rightarrow> val \<times> cg" where
  "CreateGEP t p idxs s = emitv (\<lambda>n. GEP n t p idxs) PtrTy s"

text \<open>The pattern \<^verbatim>\<open>if (cond) v = builder->CreateCast(v, type)\<close>.\<close>

definition castIf :: "bool \<Rightarrow> castop \<Rightarrow> ty \<Rightarrow> val \<Rightarrow> cg \<Rightarrow> val \<times> cg" where
  "castIf cond op t v s = (if cond then CreateCast op v t s else (v, s))"

definition some_result :: "val \<times> cg \<Rightarrow> val option \<times> cg" where
  "some_result r = (Some (fst r), snd r)"

subsection \<open>Literals and identifiers\<close>

definition codegenIntLiteral :: "int \<Rightarrow> val" where
  "codegenIntLiteral v = ConstInt I32 v"

definition codegenDoubleLiteral :: "double \<Rightarrow> val" where
  "codegenDoubleLiteral v = ConstFP v"

definition codegenStringLiteral :: "string \<Rightarrow> val" where
  "codegenStringLiteral v = CreateGlobalString v"

definition codegenCharLiteral :: "int \<Rightarrow> val" where
  "codegenCharLiteral v = ConstInt I8 v"

definition codegenBoolLiteral :: "bool \<Rightarrow> val" where
  "codegenBoolLiteral v = ConstInt I1 (if v then 1 else 0)"

text \<open>\<^verbatim>\<open>getAllocatedType\<close> of a stack slot, \<^verbatim>\<open>getValueType\<close> of a global.\<close>

fun getAllocatedType :: "val \<Rightarrow> ty" where
  "getAllocatedType (AllocaV n t) = t"
| "getAllocatedType (GlobalVar n t) = t"
| "getAllocatedType v = getType_val v"

text \<open>\<^verbatim>\<open>map[name]\<close>: the entry, created with the null pointer if the name is missing.\<close>

definition map_index :: "(string \<rightharpoonup> 'a option) \<Rightarrow> string \<Rightarrow> 'a option \<times> (string \<rightharpoonup> 'a option)" where
  "map_index m k = (case m k of None \<Rightarrow> (None, m(k \<mapsto> None)) | Some v \<Rightarrow> (v, m))"

text \<open>\<^verbatim>\<open>CodeGenerator::codegenIdentifier\<close>.\<close>

definition codegenIdentifier :: "string \<Rightarrow> cg \<Rightarrow> val option \<times> cg" where
  "codegenIdentifier name s =
     (let (alloca, nv) = map_index (namedValues s) name;
          s1 = s\<lparr>namedValues := nv\<rparr>
      in case alloca of
           Some a \<Rightarrow> some_result (CreateLoad (getAllocatedType a) a s1)
         | None \<Rightarrow>
             (let (globalVar, gv) = map_index (globalValues s1) name;
                  s2 = s1\<lparr>globalValues := gv\<rparr>
              in case globalVar of
                   Some g \<Rightarrow> some_result (CreateLoad (getAllocatedType g) g s2)
                 | None \<Rightarrow>
                     (None, (cerr (''Error: Undefined variable '' @ sq name) s2)
                              \<lparr>errorCount := Suc (errorCount s2)\<rparr>)))"

subsection \<open>Logical operators\<close>

text \<open>The conversion of an operand to a truth value, as \<^verbatim>\<open>codegenLogicalOp\<close> writes it
  for each operand.\<close>

definition toBool :: "val \<Rightarrow> cg \<Rightarrow> val \<times> cg" where
  "toBool v s =
     (if getType_val v = I1 then (v, s)
      else if getType_val v = DoubleTy then CreateFCmp FCMP_ONE v (ConstFP 0) s
      else CreateICmp ICMP_NE v (ConstInt (getType_val v) 0) s)"

text \<open>\<^verbatim>\<open>CodeGenerator::codegenLogicalOp\<close>.\<close>

definition codegenLogicalOp :: "expr_lowering \<Rightarrow> string \<Rightarrow> expr \<Rightarrow> expr \<Rightarrow> cg \<Rightarrow> val option \<times> cg" where
  "codegenLogicalOp cgE op l r s =
     (case cgE l s of
        (None, s1) \<Rightarrow> (None, s1)
      | (Some left, s1) \<Rightarrow>
          if op = ''&&'' then
            (let (leftCond, s2) = toBool left s1;
                 function = GetInsertParent s2;
                 (rhsBB, s3) = BasicBlock_Create ''and_rhs'' function s2;
                 (mergeBB, s4) = BasicBlock_Create ''and_merge'' None s3;
                 s5 = CreateCondBr leftCond rhsBB mergeBB s4;
                 leftBB = insertBlock s5;
                 s6 = SetInsertPoint rhsBB s5
             in case cgE r s6 of
                  (None, s7) \<Rightarrow> (None, s7)
                | (Some rightVal, s7) \<Rightarrow>
                    (let (rightCond, s8) = toBool rightVal s7;
                         s9 = CreateBr (Some mergeBB) s8;
                         rhsEnd = insertBlock s9;
                         s10 = Function_insert function mergeBB s9;
                         s11 = SetInsertPoint mergeBB s10
                     in some_result
                          (CreatePHI I1 [(ConstInt I1 0, leftBB), (rightCond, rhsEnd)] s11)))
          else if op = ''||'' then
            (let (leftCond, s2) = toBool left s1;
                 function = GetInsertParent s2;
                 (rhsBB, s3) = BasicBlock_Create ''or_rhs'' function s2;
                 (mergeBB, s4) = BasicBlock_Create ''or_merge'' None s3;
                 s5 = CreateCondBr leftCond mergeBB rhsBB s4;
                 leftBB = insertBlock s5;
                 s6 = SetInsertPoint rhsBB s5
             in case cgE r s6 of
                  (None, s7) \<Rightarrow> (None, s7)
                | (Some rightVal, s7) \<Rightarrow>
                    (let (rightCond, s8) = toBool rightVal s7;
                         s9 = CreateBr (Some mergeBB) s8;
                         rhsEnd = insertBlock s9;
                         s10 = Function_insert function mergeBB s9;
                         s11 = SetInsertPoint mergeBB s10
                     in some_result
                          (CreatePHI I1 [(ConstInt I1 1, leftBB), (rightCond, rhsEnd)] s11)))
          else (None, s1))"

subsection \<open>Division and remainder with a zero check\<close>

text \<open>\<^verbatim>\<open>CodeGenerator::createDivisionWithZeroCheck\<close>.\<close>

definition createDivisionWithZeroCheck :: "val \<Rightarrow> val \<Rightarrow> string \<Rightarrow> bool \<Rightarrow> cg \<Rightarrow> val \<times> cg" where
  "createDivisionWithZeroCheck left right errorMsg isIntegerDivision s =
     (let function = GetInsertParent s;
          (errorBB, s1) = BasicBlock_Create ''div_error'' function s;
          (computeBB, s2) = BasicBlock_Create ''div_compute'' function s1;
          (mergeBB, s3) = BasicBlock_Create ''div_merge'' function s2
      in if isIntegerDivision then
           (let zero = ConstInt (getType_val right) 0;
                (isZero, s4) = CreateICmp ICMP_EQ right zero s3;
                s5 = CreateCondBr isZero errorBB computeBB s4;
                s6 = SetInsertPoint errorBB s5;
                errorMsgVal = CreateGlobalString errorMsg;
                (call, s7) = CreateCall ''printf'' I32 [errorMsgVal] s6;
                errorValue = ConstInt (getType_val left) 0;
                s8 = CreateBr (Some mergeBB) s7;
                s9 = SetInsertPoint computeBB s8;
                (divResult, s10) = CreateBinOp SDiv left right s9;
                s11 = CreateBr (Some mergeBB) s10;
                s12 = SetInsertPoint mergeBB s11
            in CreatePHI (getType_val left) [(errorValue, Some errorBB), (divResult, Some computeBB)] s12)
         else
           (let zero = ConstFP 0;
                (isZero, s4) = CreateFCmp FCMP_OEQ right zero s3;
                s5 = CreateCondBr isZero errorBB computeBB s4;
                s6 = SetInsertPoint errorBB s5;
                errorMsgVal = CreateGlobalString errorMsg;
                (call, s7) = CreateCall ''printf'' I32 [errorMsgVal] s6;
                errorValue = ConstNaN;
                s8 = CreateBr (Some mergeBB) s7;
                s9 = SetInsertPoint computeBB s8;
                (divResult, s10) = CreateBinOp FDiv left right s9;
                s11 = CreateBr (Some mergeBB) s10;
                s12 = SetInsertPoint mergeBB s11
            in CreatePHI DoubleTy [(errorValue, Some errorBB), (divResult, Some computeBB)] s12))"

text \<open>\<^verbatim>\<open>CodeGenerator::createModuloWithZeroCheck\<close>.\<close>

definition createModuloWithZeroCheck :: "val \<Rightarrow> val \<Rightarrow> string \<Rightarrow> cg \<Rightarrow> val \<times> cg" where
  "createModuloWithZeroCheck left right errorMsg s =
     (let function = GetInsertParent s;
          (errorBB, s1) = BasicBlock_Create ''mod_error'' function s;
          (computeBB, s2) = BasicBlock_Create ''mod_compute'' function s1;
          (mergeBB, s3) = BasicBlock_Create ''mod_merge'' function s2
      in if getType_val right = DoubleTy then
           (let zero = ConstFP 0;
                (isZero, s4) = CreateFCmp FCMP_OEQ right zero s3;
                s5 = CreateCondBr isZero errorBB computeBB s4;
                s6 = SetInsertPoint errorBB s5;
                errorMsgVal = CreateGlobalString errorMsg;
                (call, s7) = CreateCall ''printf'' I32 [errorMsgVal] s6;
                errorValue = ConstNaN;
                s8 = CreateBr (Some mergeBB) s7;
                s9 = SetInsertPoint computeBB s8;
                (modResult, s10) = CreateBinOp FRem left right s9;
                s11 = CreateBr (Some mergeBB) s10;
                s12 = SetInsertPoint mergeBB s11
            in CreatePHI DoubleTy [(errorValue, Some errorBB), (modResult, Some computeBB)] s12)
         else
           (let zero = ConstInt (getType_val right) 0;
                (isZero, s4) = CreateICmp ICMP_EQ right zero s3;
                s5 = CreateCondBr isZero errorBB computeBB s4;
                s6 = SetInsertPoint errorBB s5;
                errorMsgVal = CreateGlobalString errorMsg;
                (call, s7) = CreateCall ''printf'' I32 [errorMsgVal] s6;
                errorValue = ConstInt (getType_val left) 0;
                s8 = CreateBr (Some mergeBB) s7;
                s9 = SetInsertPoint computeBB s8;
                (modResult, s10) = CreateBinOp SRem left right s9;
                s11 = CreateBr (Some mergeBB) s10;
                s12 = SetInsertPoint mergeBB s11
            in CreatePHI (getType_val left) [(errorValue, Some errorBB), (modResult, Some computeBB)] s12))"

subsection \<open>Binary operators\<close>

definition msgDivisionByZero :: string where
  "msgDivisionByZero = ''Runtime Error: Division by zero'' @ [CHR 0x0A]"

definition msgIntegerDivisionByZero :: string where
  "msgIntegerDivisionByZero = ''Runtime Error: Integer division by zero'' @ [CHR 0x0A]"

definition msgModuloByZero :: string where
  "msgModuloByZero = ''Runtime Error: Modulo by zero'' @ [CHR 0x0A]"

text \<open>The type promotions of \<^verbatim>\<open>codegenBinaryOp\<close>, applied to the lowered operands:
  bool to int, char to int, i16 to i32, then int to double when the other operand is
  a double.\<close>

definition promoteOperands :: "val \<Rightarrow> val \<Rightarrow> cg \<Rightarrow> (val \<times> val) \<times> cg" where
  "promoteOperands left right s =
     (let (left1, s1) = castIf (getType_val left = I1) ZExt I32 left s;
          (right1, s2) = castIf (getType_val right = I1) ZExt I32 right s1;
          (left2, s3) = castIf (getType_val left1 = I8) SExt I32 left1 s2;
          (right2, s4) = castIf (getType_val right1 = I8) SExt I32 right1 s3;
          (left3, s5) = castIf (getType_val left2 = I16) SExt I32 left2 s4;
          (right3, s6) = castIf (getType_val right2 = I16) SExt I32 right2 s5;
          (right4, s7) = castIf (getType_val left3 = DoubleTy \<and> isIntegerTy (getType_val right3))
                           SIToFP DoubleTy right3 s6;
          (left4, s8) = castIf (\<not> (getType_val left3 = DoubleTy \<and> isIntegerTy (getType_val right3))
                                  \<and> getType_val right3 = DoubleTy \<and> isIntegerTy (getType_val left3))
                           SIToFP DoubleTy left3 s7
      in ((left4, right4), s8))"

text \<open>String concatenation: allocate, copy, append, and register the temporary.\<close>

definition concatStrings :: "val \<Rightarrow> val \<Rightarrow> cg \<Rightarrow> val \<times> cg" where
  "concatStrings left right s =
     (let (len1, s1) = CreateCall ''strlen'' I64 [left] s;
          (len2, s2) = CreateCall ''strlen'' I64 [right] s1;
          (totalLen, s3) = CreateBinOp Add len1 len2 s2;
          (totalLen1, s4) = CreateBinOp Add totalLen (ConstInt I64 1) s3;
          (newStr, s5) = CreateCall ''malloc'' PtrTy [totalLen1] s4;
          (c1, s6) = CreateCall ''strcpy'' PtrTy [newStr, left] s5;
          (c2, s7) = CreateCall ''strcat'' PtrTy [newStr, right] s6
      in (newStr, pushTempMemory newStr s7))"

text \<open>The operator itself, on the promoted operands.\<close>

definition applyOperator :: "string \<Rightarrow> val \<Rightarrow> val \<Rightarrow> cg \<Rightarrow> val option \<times> cg" where
  "applyOperator op left right s =
     (if op = ''+'' \<and> isPointerTy (getType_val left) \<and> isPointerTy (getType_val right) then
        some_result (concatStrings left right s)
      else
        (let isFloat = (getType_val left = DoubleTy) in
         if op = ''+'' then some_result (CreateBinOp (if isFloat then FAdd else Add) left right s)
         else if op = ''-'' then some_result (CreateBinOp (if isFloat then FSub else Sub) left right s)
         else if op = ''*'' then some_result (CreateBinOp (if isFloat then FMul else Mul) left right s)
         else if op = ''/'' then
           (let (left1, s1) = castIf (getType_val left \<noteq> DoubleTy) SIToFP DoubleTy left s;
                (right1, s2) = castIf (getType_val right \<noteq> DoubleTy) SIToFP DoubleTy right s1
            in some_result (createDivisionWithZeroCheck left1 right1 msgDivisionByZero False s2))
         else if op = ''//'' then
           (let (left1, s1) = castIf (getType_val left = DoubleTy) FPToSI I32 left s;
                (right1, s2) = castIf (getType_val right = DoubleTy) FPToSI I32 right s1
            in some_result (createDivisionWithZeroCheck left1 right1 msgIntegerDivisionByZero True s2))
         else if op = ''%'' then
           some_result (createModuloWithZeroCheck left right msgModuloByZero s)
         else if op = ''=='' then
           some_result (if isFloat then CreateFCmp FCMP_OEQ left right s else CreateICmp ICMP_EQ left right s)
         else if op = ''!='' then
           some_result (if isFloat then CreateFCmp FCMP_ONE left right s else CreateICmp ICMP_NE left right s)
         else if op = ''<'' then
           some_result (if isFloat then CreateFCmp FCMP_OLT left right s else CreateICmp ICMP_SLT left right s)
         else if op = ''>'' then
           some_result (if isFloat then CreateFCmp FCMP_OGT left right s else CreateICmp ICMP_SGT left right s)
         else if op = ''<='' then
           some_result (if isFloat then CreateFCmp FCMP_OLE left right s else CreateICmp ICMP_SLE left right s)
         else if op = ''>='' then
           some_result (if isFloat then CreateFCmp FCMP_OGE left right s else CreateICmp ICMP_SGE left right s)
         else (None, s)))"

text \<open>\<^verbatim>\<open>CodeGenerator::codegenBinaryOp\<close>: the logical operators are dispatched before
  any operand is lowered; otherwise both operands are lowered, left first, then
  promoted, then the operator is applied.\<close>

definition codegenBinaryOp :: "expr_lowering \<Rightarrow> string \<Rightarrow> expr \<Rightarrow> expr \<Rightarrow> cg \<Rightarrow> val option \<times> cg" where
  "codegenBinaryOp cgE op l r s =
     (if op = ''&&'' \<or> op = ''||'' then codegenLogicalOp cgE op l r s
      else
        (let (left, s1) = cgE l s;
             (right, s2) = cgE r s1
         in case (left, right) of
              (Some lv, Some rv) \<Rightarrow>
                (let ((lv', rv'), s3) = promoteOperands lv rv s2 in applyOperator op lv' rv' s3)
            | _ \<Rightarrow> (None, s2)))"

text \<open>\<^verbatim>\<open>CodeGenerator::codegenUnaryOp\<close>. The builder writes a negation as a subtraction
  from zero and a complement as an exclusive or with all ones.\<close>

definition codegenUnaryOp :: "expr_lowering \<Rightarrow> string \<Rightarrow> expr \<Rightarrow> cg \<Rightarrow> val option \<times> cg" where
  "codegenUnaryOp cgE op e s =
     (case cgE e s of
        (None, s1) \<Rightarrow> (None, cerr (''Error: Invalid operand for unary operator '' @ sq op) s1)
      | (Some operand, s1) \<Rightarrow>
          if op = ''-'' then
            (if getType_val operand = DoubleTy
             then some_result (emitv (\<lambda>n. FNeg n operand) DoubleTy s1)
             else some_result (CreateBinOp Sub (ConstInt (getType_val operand) 0) operand s1))
          else if op = ''!'' then
            some_result (CreateBinOp Xor operand (ConstInt (getType_val operand) (- 1)) s1)
          else (None, cerr (''Error: Unknown unary operator '' @ sq op) s1))"

section \<open>Assignment\<close>

subsection \<open>Conversion to a type\<close>

text \<open>The first case of \<^verbatim>\<open>CodeGenerator::convertToType\<close>: between integer types.\<close>

definition convertInteger :: "val \<Rightarrow> ty \<Rightarrow> cg \<Rightarrow> val \<times> cg" where
  "convertInteger v targetType s =
     (let sourceBits = getIntegerBitWidth (getType_val v);
          targetBits = getIntegerBitWidth targetType
      in if sourceBits < targetBits then
           (if sourceBits = 1 \<or> sourceBits = 8 then CreateCast ZExt v targetType s
            else CreateCast SExt v targetType s)
         else if sourceBits > targetBits then CreateCast Trunc v targetType s
         else CreateCast BitCast v targetType s)"

text \<open>\<^verbatim>\<open>CodeGenerator::convertToType\<close>. The recursive call of the third case converts
  the 32-bit integer it has just made, which the first case handles.\<close>

definition convertToType :: "val \<Rightarrow> ty \<Rightarrow> cg \<Rightarrow> val \<times> cg" where
  "convertToType v targetType s =
     (let sourceType = getType_val v in
      if sourceType = targetType then (v, s)
      else if isIntegerTy sourceType \<and> isIntegerTy targetType then convertInteger v targetType s
      else if isIntegerTy sourceType \<and> targetType = DoubleTy then
        (if getIntegerBitWidth sourceType = 1 \<or> getIntegerBitWidth sourceType = 8
         then CreateCast UIToFP v targetType s
         else CreateCast SIToFP v targetType s)
      else if sourceType = DoubleTy \<and> isIntegerTy targetType then
        (let (intVal, s1) = CreateCast FPToSI v I32 s
         in if targetType \<noteq> I32 then convertInteger intVal targetType s1 else (intVal, s1))
      else if isPointerTy sourceType \<and> isPointerTy targetType then CreateCast BitCast v targetType s
      else (v, s))"

subsection \<open>Compound operators\<close>

definition msgDivAssign :: string where
  "msgDivAssign = ''Runtime Error: Division by zero in /= operator'' @ [CHR 0x0A]"

definition msgFloorDivAssign :: string where
  "msgFloorDivAssign = ''Runtime Error: Integer division by zero in //= operator'' @ [CHR 0x0A]"

definition msgModAssign :: string where
  "msgModAssign = ''Runtime Error: Modulo by zero in %= operator'' @ [CHR 0x0A]"

text \<open>The zero check that \<^verbatim>\<open>codegenAssignment\<close> writes out for \<^verbatim>\<open>/=\<close> and \<^verbatim>\<open>%=\<close> on a
  variable: the test is given, the three blocks are created, and the result is the
  merge of the default and of the computed value.\<close>

definition assignZeroCheck ::
  "string \<Rightarrow> val \<Rightarrow> string \<Rightarrow> val \<Rightarrow> binop \<Rightarrow> val \<Rightarrow> val \<Rightarrow> ty \<Rightarrow> cg \<Rightarrow> val \<times> cg" where
  "assignZeroCheck name isZero msg dflt op oldVal v t s =
     (let function = GetInsertParent s;
          (errorBB, s1) = BasicBlock_Create (name @ ''_error'') function s;
          (computeBB, s2) = BasicBlock_Create (name @ ''_compute'') function s1;
          (mergeBB, s3) = BasicBlock_Create (name @ ''_merge'') function s2;
          s4 = CreateCondBr isZero errorBB computeBB s3;
          s5 = SetInsertPoint errorBB s4;
          (call, s6) = CreateCall ''printf'' I32 [CreateGlobalString msg] s5;
          s7 = CreateBr (Some mergeBB) s6;
          s8 = SetInsertPoint computeBB s7;
          (result, s9) = CreateBinOp op oldVal v s8;
          s10 = CreateBr (Some mergeBB) s9;
          s11 = SetInsertPoint mergeBB s10
      in CreatePHI t [(dflt, Some errorBB), (result, Some computeBB)] s11)"

text \<open>The check of \<^verbatim>\<open>//=\<close> on a variable: the error block prints, calls \<^verbatim>\<open>exit(1)\<close> and
  ends unreachable; the result is the quotient, in the compute block.\<close>

definition floorDivAssign :: "val \<Rightarrow> val \<Rightarrow> cg \<Rightarrow> val \<times> cg" where
  "floorDivAssign oldVal v s =
     (let (leftInt, s1) = castIf (getType_val oldVal = DoubleTy) FPToSI I32 oldVal s;
          (rightInt, s2) = castIf (getType_val v = DoubleTy) FPToSI I32 v s1;
          function = GetInsertParent s2;
          zero = ConstInt I32 0;
          (isZero, s3) = CreateICmp ICMP_EQ rightInt zero s2;
          (errorBB, s4) = BasicBlock_Create ''floordivassign_error'' function s3;
          (computeBB, s5) = BasicBlock_Create ''floordivassign_compute'' function s4;
          s6 = CreateCondBr isZero errorBB computeBB s5;
          s7 = SetInsertPoint errorBB s6;
          (call, s8) = CreateCall ''printf'' I32 [CreateGlobalString msgFloorDivAssign] s7;
          (ex, s9) = CreateCall ''exit'' VoidTy [ConstInt I32 1] s8;
          s10 = emit Unreachable s9;
          s11 = SetInsertPoint computeBB s10
      in CreateBinOp SDiv leftInt rightInt s11)"

text \<open>The compound operators on a variable, from the load of the old value on.
  \<^verbatim>\<open>codegenAssignment\<close> contains this text twice, for a global and for a local variable.\<close>

definition compoundAssign :: "string \<Rightarrow> val \<Rightarrow> val \<Rightarrow> cg \<Rightarrow> val \<times> cg" where
  "compoundAssign op oldVal v0 s =
     (let isFloat = (getType_val oldVal = DoubleTy);
          (v, s1) = (if getType_val v0 \<noteq> getType_val oldVal
                     then convertToType v0 (getType_val oldVal) s else (v0, s))
      in if op = ''+='' then CreateBinOp (if isFloat then FAdd else Add) oldVal v s1
         else if op = ''-='' then CreateBinOp (if isFloat then FSub else Sub) oldVal v s1
         else if op = ''*='' then CreateBinOp (if isFloat then FMul else Mul) oldVal v s1
         else if op = ''/='' then
           (if isFloat then
              (let (isZero, s2) = CreateFCmp FCMP_OEQ v (ConstFP 0) s1
               in assignZeroCheck ''divassign'' isZero msgDivAssign ConstNaN FDiv oldVal v DoubleTy s2)
            else
              (let (isZero, s2) = CreateICmp ICMP_EQ v (ConstInt I32 0) s1
               in assignZeroCheck ''divassign'' isZero msgDivAssign (ConstInt I32 0) SDiv oldVal v I32 s2))
         else if op = ''//='' then floorDivAssign oldVal v s1
         else if op = ''%='' then
           (if isFloat then
              (let (isZero, s2) = CreateFCmp FCMP_OEQ v (ConstFP 0) s1
               in assignZeroCheck ''modassign'' isZero msgModAssign ConstNaN FRem oldVal v DoubleTy s2)
            else
              (let (isZero, s2) = CreateICmp ICMP_EQ v (ConstInt (getType_val oldVal) 0) s1
               in assignZeroCheck ''modassign'' isZero msgModAssign
                    (ConstInt (getType_val oldVal) 0) SRem oldVal v (getType_val oldVal) s2))
         else (v, s1))"

text \<open>The compound operators on an array element: no operator is checked.\<close>

definition compoundAssignElement :: "string \<Rightarrow> val \<Rightarrow> val \<Rightarrow> cg \<Rightarrow> val \<times> cg" where
  "compoundAssignElement op oldVal v0 s =
     (let isFloat = (getType_val oldVal = DoubleTy);
          (v, s1) = (if getType_val v0 \<noteq> getType_val oldVal
                     then convertToType v0 (getType_val oldVal) s else (v0, s))
      in if op = ''+='' then CreateBinOp (if isFloat then FAdd else Add) oldVal v s1
         else if op = ''-='' then CreateBinOp (if isFloat then FSub else Sub) oldVal v s1
         else if op = ''*='' then CreateBinOp (if isFloat then FMul else Mul) oldVal v s1
         else if op = ''/='' then CreateBinOp (if isFloat then FDiv else SDiv) oldVal v s1
         else if op = ''//='' then
           (let (leftInt, s2) = castIf (getType_val oldVal = DoubleTy) FPToSI I32 oldVal s1;
                (rightInt, s3) = castIf (getType_val v = DoubleTy) FPToSI I32 v s2
            in CreateBinOp SDiv leftInt rightInt s3)
         else if op = ''%='' then CreateBinOp (if isFloat then FRem else SRem) oldVal v s1
         else (v, s1))"

subsection \<open>The statement\<close>

text \<open>The element type that \<^verbatim>\<open>codegenAssignment\<close> and \<^verbatim>\<open>codegenArrayAccess\<close> take from
  the allocated type of an array variable.\<close>

definition elementTypeOf :: "ty \<Rightarrow> ty" where
  "elementTypeOf arrayType =
     (if isArrayTy arrayType then getElementType arrayType
      else if isPointerTy arrayType then I32 else I8)"

text \<open>The address of an element: of an array, through a loaded pointer, or of a pointer.\<close>

definition elementPointer :: "ty \<Rightarrow> ty \<Rightarrow> val \<Rightarrow> val \<Rightarrow> cg \<Rightarrow> val \<times> cg" where
  "elementPointer arrayType elementType arrayPtr index s =
     (if isArrayTy arrayType then CreateGEP arrayType arrayPtr [ConstInt I64 0, index] s
      else if isPointerTy arrayType then
        (let (loadedPtr, s1) = CreateLoad arrayType arrayPtr s
         in CreateGEP elementType loadedPtr [index] s1)
      else CreateGEP elementType arrayPtr [index] s)"

text \<open>\<^verbatim>\<open>CodeGenerator::codegenAssignment\<close>, the assignment to an array element. A null
  entry of the symbol table, on which the cast of the source is undefined, is taken
  as the failing cast.\<close>

definition codegenAssignment_element ::
  "expr_lowering \<Rightarrow> expr \<Rightarrow> expr \<Rightarrow> string \<Rightarrow> expr \<Rightarrow> cg \<Rightarrow> cg" where
  "codegenAssignment_element cgE array indexE op valueE s =
     (case cgE indexE s of
        (None, s1) \<Rightarrow> cerr ''Error: Invalid index in array assignment'' s1
      | (Some index, s1) \<Rightarrow>
          (case array of
             IdentifierNode arrayVarName \<Rightarrow>
               (case namedValues s1 arrayVarName of
                  None \<Rightarrow> cerr (''Error: Undefined array variable '' @ sq arrayVarName) s1
                | Some None \<Rightarrow> cerr ''Error: Not an array variable'' s1
                | Some (Some arrayPtr) \<Rightarrow>
                    (let arrayType = getAllocatedType arrayPtr;
                         elementType = elementTypeOf arrayType
                     in case cgE valueE s1 of
                          (None, s2) \<Rightarrow> cerr ''Error: Invalid assignment value for array element'' s2
                        | (Some v0, s2) \<Rightarrow>
                            (let (ptr, s3) = elementPointer arrayType elementType arrayPtr index s2;
                                 (v1, s4) =
                                   (if op \<noteq> ''='' then
                                      (let (oldVal, s') = CreateLoad elementType ptr s3
                                       in compoundAssignElement op oldVal v0 s')
                                    else (v0, s3));
                                 (v2, s5) = (if getType_val v1 \<noteq> elementType
                                             then convertToType v1 elementType s4 else (v1, s4))
                             in CreateStore v2 ptr s5)))
           | _ \<Rightarrow> cerr ''Error: Array assignment target must be a variable'' s1))"

text \<open>\<^verbatim>\<open>CodeGenerator::codegenAssignment\<close>, the assignment to a variable: a local
  variable if the name has a slot, else a global variable.\<close>

definition codegenAssignment_variable :: "expr_lowering \<Rightarrow> string \<Rightarrow> string \<Rightarrow> expr \<Rightarrow> cg \<Rightarrow> cg" where
  "codegenAssignment_variable cgE name op valueE s =
     (let (alloca, nv) = map_index (namedValues s) name;
          sa = s\<lparr>namedValues := nv\<rparr>
      in case alloca of
           None \<Rightarrow>
             (let (globalVar, gv) = map_index (globalValues sa) name;
                  sg = sa\<lparr>globalValues := gv\<rparr>
              in case globalVar of
                   None \<Rightarrow> cerr (''Error: Undefined variable '' @ sq name) sg
                 | Some g \<Rightarrow>
                     (case cgE valueE sg of
                        (None, s1) \<Rightarrow>
                          cerr (''Error: Invalid assignment value for variable '' @ sq name) s1
                      | (Some v0, s1) \<Rightarrow>
                          (let (v, s2) =
                                 (if op \<noteq> ''='' then
                                    (let (oldVal, s') = CreateLoad (getAllocatedType g) g s1
                                     in compoundAssign op oldVal v0 s')
                                  else (v0, s1));
                               s3 = CreateStore v g s2
                           in if isPointerTy (getType_val v) then removeTempMemory v s3 else s3)))
         | Some a \<Rightarrow>
             (case cgE valueE sa of
                (None, s1) \<Rightarrow>
                  cerr (''Error: Invalid assignment value for variable '' @ sq name) s1
              | (Some v0, s1) \<Rightarrow>
                  (let (v, s2) =
                         (if op \<noteq> ''='' then
                            (let (oldVal, s') = CreateLoad (getAllocatedType a) a s1
                             in compoundAssign op oldVal v0 s')
                          else (v0, s1));
                       s3 = CreateStore v a s2;
                       s4 = (if isPointerTy (getType_val v) \<and> v \<in> set (tempMemoryStack s3)
                             then trackOwnedString name v (removeTempMemory v s3) else s3)
                   in clearTempMemory s4)))"

text \<open>\<^verbatim>\<open>CodeGenerator::codegenAssignment\<close>.\<close>

definition codegenAssignment :: "expr_lowering \<Rightarrow> expr \<Rightarrow> string \<Rightarrow> expr \<Rightarrow> cg \<Rightarrow> cg" where
  "codegenAssignment cgE target op valueE s =
     (case target of
        ArrayAccessNode array indexE \<Rightarrow> codegenAssignment_element cgE array indexE op valueE s
      | IdentifierNode name \<Rightarrow> codegenAssignment_variable cgE name op valueE s
      | _ \<Rightarrow> cerr ''Error: Assignment target must be a variable identifier or array element'' s)"

section \<open>Array access\<close>

text \<open>
  \<^verbatim>\<open>CodeGenerator::codegenArrayAccess\<close>. The element type that the declared type name of
  the variable selects, and whether the variable is a string.
\<close>

definition msgArrayBounds :: string where
  "msgArrayBounds = ''Runtime Error: Array index out of bounds'' @ [CHR 0x0A]"

definition elementTypeByName :: "string \<Rightarrow> ty \<times> bool" where
  "elementTypeByName varType =
     (if varType = ''string'' \<or> varType = ''char*'' then (I8, True)
      else if varType = ''int'' \<or> varType = ''int*'' then (I32, False)
      else if varType = ''double'' \<or> varType = ''double*'' then (DoubleTy, False)
      else (I8, False))"

text \<open>The loop that collects the indices of a chained access \<^verbatim>\<open>m[i][j]\<close>, outermost
  dimension first, and finds the name of the variable.\<close>

fun collectIndices ::
  "expr_lowering \<Rightarrow> expr \<Rightarrow> expr \<Rightarrow> val list \<Rightarrow> cg \<Rightarrow> (val list \<times> string) option \<times> cg" where
  "collectIndices cgE (ArrayAccessNode inner innerIndex) index acc s =
     (case cgE index s of
        (None, s1) \<Rightarrow> (None, s1)
      | (Some idx, s1) \<Rightarrow> collectIndices cgE inner innerIndex (idx # acc) s1)"
| "collectIndices cgE (IdentifierNode name) index acc s =
     (case cgE index s of
        (None, s1) \<Rightarrow> (None, s1)
      | (Some idx, s1) \<Rightarrow> (Some (idx # acc, name), s1))"
| "collectIndices cgE array index acc s =
     (case cgE index s of
        (None, s1) \<Rightarrow> (None, s1)
      | (Some idx, s1) \<Rightarrow> (None, cerr ''Error: Unsupported nested array access'' s1))"

text \<open>The loop over all indices but the last: one address computation per dimension.\<close>

fun subPointers :: "val list \<Rightarrow> val \<Rightarrow> ty \<Rightarrow> cg \<Rightarrow> (val \<times> ty) option \<times> cg" where
  "subPointers [] currentPtr currentType s = (Some (currentPtr, currentType), s)"
| "subPointers (i # rest) currentPtr currentType s =
     (if \<not> isArrayTy currentType then
        (None, cerr ''Error: Dimension mismatch in array access'' s)
      else
        (let (p, s1) = CreateGEP currentType currentPtr [ConstInt I64 0, i] s
         in subPointers rest p (getElementType currentType) s1))"

text \<open>
  The first half of the function: the pointer, the type it points to, the element type,
  the index, and whether the access is to a variable directly. A symbol-table entry
  that is not a stack slot is refused.
\<close>

fun isAlloca :: "val \<Rightarrow> bool" where
  "isAlloca (AllocaV n t) = True"
| "isAlloca v = False"

definition arrayBase ::
  "expr_lowering \<Rightarrow> expr \<Rightarrow> expr \<Rightarrow> val \<Rightarrow> cg \<Rightarrow> (val \<times> ty \<times> ty \<times> val \<times> bool) option \<times> cg" where
  "arrayBase cgE array indexNode index s =
     (case array of
        IdentifierNode arrayVarName \<Rightarrow>
          (case namedValues s arrayVarName of
             None \<Rightarrow> (None, cerr (''Error: Undefined array variable '' @ sq arrayVarName) s)
           | Some None \<Rightarrow> (None, cerr ''Error: Not an array variable'' s)
           | Some (Some arrayPtr) \<Rightarrow>
               if isAlloca arrayPtr then
                 (let arrayType = getAllocatedType arrayPtr;
                      elementType = (if isArrayTy arrayType then getElementType arrayType
                                     else if isPointerTy arrayType then I32 else I8)
                  in (Some (arrayPtr, arrayType, elementType, index, True), s))
               else (None, cerr ''Error: Not an array variable'' s))
      | ArrayAccessNode inner innerIndex \<Rightarrow>
          (case collectIndices cgE array indexNode [] s of
             (None, s1) \<Rightarrow> (None, s1)
           | (Some (allIndices, baseVarName), s1) \<Rightarrow>
               (case namedValues s1 baseVarName of
                  None \<Rightarrow> (None, cerr (''Error: Undefined array variable '' @ sq baseVarName) s1)
                | Some None \<Rightarrow> (None, cerr ''Error: Not an array variable'' s1)
                | Some (Some basePtr) \<Rightarrow>
                    if isAlloca basePtr then
                      (case subPointers (butlast allIndices) basePtr (getAllocatedType basePtr) s1 of
                         (None, s2) \<Rightarrow> (None, s2)
                       | (Some (arrayPtr, arrayType), s2) \<Rightarrow>
                           (Some (arrayPtr, arrayType,
                                  (if isArrayTy arrayType then getElementType arrayType else arrayType),
                                  last allIndices, False), s2))
                    else (None, cerr ''Error: Not an array variable'' s1)))
      | _ \<Rightarrow> (None, cerr ''Error: Unsupported array access pattern'' s))"

text \<open>The second check of the guard, emitted for strings only: the index against the
  length that \<^verbatim>\<open>strlen\<close> returns for the pointer of the access.\<close>

definition stringOverflowCheck :: "val \<Rightarrow> val \<Rightarrow> val \<Rightarrow> cg \<Rightarrow> val \<times> cg" where
  "stringOverflowCheck arrayPtr index isNegative s =
     (let (length64, s1) = CreateCall ''strlen'' I64 [arrayPtr] s;
          (length32, s2) = CreateCast Trunc length64 I32 s1;
          t = getType_val index;
          (index32, s3) =
            (if t \<noteq> I32 \<and> isIntegerTy t \<and> getIntegerBitWidth t < 32 then CreateCast SExt index I32 s2
             else if t \<noteq> I32 \<and> isIntegerTy t \<and> getIntegerBitWidth t > 32 then CreateCast Trunc index I32 s2
             else (index, s2));
          (isOverflow, s4) = CreateICmp ICMP_SGE index32 length32 s3
      in CreateBinOp Or isNegative isOverflow s4)"

text \<open>The second half: the guard, the error branch, the access and the merge
  (lines 1790 to 1894).\<close>

definition boundsCheckedAccess ::
  "val \<Rightarrow> ty \<Rightarrow> ty \<Rightarrow> val \<Rightarrow> bool \<Rightarrow> bool \<Rightarrow> cg \<Rightarrow> val \<times> cg" where
  "boundsCheckedAccess arrayPtr arrayType elementType index isFromVariable isStringType s =
     (let function = GetInsertParent s;
          (checkBB, s1) = BasicBlock_Create ''bounds_check'' function s;
          (errorBB, s2) = BasicBlock_Create ''bounds_error'' None s1;
          (accessBB, s3) = BasicBlock_Create ''array_access'' None s2;
          (mergeBB, s4) = BasicBlock_Create ''bounds_merge'' None s3;
          s5 = SetInsertPoint checkBB (CreateBr (Some checkBB) s4);
          zero = ConstInt (getType_val index) 0;
          (isNegative, s6) = CreateICmp ICMP_SLT index zero s5;
          (isOutOfBounds, s7) =
            (if isStringType \<and> moduleFns s6 ''strlen'' \<noteq> None
             then stringOverflowCheck arrayPtr index isNegative s6
             else (isNegative, s6));
          s8 = CreateCondBr isOutOfBounds errorBB accessBB s7;
          s9 = SetInsertPoint errorBB (Function_insert function errorBB s8);
          s10 = snd (CreateCall ''printf'' I32 [CreateGlobalString msgArrayBounds] s9);
          defaultVal = ConstNull elementType;
          s11 = CreateBr (Some mergeBB) s10;
          errorExitBB = insertBlock s11;
          s12 = SetInsertPoint accessBB (Function_insert function accessBB s11);
          (ptr, s13) =
            (if isArrayTy arrayType \<and> isFromVariable then
               CreateGEP arrayType arrayPtr [ConstInt I64 0, index] s12
             else if isArrayTy arrayType \<and> \<not> isFromVariable then
               CreateGEP arrayType arrayPtr [ConstInt I64 0, index] s12
             else if isPointerTy arrayType then
               (let (loadedPtr, t1) = CreateLoad arrayType arrayPtr s12
                in CreateGEP elementType loadedPtr [index] t1)
             else CreateGEP elementType arrayPtr [index] s12);
          (loadedVal, s14) = CreateLoad elementType ptr s13;
          s15 = CreateBr (Some mergeBB) s14;
          accessExitBB = insertBlock s15;
          s16 = SetInsertPoint mergeBB (Function_insert function mergeBB s15)
      in CreatePHI elementType [(defaultVal, errorExitBB), (loadedVal, accessExitBB)] s16)"

definition codegenArrayAccess :: "expr_lowering \<Rightarrow> expr \<Rightarrow> expr \<Rightarrow> cg \<Rightarrow> val option \<times> cg" where
  "codegenArrayAccess cgE array indexNode s =
     (case cgE indexNode s of
        (None, s1) \<Rightarrow> (None, s1)
      | (Some index0, s1) \<Rightarrow>
          (case arrayBase cgE array indexNode index0 s1 of
             (None, s2) \<Rightarrow> (None, s2)
           | (Some (arrayPtr, arrayType, elementType0, index, isFromVariable), s2) \<Rightarrow>
               (let (elementType, isStringType) =
                      (case array of
                         IdentifierNode arrayVarName \<Rightarrow>
                           (case variableTypes s2 arrayVarName of
                              Some varType \<Rightarrow> elementTypeByName varType
                            | None \<Rightarrow> (elementType0, False))
                       | _ \<Rightarrow> (elementType0, False))
                in some_result
                     (boundsCheckedAccess arrayPtr arrayType elementType index
                        isFromVariable isStringType s2))))"

section \<open>Function calls\<close>

text \<open>Decimal numbers and type names, as the diagnostics print them.\<close>

fun show_nat :: "nat \<Rightarrow> string" where
  "show_nat n = (if n < 10 then [char_of (48 + n)]
                 else show_nat (n div 10) @ [char_of (48 + n mod 10)])"

fun show_ty :: "ty \<Rightarrow> string" where
  "show_ty I1 = ''i1''"
| "show_ty I8 = ''i8''"
| "show_ty I16 = ''i16''"
| "show_ty I32 = ''i32''"
| "show_ty I64 = ''i64''"
| "show_ty DoubleTy = ''double''"
| "show_ty PtrTy = ''ptr''"
| "show_ty VoidTy = ''void''"
| "show_ty (ArrayTy t n) = ''['' @ show_nat n @ '' x '' @ show_ty t @ '']''"

text \<open>\<^verbatim>\<open>CodeGenerator::findModuleFunction\<close>. A function of the target module is known by
  its name.\<close>

definition findModuleFunction :: "string \<Rightarrow> string \<Rightarrow> cg \<Rightarrow> string option" where
  "findModuleFunction moduleName funcName s =
     (case moduleFunctions s moduleName of
        None \<Rightarrow> None
      | Some fs \<Rightarrow> fs funcName)"

text \<open>The argument loop of a call qualified by a module: each argument is lowered and
  converted to the type of the parameter at its position, if there is one.\<close>

fun moduleCallArgs :: "expr_lowering \<Rightarrow> ty list \<Rightarrow> expr list \<Rightarrow> cg \<Rightarrow> val list option \<times> cg" where
  "moduleCallArgs cgE pts [] s = (Some [], s)"
| "moduleCallArgs cgE pts (a # rest) s =
     (case cgE a s of
        (None, s1) \<Rightarrow> (None, s1)
      | (Some argVal, s1) \<Rightarrow>
          (let (argVal', s2) =
                 (case pts of
                    [] \<Rightarrow> (argVal, s1)
                  | expectedType # ts \<Rightarrow>
                      if getType_val argVal \<noteq> expectedType
                      then convertToType argVal expectedType s1 else (argVal, s1))
           in case moduleCallArgs cgE (tl pts) rest s2 of
                (None, s3) \<Rightarrow> (None, s3)
              | (Some args, s3) \<Rightarrow> (Some (argVal' # args), s3)))"

definition moduleCall :: "expr_lowering \<Rightarrow> string \<Rightarrow> string \<Rightarrow> expr list \<Rightarrow> cg \<Rightarrow> val option \<times> cg" where
  "moduleCall cgE ident functionName arguments s =
     (let moduleName = (case moduleAliases s ident of Some m \<Rightarrow> m | None \<Rightarrow> ident)
      in case findModuleFunction moduleName functionName s of
           Some moduleFunc \<Rightarrow>
             (case moduleFns s moduleFunc of
                None \<Rightarrow> (None, s)
              | Some sig \<Rightarrow>
                  (case moduleCallArgs cgE (paramTys sig) arguments s of
                     (None, s1) \<Rightarrow> (None, s1)
                   | (Some args, s1) \<Rightarrow> some_result (CreateCall moduleFunc (retTy sig) args s1)))
         | None \<Rightarrow>
             (None, cerr (''Error: Function '' @ sq functionName @ '' not found in module ''
                          @ sq moduleName) s))"

text \<open>The argument loop of an unqualified call. An array variable passed where a
  pointer is expected is passed as the address of its first element.\<close>

fun callArgs ::
  "expr_lowering \<Rightarrow> string \<Rightarrow> ty list \<Rightarrow> nat \<Rightarrow> expr list \<Rightarrow> cg \<Rightarrow> val list option \<times> cg" where
  "callArgs cgE functionName pts idx [] s = (Some [], s)"
| "callArgs cgE functionName pts idx (a # rest) s =
     (let expectsPointer = (idx < length pts \<and> isPointerTy (pts ! idx));
          (special, s1) =
            (if expectsPointer then
               (case a of
                  IdentifierNode name \<Rightarrow>
                    (case namedValues s name of
                       Some (Some alloca) \<Rightarrow>
                         if isArrayTy (getAllocatedType alloca)
                         then some_result (CreateGEP (getAllocatedType alloca) alloca
                                             [ConstInt I32 0, ConstInt I32 0] s)
                         else (None, s)
                     | _ \<Rightarrow> (None, s))
                | _ \<Rightarrow> (None, s))
             else (None, s));
          (lowered, s2) = (case special of Some v \<Rightarrow> (Some v, s1) | None \<Rightarrow> cgE a s1)
      in case lowered of
           None \<Rightarrow> (None, s2)
         | Some argVal \<Rightarrow>
             (let (converted, s3) =
                    (if idx \<ge> length pts \<or> getType_val argVal = pts ! idx then (Some argVal, s2)
                     else
                       (let expectedType = pts ! idx;
                            (argVal', t1) = convertToType argVal expectedType s2
                        in if getType_val argVal' \<noteq> expectedType \<and>
                              \<not> (isPointerTy expectedType \<and> isPointerTy (getType_val argVal'))
                           then (None,
                                 cerr (''  Expected: '' @ show_ty expectedType @ '', Got: ''
                                       @ show_ty (getType_val argVal))
                                   (cerr (''Error: Type mismatch for argument '' @ show_nat idx
                                          @ '' in function '' @ sq functionName) t1))
                           else (Some argVal', t1)))
              in case converted of
                   None \<Rightarrow> (None, s3)
                 | Some v \<Rightarrow>
                     (case callArgs cgE functionName pts (Suc idx) rest s3 of
                        (None, s4) \<Rightarrow> (None, s4)
                      | (Some args, s4) \<Rightarrow> (Some (v # args), s4))))"

definition userCall :: "expr_lowering \<Rightarrow> string \<Rightarrow> expr list \<Rightarrow> cg \<Rightarrow> val option \<times> cg" where
  "userCall cgE functionName arguments s =
     (case moduleFns s functionName of
        None \<Rightarrow> (None, cerr (''Error: Unknown function '' @ sq functionName) s)
      | Some calleeFunc \<Rightarrow>
          if \<not> isVarArg calleeFunc \<and> length (paramTys calleeFunc) \<noteq> length arguments then
            (None, cerr (''Error: Function '' @ sq functionName @ '' expects ''
                         @ show_nat (length (paramTys calleeFunc)) @ '' arguments but got ''
                         @ show_nat (length arguments)) s)
          else if isVarArg calleeFunc \<and> length arguments < length (paramTys calleeFunc) then
            (None, cerr (''Error: Variadic function '' @ sq functionName @ '' expects at least ''
                         @ show_nat (length (paramTys calleeFunc)) @ '' arguments but got ''
                         @ show_nat (length arguments)) s)
          else
            (case callArgs cgE functionName (paramTys calleeFunc) 0 arguments s of
               (None, s1) \<Rightarrow> (None, s1)
             | (Some args, s1) \<Rightarrow> some_result (CreateCall functionName (retTy calleeFunc) args s1)))"

text \<open>
  \<^verbatim>\<open>CodeGenerator::codegenFunctionCall\<close>. The built-in functions that take arguments
  (\<^verbatim>\<open>print\<close> with arguments, \<^verbatim>\<open>input\<close>, \<^verbatim>\<open>len\<close>, \<^verbatim>\<open>to_int\<close>, \<^verbatim>\<open>to_double\<close>, \<^verbatim>\<open>to_string\<close>,
  \<^verbatim>\<open>free\<close>) are the parameter \<open>builtinCall\<close>: what is proved holds whatever they emit.
\<close>

definition builtinNames :: "string list" where
  "builtinNames = [''input'', ''len'', ''to_int'', ''to_double'', ''to_string'', ''free'']"

definition plainCall ::
  "expr_lowering \<Rightarrow> (string \<Rightarrow> expr list \<Rightarrow> cg \<Rightarrow> val option \<times> cg) \<Rightarrow>
   string \<Rightarrow> expr list \<Rightarrow> cg \<Rightarrow> val option \<times> cg" where
  "plainCall cgE builtinCall functionName arguments s =
     (if functionName = ''print'' then
        (if arguments = [] then
           some_result (CreateCall ''printf'' I32 [CreateGlobalString [CHR 0x0A]] s)
         else builtinCall functionName arguments s)
      else if functionName \<in> set builtinNames then builtinCall functionName arguments s
      else userCall cgE functionName arguments s)"

definition codegenFunctionCall ::
  "expr_lowering \<Rightarrow> (string \<Rightarrow> expr list \<Rightarrow> cg \<Rightarrow> val option \<times> cg) \<Rightarrow>
   string \<Rightarrow> expr list \<Rightarrow> expr option \<Rightarrow> cg \<Rightarrow> val option \<times> cg" where
  "codegenFunctionCall cgE builtinCall functionName arguments object s =
     (case object of
        None \<Rightarrow> plainCall cgE builtinCall functionName arguments s
      | Some (IdentifierNode ident) \<Rightarrow> moduleCall cgE ident functionName arguments s
      | Some other \<Rightarrow>
          plainCall cgE builtinCall functionName arguments
            (cerr ''Warning: Non-module member access is not yet supported'' s))"

section \<open>The dispatcher\<close>

text \<open>\<^verbatim>\<open>CodeGenerator::codegenExpr\<close>. The congruence rules say that a lowering function calls
  the dispatcher on parts of its node only. The lowerings of interpolated strings, of array
  literals, of member access and of the built-in functions with arguments are the
  parameter \<open>other\<close>.\<close>

lemma codegenLogicalOp_cong [fundef_cong]:
  assumes "op = op'" "l = l'" "r = r'" "s = s'"
    "\<And>t. cgE l' t = cgE' l' t" "\<And>t. cgE r' t = cgE' r' t"
  shows "codegenLogicalOp cgE op l r s = codegenLogicalOp cgE' op' l' r' s'"
proof -
  have h: "cgE l' = cgE' l'" "cgE r' = cgE' r'" using assms(5,6) by auto
  show ?thesis unfolding codegenLogicalOp_def assms(1-4) h by (rule refl)
qed

lemma codegenBinaryOp_cong [fundef_cong]:
  assumes "op = op'" "l = l'" "r = r'" "s = s'"
    "\<And>t. cgE l' t = cgE' l' t" "\<And>t. cgE r' t = cgE' r' t"
  shows "codegenBinaryOp cgE op l r s = codegenBinaryOp cgE' op' l' r' s'"
proof -
  have h: "cgE l' = cgE' l'" "cgE r' = cgE' r'" using assms(5,6) by auto
  show ?thesis unfolding codegenBinaryOp_def codegenLogicalOp_def assms(1-4) h by (rule refl)
qed

lemma codegenUnaryOp_cong [fundef_cong]:
  assumes "op = op'" "e = e'" "s = s'" "\<And>t. cgE e' t = cgE' e' t"
  shows "codegenUnaryOp cgE op e s = codegenUnaryOp cgE' op' e' s'"
proof -
  have h: "cgE e' = cgE' e'" using assms(4) by auto
  show ?thesis unfolding codegenUnaryOp_def assms(1-3) h by (rule refl)
qed

lemma collectIndices_cong:
  assumes "\<And>e t. size e < Suc (size array + size index) \<Longrightarrow> cgE e t = cgE' e t"
  shows "collectIndices cgE array index acc s = collectIndices cgE' array index acc s"
  using assms
proof (induction array arbitrary: index acc s)
  case (ArrayAccessNode inner innerIndex)
  have h: "cgE index = cgE' index" using ArrayAccessNode.prems by (intro ext) simp
  have i: "collectIndices cgE inner innerIndex = collectIndices cgE' inner innerIndex"
    using ArrayAccessNode.prems by (intro ext ArrayAccessNode.IH(1)) simp
  show ?case unfolding collectIndices.simps h i by (rule refl)
qed (simp_all add: fun_eq_iff [symmetric])

lemma codegenArrayAccess_cong [fundef_cong]:
  assumes "array = array'" "index = index'" "s = s'"
    "\<And>e t. size e < Suc (size array' + size index') \<Longrightarrow> cgE e t = cgE' e t"
  shows "codegenArrayAccess cgE array index s = codegenArrayAccess cgE' array' index' s'"
proof -
  have h: "cgE index' = cgE' index'" using assms(4) by (intro ext) simp
  have c: "collectIndices cgE array' index' = collectIndices cgE' array' index'"
    using collectIndices_cong [of array' index' cgE cgE'] assms(4) by (intro ext) blast
  show ?thesis unfolding codegenArrayAccess_def arrayBase_def assms(1-3) h c by (rule refl)
qed

lemma moduleCallArgs_cong:
  assumes "\<And>a t. a \<in> set args \<Longrightarrow> cgE a t = cgE' a t"
  shows "moduleCallArgs cgE pts args s = moduleCallArgs cgE' pts args s"
  using assms
proof (induction args arbitrary: pts s)
  case (Cons a rest)
  have h: "cgE a = cgE' a" using Cons.prems by (intro ext) simp
  have i: "moduleCallArgs cgE p rest = moduleCallArgs cgE' p rest" for p
    using Cons.prems by (intro ext Cons.IH) simp
  show ?case unfolding moduleCallArgs.simps h i by (rule refl)
qed simp

lemma callArgs_cong:
  assumes "\<And>a t. a \<in> set args \<Longrightarrow> cgE a t = cgE' a t"
  shows "callArgs cgE f pts idx args s = callArgs cgE' f pts idx args s"
  using assms
proof (induction args arbitrary: idx s)
  case (Cons a rest)
  have h: "cgE a = cgE' a" using Cons.prems by (intro ext) simp
  have i: "callArgs cgE f pts i rest = callArgs cgE' f pts i rest" for i
    using Cons.prems by (intro ext Cons.IH) simp
  show ?case unfolding callArgs.simps h i by (rule refl)
qed simp

lemma codegenFunctionCall_cong [fundef_cong]:
  assumes "name = name'" "args = args'" "obj = obj'" "s = s'"
    "\<And>a t. a \<in> set args' \<Longrightarrow> cgE a t = cgE' a t"
  shows "codegenFunctionCall cgE bi name args obj s = codegenFunctionCall cgE' bi name' args' obj' s'"
proof -
  have m: "moduleCallArgs cgE p args' = moduleCallArgs cgE' p args'" for p
    using moduleCallArgs_cong [of args' cgE cgE'] assms(5) by (intro ext) blast
  have c: "callArgs cgE f p i args' = callArgs cgE' f p i args'" for f p i
    using callArgs_cong [of args' cgE cgE'] assms(5) by (intro ext) blast
  show ?thesis
    unfolding codegenFunctionCall_def plainCall_def userCall_def moduleCall_def assms(1-4) m c
    by (rule refl)
qed

fun codegenExpr :: "expr_lowering \<Rightarrow> expr \<Rightarrow> cg \<Rightarrow> val option \<times> cg" where
  "codegenExpr other (IntLiteralNode v) s = (Some (codegenIntLiteral v), s)"
| "codegenExpr other (DoubleLiteralNode v) s = (Some (codegenDoubleLiteral v), s)"
| "codegenExpr other (StringLiteralNode v) s = (Some (codegenStringLiteral v), s)"
| "codegenExpr other (CharLiteralNode v) s = (Some (codegenCharLiteral v), s)"
| "codegenExpr other (BoolLiteralNode v) s = (Some (codegenBoolLiteral v), s)"
| "codegenExpr other (IdentifierNode name) s = codegenIdentifier name s"
| "codegenExpr other (BinaryOpNode op l r) s = codegenBinaryOp (codegenExpr other) op l r s"
| "codegenExpr other (UnaryOpNode op e) s = codegenUnaryOp (codegenExpr other) op e s"
| "codegenExpr other (FunctionCallNode name args obj) s =
     codegenFunctionCall (codegenExpr other) (\<lambda>f as. other (FunctionCallNode f as None)) name args obj s"
| "codegenExpr other (ArrayAccessNode array index) s =
     codegenArrayAccess (codegenExpr other) array index s"
| "codegenExpr other (InterpolatedStringNode parts es specs) s =
     other (InterpolatedStringNode parts es specs) s"
| "codegenExpr other (ArrayLiteralNode es) s = other (ArrayLiteralNode es) s"
| "codegenExpr other (MemberAccessNode obj name) s = other (MemberAccessNode obj name) s"

section \<open>Statements and declarations\<close>

text \<open>The type annotation and the statement nodes of node.h. A switch case holds its
  value (none for the default case) and its body.\<close>

record TypeNode =
  typeName :: string
  arrayDimensions :: "int list"

datatype stmt =
    VarDeclNode bool string TypeNode "expr option"
  | AssignmentNode expr string expr
  | BlockNode "stmt list"
  | IfStmtNode expr stmt "stmt option"
  | WhileStmtNode expr stmt
  | ForStmtNode string expr expr stmt
  | SwitchStmtNode expr "(expr option \<times> stmt list) list"
  | ReturnStmtNode "expr option"
  | BreakStmtNode
  | ContinueStmtNode
  | TryCatchNode stmt string "TypeNode option" stmt
  | ThrowStmtNode expr
  | ExprStmtNode expr
  | FunctionDeclNode string "(string \<times> TypeNode) list" "TypeNode option" "stmt list option"
  | ImportNode string string

text \<open>
  The functions below call the statement dispatcher \<^verbatim>\<open>codegenStmt\<close> on the statements of a
  body; it is their parameter \<open>cgS\<close>, and what is proved of them holds for every dispatcher.
\<close>

type_synonym stmt_lowering = "stmt \<Rightarrow> cg \<Rightarrow> cg"

text \<open>\<^verbatim>\<open>CodeGenerator::getType\<close>.\<close>

definition getType :: "string \<Rightarrow> cg \<Rightarrow> ty \<times> cg" where
  "getType name s =
     (if name = ''int'' then (I32, s)
      else if name = ''double'' then (DoubleTy, s)
      else if name = ''bool'' then (I1, s)
      else if name = ''char'' then (I8, s)
      else if name = ''string'' then (PtrTy, s)
      else if name = ''void'' then (VoidTy, s)
      else (VoidTy, cerr (''Warning: Unknown type '' @ sq name @ '', using void type'') s))"

text \<open>\<^verbatim>\<open>CodeGenerator::createEntryBlockAlloca\<close>: the slot is created at the start of the
  entry block of the function, the first block that was created in it.\<close>

definition entryBlockOf :: "string \<Rightarrow> cg \<Rightarrow> nat option" where
  "entryBlockOf f s = find (\<lambda>b. blockParent s b = Some f) [0..<nextBlock s]"

definition createEntryBlockAlloca :: "string \<Rightarrow> ty \<Rightarrow> cg \<Rightarrow> val \<times> cg" where
  "createEntryBlockAlloca function t s =
     (AllocaV (nextInst s) t,
      (case entryBlockOf function s of
         None \<Rightarrow> s
       | Some b \<Rightarrow> s\<lparr>blocks := (blocks s)(b := Alloca (nextInst s) t # blocks s b)\<rparr>)
        \<lparr>nextInst := Suc (nextInst s)\<rparr>)"

text \<open>\<^verbatim>\<open>CodeGenerator::codegenBlock\<close>.\<close>

definition codegenBlock :: "stmt_lowering \<Rightarrow> stmt list \<Rightarrow> cg \<Rightarrow> cg" where
  "codegenBlock cgS statements s = clearTempMemory (fold cgS statements s)"

text \<open>The two loops of \<^verbatim>\<open>codegenFunctionDecl\<close> over the parameters: their types (an array
  is passed as a pointer), and a slot for each argument.\<close>

fun parameterTypes :: "(string \<times> TypeNode) list \<Rightarrow> cg \<Rightarrow> ty list \<times> cg" where
  "parameterTypes [] s = ([], s)"
| "parameterTypes ((name, tn) # rest) s =
     (let (t, s1) = getType (typeName tn) s;
          paramType = (if arrayDimensions tn \<noteq> [] then PtrTy else t);
          (ts, s2) = parameterTypes rest s1
      in (paramType # ts, s2))"

fun storeArguments :: "string \<Rightarrow> (string \<times> ty) list \<Rightarrow> cg \<Rightarrow> cg" where
  "storeArguments function [] s = s"
| "storeArguments function ((name, t) # rest) s =
     (let (alloca, s1) = createEntryBlockAlloca function t s;
          s2 = CreateStore (Argument name t) alloca s1
      in storeArguments function rest (s2\<lparr>namedValues := (namedValues s2)(name \<mapsto> Some alloca)\<rparr>))"

text \<open>The end of \<^verbatim>\<open>codegenFunctionDecl\<close> (lines 3446 to 3457): the insertion block has no
  terminator when control can fall off the end of the body.\<close>

definition blockTerminated :: "cg \<Rightarrow> bool" where
  "blockTerminated s =
     (case insertBlock s of None \<Rightarrow> False | Some b \<Rightarrow> getTerminator (blocks s b) \<noteq> None)"

definition CreateRet :: "val option \<Rightarrow> cg \<Rightarrow> cg" where
  "CreateRet v s = emit (Ret v) s"

definition fallOffReturn :: "ty \<Rightarrow> cg \<Rightarrow> cg" where
  "fallOffReturn retType s =
     (if blockTerminated s then s
      else
        (let s1 = clearTempMemory s
         in if retType = VoidTy then CreateRet None s1
            else CreateRet (Some (ConstNull retType)) s1))"

text \<open>\<^verbatim>\<open>CodeGenerator::codegenFunctionDecl\<close>.\<close>

definition codegenFunctionDecl ::
  "stmt_lowering \<Rightarrow> string \<Rightarrow> (string \<times> TypeNode) list \<Rightarrow> TypeNode option \<Rightarrow>
   stmt list option \<Rightarrow> cg \<Rightarrow> cg" where
  "codegenFunctionDecl cgS name parameters returnType body s =
     (if moduleFns s name \<noteq> None then
        cerr (''Error: Function '' @ sq name @ '' is already defined'') s
      else
        (let (retType, s1) = (case returnType of
                                Some tn \<Rightarrow> getType (typeName tn) s
                              | None \<Rightarrow> (VoidTy, s));
             (paramTypes, s2) = parameterTypes parameters s1;
             s3 = s2\<lparr>moduleFns := (moduleFns s2)
                       (name \<mapsto> \<lparr>retTy = retType, paramTys = paramTypes, isVarArg = False\<rparr>)\<rparr>;
             (entryBB, s4) = BasicBlock_Create ''entry'' (Some name) s3;
             s5 = SetInsertPoint entryBB s4;
             prevFunction = currentFunction s5;
             s6 = s5\<lparr>currentFunction := Some name, namedValues := Map.empty,
                     variableTypes := Map.empty\<rparr>;
             s7 = storeArguments name (zip (map fst parameters) paramTypes) s6;
             s8 = (case body of Some statements \<Rightarrow> codegenBlock cgS statements s7 | None \<Rightarrow> s7);
             s9 = fallOffReturn retType s8
         in s9\<lparr>currentFunction := prevFunction,
               functions_tab := (functions_tab s9)(name \<mapsto> name)\<rparr>))"

section \<open>Execution of the generated code\<close>

text \<open>
  The claims about run-time guards are claims about what the emitted instructions do
  when they run. This section gives the instructions a semantics: a machine that
  executes the body of one function, block by block. It follows the language reference
  of the target representation for the instructions that the modelled functions emit.

  Integers are held as their signed value. A double is a bit pattern; the comparisons
  with zero and the test for NaN are defined on the bits, the arithmetic and the
  conversions are taken from the environment \<open>ext\<close>, as are the results of the C library.
  Calls are recorded in a trace; \<^verbatim>\<open>printf\<close> is recorded with its format string.
\<close>

datatype ptr = PNull | PStr string | PGlobal string | PSlot nat | PHeap nat | PElem ptr "int list"

datatype rtval = VInt int | VDouble double | VPtr ptr | VPoison

datatype event =
    EvPrintf string "rtval list"
  | EvMalloc nat
  | EvFree ptr
  | EvExit int
  | EvCall string "rtval list"

datatype fault =
    DivisionByZero | SignedOverflow | InvalidMemoryAccess | DoubleFree
  | NullBranch | IllTyped | NoInstruction | UnreachableExecuted

datatype status = Running | Exited int | Returned "rtval option" | Faulted fault

record ext =
  fp_arith :: "binop \<Rightarrow> double \<Rightarrow> double \<Rightarrow> double"
  fp_less :: "double \<Rightarrow> double \<Rightarrow> bool"
  sitofp :: "int \<Rightarrow> double"
  fptosi :: "double \<Rightarrow> int"
  strlen_of :: "ptr \<Rightarrow> int"
  call_result :: "string \<Rightarrow> rtval list \<Rightarrow> rtval"

record config =
  c_block :: nat
  c_pc :: nat
  c_prev :: "nat option"
  c_regs :: "nat \<Rightarrow> rtval"
  c_args :: "string \<Rightarrow> rtval"
  c_mem :: "ptr \<Rightarrow> rtval option"
  c_heap :: nat
  c_freed :: "nat set"
  c_trace :: "event list"
  c_status :: status

subsection \<open>Doubles as bit patterns\<close>

text \<open>The quiet NaN that \<^verbatim>\<open>ConstantFP::getNaN\<close> returns.\<close>

definition qNaN :: double where
  "qNaN = 0x7FF8000000000000"

definition is_nan :: "double \<Rightarrow> bool" where
  "is_nan d = (d AND 0x7FF0000000000000 = 0x7FF0000000000000 \<and> d AND 0x000FFFFFFFFFFFFF \<noteq> 0)"

text \<open>Positive or negative zero.\<close>

definition is_fzero :: "double \<Rightarrow> bool" where
  "is_fzero d = (d AND 0x7FFFFFFFFFFFFFFF = 0)"

text \<open>Ordered equality: neither operand is a NaN, and the two are equal as numbers.\<close>

definition fcmp_oeq :: "double \<Rightarrow> double \<Rightarrow> bool" where
  "fcmp_oeq a b = (\<not> is_nan a \<and> \<not> is_nan b \<and> (a = b \<or> (is_fzero a \<and> is_fzero b)))"

definition fcmp_one :: "double \<Rightarrow> double \<Rightarrow> bool" where
  "fcmp_one a b = (\<not> is_nan a \<and> \<not> is_nan b \<and> \<not> (a = b \<or> (is_fzero a \<and> is_fzero b)))"

fun fcmp :: "ext \<Rightarrow> fcmp_pred \<Rightarrow> double \<Rightarrow> double \<Rightarrow> bool" where
  "fcmp X FCMP_OEQ a b = fcmp_oeq a b"
| "fcmp X FCMP_ONE a b = fcmp_one a b"
| "fcmp X FCMP_OLT a b = fp_less X a b"
| "fcmp X FCMP_OGT a b = fp_less X b a"
| "fcmp X FCMP_OLE a b = (fp_less X a b \<or> fcmp_oeq a b)"
| "fcmp X FCMP_OGE a b = (fp_less X b a \<or> fcmp_oeq a b)"

subsection \<open>Integers\<close>

text \<open>The signed value of the low \<open>w\<close> bits.\<close>

definition snorm :: "nat \<Rightarrow> int \<Rightarrow> int" where
  "snorm w n = (if w = 0 then 0 else (n + 2 ^ (w - 1)) mod 2 ^ w - 2 ^ (w - 1))"

text \<open>Division truncating toward zero, and its remainder.\<close>

definition tdiv :: "int \<Rightarrow> int \<Rightarrow> int" where
  "tdiv a b = sgn a * sgn b * (\<bar>a\<bar> div \<bar>b\<bar>)"

definition trem :: "int \<Rightarrow> int \<Rightarrow> int" where
  "trem a b = a - b * tdiv a b"

fun icmp :: "icmp_pred \<Rightarrow> int \<Rightarrow> int \<Rightarrow> bool" where
  "icmp ICMP_EQ a b = (a = b)"
| "icmp ICMP_NE a b = (a \<noteq> b)"
| "icmp ICMP_SLT a b = (a < b)"
| "icmp ICMP_SGT a b = (a > b)"
| "icmp ICMP_SLE a b = (a \<le> b)"
| "icmp ICMP_SGE a b = (a \<ge> b)"

text \<open>A truth value as a one-bit integer: all ones is true.\<close>

definition vbool :: "bool \<Rightarrow> rtval" where
  "vbool b = VInt (if b then - 1 else 0)"

subsection \<open>Operands\<close>

fun eval_val :: "config \<Rightarrow> val \<Rightarrow> rtval" where
  "eval_val c (ConstInt t n) = VInt (snorm (getIntegerBitWidth t) n)"
| "eval_val c (ConstFP d) = VDouble d"
| "eval_val c ConstNaN = VDouble qNaN"
| "eval_val c (ConstNull t) =
     (if isIntegerTy t then VInt 0 else if t = DoubleTy then VDouble 0
      else if t = PtrTy then VPtr PNull else VPoison)"
| "eval_val c (GlobalString s) = VPtr (PStr s)"
| "eval_val c (GlobalVar n t) = VPtr (PGlobal n)"
| "eval_val c (Inst n t) = c_regs c n"
| "eval_val c (AllocaV n t) = VPtr (PSlot n)"
| "eval_val c (Argument n t) = c_args c n"

subsection \<open>Memory\<close>

text \<open>The cells of a stack slot: one for a scalar, one per element for an array.\<close>

fun cell_paths :: "ty \<Rightarrow> int list list" where
  "cell_paths (ArrayTy t k) = concat (map (\<lambda>i. map (\<lambda>p. int i # p) (cell_paths t)) [0..<k])"
| "cell_paths t = [[]]"

definition slot_ptr :: "nat \<Rightarrow> int list \<Rightarrow> ptr" where
  "slot_ptr n path = (if path = [] then PSlot n else PElem (PSlot n) (0 # path))"

definition alloc_cells :: "nat \<Rightarrow> ty \<Rightarrow> (ptr \<Rightarrow> rtval option) \<Rightarrow> (ptr \<Rightarrow> rtval option)" where
  "alloc_cells n t m = fold (\<lambda>p m'. m'(slot_ptr n p \<mapsto> VPoison)) (cell_paths t) m"

fun root_of :: "ptr \<Rightarrow> ptr" where
  "root_of (PElem p _) = root_of p"
| "root_of p = p"

text \<open>
  Reading a cell. The bytes of a constant string and its terminator are readable; a
  live heap block is readable and writable at any offset (its size is not tracked);
  every other cell must exist.
\<close>

definition read_mem :: "config \<Rightarrow> ptr \<Rightarrow> rtval option" where
  "read_mem c p =
     (case p of
        PElem (PStr s) [i] \<Rightarrow>
          (if 0 \<le> i \<and> i < int (length s) then Some (VInt (snorm 8 (int (of_char (s ! nat i)))))
           else if i = int (length s) then Some (VInt 0) else None)
      | _ \<Rightarrow>
          (case root_of p of
             PHeap k \<Rightarrow> (if k \<in> c_freed c \<or> k \<ge> c_heap c then None
                          else Some (case c_mem c p of None \<Rightarrow> VPoison | Some v \<Rightarrow> v))
           | _ \<Rightarrow> c_mem c p))"

definition writable :: "config \<Rightarrow> ptr \<Rightarrow> bool" where
  "writable c p =
     (case root_of p of
        PHeap k \<Rightarrow> k \<notin> c_freed c \<and> k < c_heap c
      | PStr s \<Rightarrow> False
      | _ \<Rightarrow> c_mem c p \<noteq> None)"

text \<open>Address arithmetic: the first index moves within the aggregate the pointer is
  an element of, the others descend.\<close>

fun gep :: "ptr \<Rightarrow> int list \<Rightarrow> ptr" where
  "gep p [] = p"
| "gep (PElem r path) (k # rest) =
     (if path = [] then PElem r (k # rest)
      else PElem r (butlast path @ [last path + k] @ rest))"
| "gep p (k # rest) = PElem p (k # rest)"

subsection \<open>One step\<close>

definition set_reg :: "nat \<Rightarrow> rtval \<Rightarrow> config \<Rightarrow> config" where
  "set_reg n v c = c\<lparr>c_regs := (c_regs c)(n := v), c_pc := Suc (c_pc c)\<rparr>"

definition fault_with :: "fault \<Rightarrow> config \<Rightarrow> config" where
  "fault_with f c = c\<lparr>c_status := Faulted f\<rparr>"

definition goto :: "nat \<Rightarrow> config \<Rightarrow> config" where
  "goto b c = c\<lparr>c_prev := Some (c_block c), c_block := b, c_pc := 0\<rparr>"

definition int_binop :: "binop \<Rightarrow> nat \<Rightarrow> int \<Rightarrow> int \<Rightarrow> fault + int" where
  "int_binop op w x y =
     (case op of
        Add \<Rightarrow> Inr (snorm w (x + y))
      | Sub \<Rightarrow> Inr (snorm w (x - y))
      | Mul \<Rightarrow> Inr (snorm w (x * y))
      | SDiv \<Rightarrow> (if y = 0 then Inl DivisionByZero
                  else if x = - (2 ^ (w - 1)) \<and> y = - 1 then Inl SignedOverflow
                  else Inr (tdiv x y))
      | SRem \<Rightarrow> (if y = 0 then Inl DivisionByZero
                  else if x = - (2 ^ (w - 1)) \<and> y = - 1 then Inl SignedOverflow
                  else Inr (trem x y))
      | Or \<Rightarrow> Inr (snorm w (x OR y))
      | Xor \<Rightarrow> Inr (snorm w (x XOR y))
      | _ \<Rightarrow> Inl IllTyped)"

definition exec_call :: "ext \<Rightarrow> nat \<Rightarrow> string \<Rightarrow> rtval list \<Rightarrow> config \<Rightarrow> config" where
  "exec_call X n callee args c =
     (if callee = ''printf'' then
        (case args of
           VPtr (PStr fmt) # rest \<Rightarrow>
             set_reg n (call_result X callee args) (c\<lparr>c_trace := c_trace c @ [EvPrintf fmt rest]\<rparr>)
         | _ \<Rightarrow> set_reg n (call_result X callee args) (c\<lparr>c_trace := c_trace c @ [EvCall callee args]\<rparr>))
      else if callee = ''exit'' then
        (case args of
           [VInt code] \<Rightarrow> c\<lparr>c_trace := c_trace c @ [EvExit code], c_status := Exited code\<rparr>
         | _ \<Rightarrow> fault_with IllTyped c)
      else if callee = ''malloc'' then
        set_reg n (VPtr (PHeap (c_heap c)))
          (c\<lparr>c_trace := c_trace c @ [EvMalloc (c_heap c)], c_heap := Suc (c_heap c)\<rparr>)
      else if callee = ''free'' then
        (case args of
           [VPtr (PHeap k)] \<Rightarrow>
             (if k \<in> c_freed c then fault_with DoubleFree (c\<lparr>c_trace := c_trace c @ [EvFree (PHeap k)]\<rparr>)
              else set_reg n VPoison
                     (c\<lparr>c_trace := c_trace c @ [EvFree (PHeap k)], c_freed := insert k (c_freed c)\<rparr>))
         | [VPtr PNull] \<Rightarrow> set_reg n VPoison (c\<lparr>c_trace := c_trace c @ [EvFree PNull]\<rparr>)
         | [VPtr p] \<Rightarrow> fault_with InvalidMemoryAccess (c\<lparr>c_trace := c_trace c @ [EvFree p]\<rparr>)
         | _ \<Rightarrow> fault_with IllTyped c)
      else if callee = ''strlen'' then
        (case args of
           [VPtr p] \<Rightarrow> set_reg n (VInt (strlen_of X p)) (c\<lparr>c_trace := c_trace c @ [EvCall callee args]\<rparr>)
         | _ \<Rightarrow> fault_with IllTyped c)
      else set_reg n (call_result X callee args) (c\<lparr>c_trace := c_trace c @ [EvCall callee args]\<rparr>))"

fun exec :: "ext \<Rightarrow> instr \<Rightarrow> config \<Rightarrow> config" where
  "exec X (ICmp n p a b) c =
     (case (eval_val c a, eval_val c b) of
        (VInt x, VInt y) \<Rightarrow> set_reg n (vbool (icmp p x y)) c
      | _ \<Rightarrow> fault_with IllTyped c)"
| "exec X (FCmp n p a b) c =
     (case (eval_val c a, eval_val c b) of
        (VDouble x, VDouble y) \<Rightarrow> set_reg n (vbool (fcmp X p x y)) c
      | _ \<Rightarrow> fault_with IllTyped c)"
| "exec X (BinOp n op a b) c =
     (case (eval_val c a, eval_val c b) of
        (VInt x, VInt y) \<Rightarrow>
          (case int_binop op (getIntegerBitWidth (getType_val a)) x y of
             Inl f \<Rightarrow> fault_with f c
           | Inr r \<Rightarrow> set_reg n (VInt r) c)
      | (VDouble x, VDouble y) \<Rightarrow>
          (if op \<in> {FAdd, FSub, FMul, FDiv, FRem} then set_reg n (VDouble (fp_arith X op x y)) c
           else fault_with IllTyped c)
      | _ \<Rightarrow> fault_with IllTyped c)"
| "exec X (FNeg n a) c =
     (case eval_val c a of
        VDouble x \<Rightarrow> set_reg n (VDouble (x XOR 0x8000000000000000)) c
      | _ \<Rightarrow> fault_with IllTyped c)"
| "exec X (Cast n op a t) c =
     (case (op, eval_val c a) of
        (ZExt, VInt x) \<Rightarrow> set_reg n (VInt (x mod 2 ^ getIntegerBitWidth (getType_val a))) c
      | (SExt, VInt x) \<Rightarrow> set_reg n (VInt x) c
      | (Trunc, VInt x) \<Rightarrow> set_reg n (VInt (snorm (getIntegerBitWidth t) x)) c
      | (BitCast, v) \<Rightarrow> set_reg n v c
      | (SIToFP, VInt x) \<Rightarrow> set_reg n (VDouble (sitofp X x)) c
      | (UIToFP, VInt x) \<Rightarrow>
          set_reg n (VDouble (sitofp X (x mod 2 ^ getIntegerBitWidth (getType_val a)))) c
      | (FPToSI, VDouble x) \<Rightarrow> set_reg n (VInt (snorm (getIntegerBitWidth t) (fptosi X x))) c
      | _ \<Rightarrow> fault_with IllTyped c)"
| "exec X (Select n cnd a b) c =
     (case eval_val c cnd of
        VInt x \<Rightarrow> set_reg n (if x \<noteq> 0 then eval_val c a else eval_val c b) c
      | _ \<Rightarrow> fault_with IllTyped c)"
| "exec X (Call n callee args) c = exec_call X n callee (map (eval_val c) args) c"
| "exec X (Alloca n t) c = set_reg n (VPtr (PSlot n)) (c\<lparr>c_mem := alloc_cells n t (c_mem c)\<rparr>)"
| "exec X (Load n t p) c =
     (case eval_val c p of
        VPtr q \<Rightarrow> (case read_mem c q of
                      None \<Rightarrow> fault_with InvalidMemoryAccess c
                    | Some v \<Rightarrow> set_reg n v c)
      | _ \<Rightarrow> fault_with IllTyped c)"
| "exec X (Store v p) c =
     (case eval_val c p of
        VPtr q \<Rightarrow> (if writable c q
                    then c\<lparr>c_mem := (c_mem c)(q \<mapsto> eval_val c v), c_pc := Suc (c_pc c)\<rparr>
                    else fault_with InvalidMemoryAccess c)
      | _ \<Rightarrow> fault_with IllTyped c)"
| "exec X (GEP n t p idxs) c =
     (case eval_val c p of
        VPtr q \<Rightarrow>
          (if list_all (\<lambda>i. case eval_val c i of VInt x \<Rightarrow> True | _ \<Rightarrow> False) idxs
           then set_reg n (VPtr (gep q (map (\<lambda>i. case eval_val c i of VInt x \<Rightarrow> x | _ \<Rightarrow> 0) idxs))) c
           else fault_with IllTyped c)
      | _ \<Rightarrow> fault_with IllTyped c)"
| "exec X (Phi n t incoming) c =
     (case c_prev c of
        None \<Rightarrow> fault_with IllTyped c
      | Some p \<Rightarrow> (case find (\<lambda>(v, b). b = Some p) incoming of
                      None \<Rightarrow> fault_with IllTyped c
                    | Some (v, b) \<Rightarrow> set_reg n (eval_val c v) c))"
| "exec X (Br target) c =
     (case target of None \<Rightarrow> fault_with NullBranch c | Some b \<Rightarrow> goto b c)"
| "exec X (CondBr cnd t f) c =
     (case eval_val c cnd of
        VInt x \<Rightarrow> goto (if x \<noteq> 0 then t else f) c
      | _ \<Rightarrow> fault_with IllTyped c)"
| "exec X (Ret v) c = c\<lparr>c_status := Returned (map_option (eval_val c) v)\<rparr>"
| "exec X Unreachable c = fault_with UnreachableExecuted c"

text \<open>A step executes the instruction at the program counter; a machine that has
  stopped stays as it is.\<close>

definition step :: "ext \<Rightarrow> (nat \<Rightarrow> instr list) \<Rightarrow> config \<Rightarrow> config" where
  "step X B c =
     (if c_status c \<noteq> Running then c
      else if c_pc c < length (B (c_block c)) then exec X (B (c_block c) ! c_pc c) c
      else fault_with NoInstruction c)"

fun run :: "ext \<Rightarrow> (nat \<Rightarrow> instr list) \<Rightarrow> nat \<Rightarrow> config \<Rightarrow> config" where
  "run X B 0 c = c"
| "run X B (Suc n) c = run X B n (step X B c)"

text \<open>The text that a call of \<^verbatim>\<open>printf\<close> writes when its format has no conversion: the
  format itself.\<close>

fun written :: "event \<Rightarrow> string option" where
  "written (EvPrintf fmt args) = (if CHR ''%'' \<in> set fmt then None else Some fmt)"
| "written e = Some []"

section \<open>Variable declarations\<close>

text \<open>
  \<^verbatim>\<open>CodeGenerator::codegenVarDecl\<close>. The type of a declaration is the named type, wrapped
  in one array type per dimension, the last dimension innermost.
\<close>

definition declaredType :: "TypeNode \<Rightarrow> cg \<Rightarrow> ty \<times> cg" where
  "declaredType tn s =
     (let (baseType, s1) = getType (typeName tn) s
      in (foldr (\<lambda>d t. ArrayTy t (nat d)) (arrayDimensions tn) baseType, s1))"

subsection \<open>At the top level\<close>

text \<open>
  The initializer of a global must be a constant: a literal, an operation on two integer
  literals or on two double literals, or the negation of a literal; these are computed
  by the code generator, in the \<^verbatim>\<open>int\<close> and \<^verbatim>\<open>double\<close> arithmetic of the machine it runs
  on (\<open>fp\<close> is that arithmetic on doubles). A division by a zero literal gives zero.
\<close>

fun intLiteral :: "expr \<Rightarrow> int option" where
  "intLiteral (IntLiteralNode v) = Some v"
| "intLiteral e = None"

fun doubleLiteral :: "expr \<Rightarrow> double option" where
  "doubleLiteral (DoubleLiteralNode v) = Some v"
| "doubleLiteral e = None"

definition foldIntConstant :: "string \<Rightarrow> int \<Rightarrow> int \<Rightarrow> int option" where
  "foldIntConstant op l r =
     (if op = ''+'' then Some (snorm 32 (l + r))
      else if op = ''-'' then Some (snorm 32 (l - r))
      else if op = ''*'' then Some (snorm 32 (l * r))
      else if op = ''/'' then Some (if r \<noteq> 0 then snorm 32 (tdiv l r) else 0)
      else if op = ''%'' then Some (if r \<noteq> 0 then trem l r else 0)
      else None)"

definition foldDoubleConstant ::
  "(binop \<Rightarrow> double \<Rightarrow> double \<Rightarrow> double) \<Rightarrow> string \<Rightarrow> double \<Rightarrow> double \<Rightarrow> double option" where
  "foldDoubleConstant fp op l r =
     (if op = ''+'' then Some (fp FAdd l r)
      else if op = ''-'' then Some (fp FSub l r)
      else if op = ''*'' then Some (fp FMul l r)
      else if op = ''/'' then Some (if \<not> is_fzero r then fp FDiv l r else 0)
      else None)"

definition msgUnsupportedConstant :: "string \<Rightarrow> string \<Rightarrow> string" where
  "msgUnsupportedConstant op name =
     ''Warning: Unsupported constant expression operator '' @ sq op @ '' for global variable ''
       @ sq name @ '', using zero''"

text \<open>The constant of an initializer; \<open>None\<close> for an initializer that is not a constant,
  which is evaluated when the program starts. A string literal becomes a constant global
  of its own.\<close>

definition globalInitializer ::
  "(binop \<Rightarrow> double \<Rightarrow> double \<Rightarrow> double) \<Rightarrow> string \<Rightarrow> ty \<Rightarrow> expr \<Rightarrow> cg \<Rightarrow> val option \<times> cg" where
  "globalInitializer fp name type init s =
     (case init of
        IntLiteralNode v \<Rightarrow> (Some (ConstInt type v), s)
      | DoubleLiteralNode v \<Rightarrow> (Some (ConstFP v), s)
      | BoolLiteralNode v \<Rightarrow> (Some (ConstInt type (if v then 1 else 0)), s)
      | CharLiteralNode v \<Rightarrow> (Some (ConstInt type (v mod 256)), s)
      | StringLiteralNode v \<Rightarrow>
          (Some (GlobalVar (name @ ''.str'') (ArrayTy I8 (Suc (length v)))),
           s\<lparr>globalVars := (globalVars s)
                (name @ ''.str'' \<mapsto> \<lparr>valueType = ArrayTy I8 (Suc (length v)), isConstant = True,
                                     initialValue = GlobalString v\<rparr>)\<rparr>)
      | BinaryOpNode op l r \<Rightarrow>
          (case (intLiteral l, intLiteral r) of
             (Some a, Some b) \<Rightarrow>
               (case foldIntConstant op a b of
                  Some result \<Rightarrow> (Some (ConstInt type result), s)
                | None \<Rightarrow> (Some (ConstNull type), cerr (msgUnsupportedConstant op name) s))
           | _ \<Rightarrow>
               (case (doubleLiteral l, doubleLiteral r) of
                  (Some a, Some b) \<Rightarrow>
                    (case foldDoubleConstant fp op a b of
                       Some result \<Rightarrow> (Some (ConstFP result), s)
                     | None \<Rightarrow> (Some (ConstNull type), cerr (msgUnsupportedConstant op name) s))
                | _ \<Rightarrow> (None, s)))
      | UnaryOpNode op e \<Rightarrow>
          (if op = ''-'' then
             (case intLiteral e of
                Some v \<Rightarrow> (Some (ConstInt type (snorm 32 (- v))), s)
              | None \<Rightarrow>
                  (case doubleLiteral e of
                     Some v \<Rightarrow> (Some (ConstFP (v XOR 0x8000000000000000)), s)
                   | None \<Rightarrow>
                       (Some (ConstNull type),
                        cerr (''Warning: Global variable '' @ sq name
                              @ '' has non-constant unary expression, using zero'') s)))
           else (Some (ConstNull type),
                 cerr (''Warning: Unsupported unary operator '' @ sq op @ '' for global variable ''
                       @ sq name @ '', using zero'') s))
      | _ \<Rightarrow> (None, s))"

text \<open>\<^verbatim>\<open>new llvm::GlobalVariable(...)\<close> followed by \<^verbatim>\<open>globalValues[name] = globalVar\<close>.\<close>

definition createGlobal :: "string \<Rightarrow> ty \<Rightarrow> bool \<Rightarrow> val \<Rightarrow> cg \<Rightarrow> cg" where
  "createGlobal name type isConst initVal s =
     s\<lparr>globalVars := (globalVars s)
          (name \<mapsto> \<lparr>valueType = type, isConstant = isConst, initialValue = initVal\<rparr>),
       globalValues := (globalValues s)(name \<mapsto> Some (GlobalVar name type))\<rparr>"

definition codegenGlobalVarDecl ::
  "(binop \<Rightarrow> double \<Rightarrow> double \<Rightarrow> double) \<Rightarrow> bool \<Rightarrow> string \<Rightarrow> ty \<Rightarrow> expr option \<Rightarrow> cg \<Rightarrow> cg" where
  "codegenGlobalVarDecl fp isConst name type init s =
     (if globalValues s name \<noteq> None then
        cerr (''Error: Global variable '' @ sq name @ '' is already defined'') s
      else
        (case init of
           None \<Rightarrow> createGlobal name type isConst (ConstNull type) s
         | Some e \<Rightarrow>
             (case globalInitializer fp name type e s of
                (Some initVal, s1) \<Rightarrow> createGlobal name type isConst initVal s1
              | (None, s1) \<Rightarrow>
                  (let s2 = createGlobal name type isConst (ConstNull type) s1
                   in s2\<lparr>globalInitializers :=
                           globalInitializers s2 @ [(GlobalVar name type, e)]\<rparr>))))"

subsection \<open>In a function\<close>

definition storeElement :: "ty \<Rightarrow> val \<Rightarrow> val list \<Rightarrow> val \<Rightarrow> cg \<Rightarrow> cg" where
  "storeElement arrType alloca indices elem s =
     (let (elemPtr, s1) = CreateGEP arrType alloca indices s in CreateStore elem elemPtr s1)"

text \<open>The initialisation of an array of arrays from a nested literal: an element that is
  a literal array is entered, any other element is lowered and stored at its indices.\<close>

fun initNestedArray :: "expr_lowering \<Rightarrow> ty \<Rightarrow> val \<Rightarrow> val list \<Rightarrow> nat \<Rightarrow> expr list \<Rightarrow> cg \<Rightarrow> cg"
  and initNestedElement :: "expr_lowering \<Rightarrow> ty \<Rightarrow> val \<Rightarrow> val list \<Rightarrow> expr \<Rightarrow> cg \<Rightarrow> cg" where
  "initNestedArray cgE arrType alloca currentIndices i [] s = s"
| "initNestedArray cgE arrType alloca currentIndices i (e # es) s =
     initNestedArray cgE arrType alloca currentIndices (Suc i) es
       (initNestedElement cgE arrType alloca (currentIndices @ [ConstInt I64 (int i)]) e s)"
| "initNestedElement cgE arrType alloca newIndices (ArrayLiteralNode es) s =
     initNestedArray cgE arrType alloca newIndices 0 es s"
| "initNestedElement cgE arrType alloca newIndices e s =
     (case cgE e s of
        (None, s1) \<Rightarrow> s1
      | (Some elem, s1) \<Rightarrow> storeElement arrType alloca (ConstInt I64 0 # newIndices) elem s1)"

fun getNumElements :: "ty \<Rightarrow> nat" where
  "getNumElements (ArrayTy t n) = n"
| "getNumElements t = 0"

text \<open>The initialisation of an array from a literal of scalars: no more elements are
  stored than the array has.\<close>

fun initFlatArray :: "expr_lowering \<Rightarrow> ty \<Rightarrow> val \<Rightarrow> nat \<Rightarrow> expr list \<Rightarrow> cg \<Rightarrow> cg" where
  "initFlatArray cgE arrType alloca i [] s = s"
| "initFlatArray cgE arrType alloca i (e # es) s =
     (if i < getNumElements arrType then
        (case cgE e s of
           (None, s1) \<Rightarrow> initFlatArray cgE arrType alloca (Suc i) es s1
         | (Some elem, s1) \<Rightarrow>
             initFlatArray cgE arrType alloca (Suc i) es
               (storeElement arrType alloca [ConstInt I64 0, ConstInt I64 (int i)] elem s1))
      else s)"

fun isArrayLiteral :: "expr \<Rightarrow> bool" where
  "isArrayLiteral (ArrayLiteralNode es) = True"
| "isArrayLiteral e = False"

fun elements :: "expr \<Rightarrow> expr list" where
  "elements (ArrayLiteralNode es) = es"
| "elements e = []"

text \<open>The initialisation of any other variable; a temporary string that is stored
  becomes the string that the variable owns.\<close>

definition initVariable :: "expr_lowering \<Rightarrow> string \<Rightarrow> ty \<Rightarrow> val \<Rightarrow> expr \<Rightarrow> cg \<Rightarrow> cg" where
  "initVariable cgE name type alloca init s =
     (case cgE init s of
        (None, s1) \<Rightarrow> s1
      | (Some initVal0, s1) \<Rightarrow>
          (let (initVal, s2) = (if getType_val initVal0 \<noteq> type then convertToType initVal0 type s1
                                else (initVal0, s1));
               s3 = CreateStore initVal alloca s2
           in if isPointerTy (getType_val initVal) \<and> initVal \<in> set (tempMemoryStack s3)
              then trackOwnedString name initVal (removeTempMemory initVal s3)
              else s3))"

definition codegenLocalVarDecl ::
  "expr_lowering \<Rightarrow> string \<Rightarrow> string \<Rightarrow> TypeNode \<Rightarrow> ty \<Rightarrow> expr option \<Rightarrow> cg \<Rightarrow> cg" where
  "codegenLocalVarDecl cgE function name tn type init s =
     (if namedValues s name \<noteq> None then
        cerr (''Error: Local variable '' @ sq name @ '' is already defined in this scope'') s
      else
        (let (alloca, s1) = createEntryBlockAlloca function type s;
             s2 = (case init of
                     None \<Rightarrow> s1
                   | Some e \<Rightarrow>
                       if arrayDimensions tn \<noteq> [] \<and> isArrayLiteral e then
                         (if elements e \<noteq> [] \<and> isArrayLiteral (hd (elements e))
                          then initNestedArray cgE type alloca [] 0 (elements e) s1
                          else initFlatArray cgE type alloca 0 (elements e) s1)
                       else initVariable cgE name type alloca e s1);
             s3 = s2\<lparr>namedValues := (namedValues s2)(name \<mapsto> Some alloca),
                     variableTypes := (variableTypes s2)(name \<mapsto> typeName tn)\<rparr>
         in clearTempMemory s3))"

text \<open>The declaration is of a global when no function is being lowered.\<close>

definition codegenVarDecl ::
  "(binop \<Rightarrow> double \<Rightarrow> double \<Rightarrow> double) \<Rightarrow> expr_lowering \<Rightarrow>
   bool \<Rightarrow> string \<Rightarrow> TypeNode \<Rightarrow> expr option \<Rightarrow> cg \<Rightarrow> cg" where
  "codegenVarDecl fp cgE isConst name tn init s =
     (let (type, s1) = declaredType tn s
      in case currentFunction s1 of
           None \<Rightarrow> codegenGlobalVarDecl fp isConst name type init s1
         | Some function \<Rightarrow> codegenLocalVarDecl cgE function name tn type init s1)"

section \<open>Modules\<close>

text \<open>
  The files that the code generator can see: which paths exist, what the parser makes
  of a file, and the two directories that \<^verbatim>\<open>findModuleFile\<close> searches.
\<close>

datatype parse_result = CannotOpen | ParseFailed | Parsed "stmt list"

record files =
  file_exists :: "string \<Rightarrow> bool"
  parse_file :: "string \<Rightarrow> parse_result"
  sourceDirectory :: string
  currentDirectory :: string

text \<open>\<^verbatim>\<open>CodeGenerator::findModuleFile\<close>; the empty string if there is no file.\<close>

definition findModuleFile :: "files \<Rightarrow> string \<Rightarrow> string" where
  "findModuleFile F moduleName =
     (let modulePath =
            (if length moduleName < 4 \<or> drop (length moduleName - 4) moduleName \<noteq> ''.ppx''
             then moduleName @ ''.ppx'' else moduleName)
      in if file_exists F modulePath then modulePath
         else if sourceDirectory F \<noteq> [] \<and> hd modulePath \<noteq> CHR ''/'' \<and>
                 file_exists F (sourceDirectory F @ ''/'' @ modulePath)
         then sourceDirectory F @ ''/'' @ modulePath
         else if hd modulePath \<noteq> CHR ''/'' \<and> file_exists F (currentDirectory F @ ''/'' @ modulePath)
         then currentDirectory F @ ''/'' @ modulePath
         else [])"

text \<open>
  The body of the loop of \<^verbatim>\<open>loadModule\<close> over the statements of the module (lines 338 to
  368): a function or a variable declaration is lowered as it is in the importing file,
  then entered in the table of the module if the target module has the function, or the
  table of globals has the variable.
\<close>

definition registerDeclaration ::
  "(binop \<Rightarrow> double \<Rightarrow> double \<Rightarrow> double) \<Rightarrow> expr_lowering \<Rightarrow> stmt_lowering \<Rightarrow>
   string \<Rightarrow> stmt \<Rightarrow> cg \<Rightarrow> cg" where
  "registerDeclaration fp cgE cgS moduleName st s =
     (case st of
        FunctionDeclNode name parameters returnType body \<Rightarrow>
          (let s1 = codegenFunctionDecl cgS name parameters returnType body s
           in if moduleFns s1 name \<noteq> None then
                s1\<lparr>moduleFunctions := (moduleFunctions s1)
                      (moduleName \<mapsto>
                         (case moduleFunctions s1 moduleName of
                            None \<Rightarrow> Map.empty | Some fs \<Rightarrow> fs)(name \<mapsto> name))\<rparr>
              else s1)
      | VarDeclNode isConst name type initializer \<Rightarrow>
          (let s1 = codegenVarDecl fp cgE isConst name type initializer s
           in case globalValues s1 name of
                Some g \<Rightarrow>
                  s1\<lparr>moduleGlobals := (moduleGlobals s1)
                        (moduleName \<mapsto>
                           (case moduleGlobals s1 moduleName of
                              None \<Rightarrow> Map.empty | Some gs \<Rightarrow> gs)(name \<mapsto> g))\<rparr>
              | None \<Rightarrow> s1)
      | _ \<Rightarrow> s)"

text \<open>\<^verbatim>\<open>CodeGenerator::loadModule\<close>.\<close>

definition loadModule ::
  "files \<Rightarrow> (binop \<Rightarrow> double \<Rightarrow> double \<Rightarrow> double) \<Rightarrow> expr_lowering \<Rightarrow> stmt_lowering \<Rightarrow>
   string \<Rightarrow> cg \<Rightarrow> bool \<times> cg" where
  "loadModule F fp cgE cgS moduleName s =
     (if moduleName \<in> loadedModules s then (True, s)
      else
        (let moduleFile = findModuleFile F moduleName
         in if moduleFile = [] then
              (False, cerr (''Error: Module '' @ sq moduleName @ '' not found'') s)
            else
              (case parse_file F moduleFile of
                 CannotOpen \<Rightarrow> (False, cerr (''Error: Cannot open module file: '' @ moduleFile) s)
               | ParseFailed \<Rightarrow> (False, cerr (''Error: Failed to parse module: '' @ moduleName) s)
               | Parsed statements \<Rightarrow>
                   (let s1 = (if moduleFunctions s moduleName = None then
                                s\<lparr>moduleFunctions := (moduleFunctions s)(moduleName \<mapsto> Map.empty),
                                  moduleGlobals := (moduleGlobals s)(moduleName \<mapsto> Map.empty)\<rparr>
                              else s);
                        s2 = fold (registerDeclaration fp cgE cgS moduleName) statements s1
                    in (True, s2\<lparr>loadedModules := insert moduleName (loadedModules s2)\<rparr>)))))"

text \<open>\<^verbatim>\<open>CodeGenerator::codegenImport\<close>.\<close>

definition codegenImport ::
  "files \<Rightarrow> (binop \<Rightarrow> double \<Rightarrow> double \<Rightarrow> double) \<Rightarrow> expr_lowering \<Rightarrow> stmt_lowering \<Rightarrow>
   string \<Rightarrow> string \<Rightarrow> cg \<Rightarrow> cg" where
  "codegenImport F fp cgE cgS moduleName alias s =
     (case loadModule F fp cgE cgS moduleName s of
        (False, s1) \<Rightarrow> cerr (''Error: Failed to import module: '' @ moduleName) s1
      | (True, s1) \<Rightarrow>
          if alias \<noteq> [] then s1\<lparr>moduleAliases := (moduleAliases s1)(alias \<mapsto> moduleName)\<rparr>
          else s1\<lparr>moduleAliases := (moduleAliases s1)(moduleName \<mapsto> moduleName)\<rparr>)"

section \<open>Reasoning about emitted code\<close>

lemma emit_sel [simp]:
  "blocks (emit i s) = (case insertBlock s of None \<Rightarrow> blocks s | Some b \<Rightarrow> (blocks s)(b := blocks s b @ [i]))"
  "blockName (emit i s) = blockName s"
  "blockParent (emit i s) = blockParent s"
  "nextBlock (emit i s) = nextBlock s"
  "nextInst (emit i s) = nextInst s"
  "insertBlock (emit i s) = insertBlock s"
  by (simp_all add: emit_def split: option.splits)

lemma emitv_sel [simp]:
  "fst (emitv mk t s) = Inst (nextInst s) t"
  "blocks (snd (emitv mk t s)) = blocks (emit (mk (nextInst s)) s)"
  "blockName (snd (emitv mk t s)) = blockName s"
  "blockParent (snd (emitv mk t s)) = blockParent s"
  "nextBlock (snd (emitv mk t s)) = nextBlock s"
  "nextInst (snd (emitv mk t s)) = Suc (nextInst s)"
  "insertBlock (snd (emitv mk t s)) = insertBlock s"
  by (simp_all add: emitv_def)

lemma BasicBlock_Create_sel [simp]:
  "fst (BasicBlock_Create name parent s) = nextBlock s"
  "blocks (snd (BasicBlock_Create name parent s)) = (blocks s)(nextBlock s := [])"
  "blockName (snd (BasicBlock_Create name parent s)) = (blockName s)(nextBlock s := name)"
  "blockParent (snd (BasicBlock_Create name parent s)) = (blockParent s)(nextBlock s := parent)"
  "nextBlock (snd (BasicBlock_Create name parent s)) = Suc (nextBlock s)"
  "nextInst (snd (BasicBlock_Create name parent s)) = nextInst s"
  "insertBlock (snd (BasicBlock_Create name parent s)) = insertBlock s"
  by (simp_all add: BasicBlock_Create_def)

lemma SetInsertPoint_sel [simp]:
  "blocks (SetInsertPoint b s) = blocks s"
  "blockName (SetInsertPoint b s) = blockName s"
  "blockParent (SetInsertPoint b s) = blockParent s"
  "nextBlock (SetInsertPoint b s) = nextBlock s"
  "nextInst (SetInsertPoint b s) = nextInst s"
  "insertBlock (SetInsertPoint b s) = Some b"
  by (simp_all add: SetInsertPoint_def)

lemma Function_insert_sel [simp]:
  "blocks (Function_insert f b s) = blocks s"
  "blockName (Function_insert f b s) = blockName s"
  "nextBlock (Function_insert f b s) = nextBlock s"
  "nextInst (Function_insert f b s) = nextInst s"
  "insertBlock (Function_insert f b s) = insertBlock s"
  by (simp_all add: Function_insert_def)

lemma cerr_sel [simp]:
  "stderr (cerr line s) = stderr s @ [line]" "errorCount (cerr line s) = errorCount s"
  "warningCount (cerr line s) = warningCount s" "blocks (cerr line s) = blocks s"
  "insertBlock (cerr line s) = insertBlock s" "nextBlock (cerr line s) = nextBlock s"
  "nextInst (cerr line s) = nextInst s" "loopContextStack (cerr line s) = loopContextStack s"
  "tempMemoryStack (cerr line s) = tempMemoryStack s"
  by (simp_all add: cerr_def)

text \<open>The builder leaves the tables of the code generator as they are.\<close>

lemma builder_frame [simp]:
  "moduleFns (emit i s) = moduleFns s"
  "currentFunction (emit i s) = currentFunction s"
  "namedValues (emit i s) = namedValues s"
  "globalValues (emit i s) = globalValues s"
  "functions_tab (emit i s) = functions_tab s"
  "variableTypes (emit i s) = variableTypes s"
  "loopContextStack (emit i s) = loopContextStack s"
  "tempMemoryStack (emit i s) = tempMemoryStack s"
  "ownedStringMemory (emit i s) = ownedStringMemory s"
  "loadedModules (emit i s) = loadedModules s"
  "moduleAliases (emit i s) = moduleAliases s"
  "moduleFunctions (emit i s) = moduleFunctions s"
  "moduleGlobals (emit i s) = moduleGlobals s"
  "errorCount (emit i s) = errorCount s"
  "warningCount (emit i s) = warningCount s"
  "g_errorCount (emit i s) = g_errorCount s"
  "globalVars (emit i s) = globalVars s"
  "globalInitializers (emit i s) = globalInitializers s"
  "stderr (emit i s) = stderr s"
  "moduleFns (snd (emitv mk t s)) = moduleFns s"
  "currentFunction (snd (emitv mk t s)) = currentFunction s"
  "namedValues (snd (emitv mk t s)) = namedValues s"
  "globalValues (snd (emitv mk t s)) = globalValues s"
  "functions_tab (snd (emitv mk t s)) = functions_tab s"
  "variableTypes (snd (emitv mk t s)) = variableTypes s"
  "loopContextStack (snd (emitv mk t s)) = loopContextStack s"
  "tempMemoryStack (snd (emitv mk t s)) = tempMemoryStack s"
  "ownedStringMemory (snd (emitv mk t s)) = ownedStringMemory s"
  "loadedModules (snd (emitv mk t s)) = loadedModules s"
  "moduleAliases (snd (emitv mk t s)) = moduleAliases s"
  "moduleFunctions (snd (emitv mk t s)) = moduleFunctions s"
  "moduleGlobals (snd (emitv mk t s)) = moduleGlobals s"
  "errorCount (snd (emitv mk t s)) = errorCount s"
  "warningCount (snd (emitv mk t s)) = warningCount s"
  "g_errorCount (snd (emitv mk t s)) = g_errorCount s"
  "globalVars (snd (emitv mk t s)) = globalVars s"
  "globalInitializers (snd (emitv mk t s)) = globalInitializers s"
  "stderr (snd (emitv mk t s)) = stderr s"
  "moduleFns (snd (BasicBlock_Create name parent s)) = moduleFns s"
  "currentFunction (snd (BasicBlock_Create name parent s)) = currentFunction s"
  "namedValues (snd (BasicBlock_Create name parent s)) = namedValues s"
  "globalValues (snd (BasicBlock_Create name parent s)) = globalValues s"
  "functions_tab (snd (BasicBlock_Create name parent s)) = functions_tab s"
  "variableTypes (snd (BasicBlock_Create name parent s)) = variableTypes s"
  "loopContextStack (snd (BasicBlock_Create name parent s)) = loopContextStack s"
  "tempMemoryStack (snd (BasicBlock_Create name parent s)) = tempMemoryStack s"
  "ownedStringMemory (snd (BasicBlock_Create name parent s)) = ownedStringMemory s"
  "loadedModules (snd (BasicBlock_Create name parent s)) = loadedModules s"
  "moduleAliases (snd (BasicBlock_Create name parent s)) = moduleAliases s"
  "moduleFunctions (snd (BasicBlock_Create name parent s)) = moduleFunctions s"
  "moduleGlobals (snd (BasicBlock_Create name parent s)) = moduleGlobals s"
  "errorCount (snd (BasicBlock_Create name parent s)) = errorCount s"
  "warningCount (snd (BasicBlock_Create name parent s)) = warningCount s"
  "g_errorCount (snd (BasicBlock_Create name parent s)) = g_errorCount s"
  "globalVars (snd (BasicBlock_Create name parent s)) = globalVars s"
  "globalInitializers (snd (BasicBlock_Create name parent s)) = globalInitializers s"
  "stderr (snd (BasicBlock_Create name parent s)) = stderr s"
  "moduleFns (SetInsertPoint b s) = moduleFns s"
  "currentFunction (SetInsertPoint b s) = currentFunction s"
  "namedValues (SetInsertPoint b s) = namedValues s"
  "globalValues (SetInsertPoint b s) = globalValues s"
  "functions_tab (SetInsertPoint b s) = functions_tab s"
  "variableTypes (SetInsertPoint b s) = variableTypes s"
  "loopContextStack (SetInsertPoint b s) = loopContextStack s"
  "tempMemoryStack (SetInsertPoint b s) = tempMemoryStack s"
  "ownedStringMemory (SetInsertPoint b s) = ownedStringMemory s"
  "loadedModules (SetInsertPoint b s) = loadedModules s"
  "moduleAliases (SetInsertPoint b s) = moduleAliases s"
  "moduleFunctions (SetInsertPoint b s) = moduleFunctions s"
  "moduleGlobals (SetInsertPoint b s) = moduleGlobals s"
  "errorCount (SetInsertPoint b s) = errorCount s"
  "warningCount (SetInsertPoint b s) = warningCount s"
  "g_errorCount (SetInsertPoint b s) = g_errorCount s"
  "globalVars (SetInsertPoint b s) = globalVars s"
  "globalInitializers (SetInsertPoint b s) = globalInitializers s"
  "stderr (SetInsertPoint b s) = stderr s"
  "moduleFns (Function_insert f b s) = moduleFns s"
  "currentFunction (Function_insert f b s) = currentFunction s"
  "namedValues (Function_insert f b s) = namedValues s"
  "globalValues (Function_insert f b s) = globalValues s"
  "functions_tab (Function_insert f b s) = functions_tab s"
  "variableTypes (Function_insert f b s) = variableTypes s"
  "loopContextStack (Function_insert f b s) = loopContextStack s"
  "tempMemoryStack (Function_insert f b s) = tempMemoryStack s"
  "ownedStringMemory (Function_insert f b s) = ownedStringMemory s"
  "loadedModules (Function_insert f b s) = loadedModules s"
  "moduleAliases (Function_insert f b s) = moduleAliases s"
  "moduleFunctions (Function_insert f b s) = moduleFunctions s"
  "moduleGlobals (Function_insert f b s) = moduleGlobals s"
  "errorCount (Function_insert f b s) = errorCount s"
  "warningCount (Function_insert f b s) = warningCount s"
  "g_errorCount (Function_insert f b s) = g_errorCount s"
  "globalVars (Function_insert f b s) = globalVars s"
  "globalInitializers (Function_insert f b s) = globalInitializers s"
  "stderr (Function_insert f b s) = stderr s"
  by (simp_all add: emit_def emitv_def BasicBlock_Create_def SetInsertPoint_def Function_insert_def
      split: option.splits)

lemma cerr_frame [simp]:
  "moduleFns (cerr line s) = moduleFns s"
  "currentFunction (cerr line s) = currentFunction s"
  "namedValues (cerr line s) = namedValues s"
  "globalValues (cerr line s) = globalValues s"
  "functions_tab (cerr line s) = functions_tab s"
  "variableTypes (cerr line s) = variableTypes s"
  "ownedStringMemory (cerr line s) = ownedStringMemory s"
  "loadedModules (cerr line s) = loadedModules s"
  "moduleAliases (cerr line s) = moduleAliases s"
  "moduleFunctions (cerr line s) = moduleFunctions s"
  "moduleGlobals (cerr line s) = moduleGlobals s"
  "g_errorCount (cerr line s) = g_errorCount s"
  "globalVars (cerr line s) = globalVars s"
  "globalInitializers (cerr line s) = globalInitializers s"
  "blockName (cerr line s) = blockName s"
  "blockParent (cerr line s) = blockParent s"
  by (simp_all add: cerr_def)

lemmas create_defs = CreateICmp_def CreateFCmp_def CreateCondBr_def CreateGlobalString_def
  CreateCall_def CreateBr_def CreateBinOp_def CreatePHI_def CreateCast_def CreateLoad_def
  CreateStore_def CreateGEP_def

text \<open>Later lowering only appends to the blocks that exist: a program extends another
  on the first \<open>n\<close> blocks when each of these blocks starts with the block of the other.\<close>

definition extends :: "nat \<Rightarrow> (nat \<Rightarrow> instr list) \<Rightarrow> (nat \<Rightarrow> instr list) \<Rightarrow> bool" where
  "extends n B B' = (\<forall>b. b < n \<longrightarrow> (\<exists>zs. B' b = B b @ zs))"

lemma extends_refl [simp]: "extends n B B"
  by (simp add: extends_def)

lemma extends_trans: "extends n B B' \<Longrightarrow> extends n' B' B'' \<Longrightarrow> n \<le> n' \<Longrightarrow> extends n B B''"
  unfolding extends_def by (metis append.assoc order_less_le_trans)

lemma extends_upd_append: "extends n B (B(b := B b @ zs))"
  by (simp add: extends_def)

lemma extends_upd_fresh: "n \<le> b \<Longrightarrow> extends n B B' \<Longrightarrow> extends n B (B'(b := zs))"
  by (simp add: extends_def)

definition reaches :: "ext \<Rightarrow> (nat \<Rightarrow> instr list) \<Rightarrow> config \<Rightarrow> config \<Rightarrow> bool" where
  "reaches X B c c' = (\<exists>k. run X B k c = c')"

lemma run_add: "run X B (m + n) c = run X B n (run X B m c)"
  by (induction m arbitrary: c) simp_all

lemma reaches_refl [simp]: "reaches X B c c"
  unfolding reaches_def by (rule exI [of _ 0]) simp

lemma reaches_trans: "reaches X B c c1 \<Longrightarrow> reaches X B c1 c2 \<Longrightarrow> reaches X B c c2"
  unfolding reaches_def using run_add by metis

lemma reaches_step: "step X B c = c' \<Longrightarrow> reaches X B c c'"
  unfolding reaches_def by (rule exI [of _ 1]) simp

lemma step_at:
  assumes "extends n B0 B" "c_block c < n" "B0 (c_block c) = pre @ i # post"
    "c_pc c = length pre" "c_status c = Running"
  shows "step X B c = exec X i c"
proof -
  from assms(1,2) obtain zs where "B (c_block c) = B0 (c_block c) @ zs"
    unfolding extends_def by blast
  with assms(3) have "B (c_block c) = pre @ i # (post @ zs)" by simp
  with assms(4,5) show ?thesis by (simp add: step_def)
qed

lemma snorm_0 [simp]: "snorm w 0 = 0"
proof (cases w)
  case 0 then show ?thesis by (simp add: snorm_def)
next
  case (Suc k)
  have "(2::int) ^ k mod 2 ^ Suc k = 2 ^ k"
    by (rule mod_pos_pos_trivial) simp_all
  with Suc show ?thesis by (simp add: snorm_def)
qed

lemma config_sel [simp]:
  "c_block (set_reg n v c) = c_block c" "c_pc (set_reg n v c) = Suc (c_pc c)"
  "c_prev (set_reg n v c) = c_prev c" "c_regs (set_reg n v c) = (c_regs c)(n := v)"
  "c_args (set_reg n v c) = c_args c" "c_mem (set_reg n v c) = c_mem c"
  "c_heap (set_reg n v c) = c_heap c" "c_freed (set_reg n v c) = c_freed c"
  "c_trace (set_reg n v c) = c_trace c" "c_status (set_reg n v c) = c_status c"
  "c_block (goto b c) = b" "c_pc (goto b c) = 0"
  "c_prev (goto b c) = Some (c_block c)" "c_regs (goto b c) = c_regs c"
  "c_args (goto b c) = c_args c" "c_mem (goto b c) = c_mem c"
  "c_heap (goto b c) = c_heap c" "c_freed (goto b c) = c_freed c"
  "c_trace (goto b c) = c_trace c" "c_status (goto b c) = c_status c"
  by (simp_all add: set_reg_def goto_def)

text \<open>The machine stands at the insertion point of the builder.\<close>

definition at_end :: "cg \<Rightarrow> config \<Rightarrow> bool" where
  "at_end s c = (insertBlock s = Some (c_block c) \<and> c_block c < nextBlock s \<and>
                 c_pc c = length (blocks s (c_block c)) \<and> c_status c = Running)"

text \<open>A value is defined before a point of the lowering when it is not the result of
  an instruction still to be created.\<close>

fun defined_before :: "cg \<Rightarrow> val \<Rightarrow> bool" where
  "defined_before s (Inst n t) = (n < nextInst s)"
| "defined_before s v = True"

text \<open>The run-time value of an operand has the operand's type; it is a zero.\<close>

definition rt_typed :: "config \<Rightarrow> val \<Rightarrow> bool" where
  "rt_typed c v = (case eval_val c v of
       VInt x \<Rightarrow> isIntegerTy (getType_val v)
     | VDouble d \<Rightarrow> getType_val v = DoubleTy
     | _ \<Rightarrow> False)"

definition rt_zero :: "config \<Rightarrow> val \<Rightarrow> bool" where
  "rt_zero c v = (case eval_val c v of
       VInt x \<Rightarrow> isIntegerTy (getType_val v) \<and> x = 0
     | VDouble d \<Rightarrow> getType_val v = DoubleTy \<and> is_fzero d
     | _ \<Rightarrow> False)"

text \<open>What the theorems need of the conversions between integers and doubles: the
  integer zero converts to a zero, and a zero converts to the integer zero.\<close>

definition conv_zero :: "ext \<Rightarrow> bool" where
  "conv_zero X = (is_fzero (sitofp X 0) \<and> (\<forall>d. is_fzero d \<longrightarrow> fptosi X d = 0))"

definition lowers :: "ext \<Rightarrow> cg \<Rightarrow> config \<Rightarrow> cg \<Rightarrow> config \<Rightarrow> bool" where
  "lowers X s c s' c' = (at_end s' c' \<and> extends (nextBlock s) (blocks s) (blocks s') \<and>
      nextBlock s \<le> nextBlock s' \<and> nextInst s \<le> nextInst s' \<and>
      c_trace c' = c_trace c \<and> c_mem c' = c_mem c \<and>
      (\<forall>B. extends (nextBlock s') (blocks s') B \<longrightarrow> reaches X B c c'))"

lemma lowers_refl: "at_end s c \<Longrightarrow> lowers X s c s c"
  by (simp add: lowers_def)

lemma lowers_trans:
  assumes "lowers X s c s1 c1" "lowers X s1 c1 s2 c2"
  shows "lowers X s c s2 c2"
proof -
  have "reaches X B c c2" if B: "extends (nextBlock s2) (blocks s2) B" for B
  proof -
    from assms(2) B have "extends (nextBlock s1) (blocks s1) B"
      unfolding lowers_def by (meson extends_trans)
    with assms(1) have "reaches X B c c1" by (simp add: lowers_def)
    moreover from assms(2) B have "reaches X B c1 c2" by (simp add: lowers_def)
    ultimately show ?thesis by (rule reaches_trans)
  qed
  moreover from assms have "extends (nextBlock s) (blocks s) (blocks s2)"
    unfolding lowers_def by (meson extends_trans)
  ultimately show ?thesis using assms by (simp add: lowers_def)
qed

lemma defined_before_mono: "defined_before s v \<Longrightarrow> nextInst s \<le> nextInst s' \<Longrightarrow> defined_before s' v"
  by (cases v) simp_all

lemma eval_val_set_reg: "defined_before s v \<Longrightarrow> nextInst s \<le> n \<Longrightarrow> eval_val (set_reg n x c) v = eval_val c v"
  by (cases v) simp_all

fun cast_ok :: "castop \<Rightarrow> ty \<Rightarrow> ty \<Rightarrow> bool" where
  "cast_ok ZExt a t = (isIntegerTy a \<and> isIntegerTy t)"
| "cast_ok SExt a t = (isIntegerTy a \<and> isIntegerTy t)"
| "cast_ok SIToFP a t = (isIntegerTy a \<and> t = DoubleTy)"
| "cast_ok FPToSI a t = (a = DoubleTy \<and> isIntegerTy t)"
| "cast_ok Trunc a t = (isIntegerTy a \<and> isIntegerTy t)"
| "cast_ok UIToFP a t = (isIntegerTy a \<and> t = DoubleTy)"
| "cast_ok BitCast a t = False"

fun cast_value :: "ext \<Rightarrow> castop \<Rightarrow> ty \<Rightarrow> ty \<Rightarrow> rtval \<Rightarrow> rtval" where
  "cast_value X ZExt a t (VInt x) = VInt (x mod 2 ^ getIntegerBitWidth a)"
| "cast_value X SExt a t (VInt x) = VInt x"
| "cast_value X SIToFP a t (VInt x) = VDouble (sitofp X x)"
| "cast_value X FPToSI a t (VDouble d) = VInt (snorm (getIntegerBitWidth t) (fptosi X d))"
| "cast_value X Trunc a t (VInt x) = VInt (snorm (getIntegerBitWidth t) x)"
| "cast_value X UIToFP a t (VInt x) = VDouble (sitofp X (x mod 2 ^ getIntegerBitWidth a))"
| "cast_value X op a t v = VPoison"

lemma exec_cast:
  "cast_ok op (getType_val v) t \<Longrightarrow> rt_typed c v \<Longrightarrow>
   exec X (Cast n op v t) c = set_reg n (cast_value X op (getType_val v) t (eval_val c v)) c"
  by (cases op; cases "eval_val c v") (auto simp: rt_typed_def)

lemma cast_value_typed:
  "cast_ok op (getType_val v) t \<Longrightarrow> rt_typed c v \<Longrightarrow>
   (case cast_value X op (getType_val v) t (eval_val c v) of
      VInt y \<Rightarrow> isIntegerTy t | VDouble d \<Rightarrow> t = DoubleTy | _ \<Rightarrow> False)"
  by (cases op; cases "eval_val c v") (auto simp: rt_typed_def)

lemma cast_value_zero:
  "cast_ok op (getType_val v) t \<Longrightarrow> rt_zero c v \<Longrightarrow> conv_zero X \<Longrightarrow>
   (case cast_value X op (getType_val v) t (eval_val c v) of
      VInt y \<Rightarrow> y = 0 | VDouble d \<Rightarrow> is_fzero d | _ \<Rightarrow> False)"
  by (cases op; cases "eval_val c v") (auto simp: rt_zero_def conv_zero_def)

lemma castIf_run:
  assumes ae: "at_end s c" and dv: "defined_before s v" and tv: "rt_typed c v"
    and r: "castIf cond op t v s = (v', s')" and ok: "cond \<Longrightarrow> cast_ok op (getType_val v) t"
    and X: "conv_zero X"
  shows "\<exists>c'. lowers X s c s' c' \<and> defined_before s' v' \<and> rt_typed c' v' \<and>
            (rt_zero c v \<longrightarrow> rt_zero c' v') \<and>
            (\<forall>u. defined_before s u \<longrightarrow> eval_val c' u = eval_val c u) \<and>
            getType_val v' = (if cond then t else getType_val v)"
proof (cases cond)
  case False
  with r have "v' = v" "s' = s" by (simp_all add: castIf_def)
  with ae dv tv False show ?thesis
    by (intro exI [of _ c]) (simp add: lowers_refl)
next
  case True
  let ?b = "c_block c" and ?n = "nextInst s"
  let ?i = "Cast ?n op v t"
  let ?x = "cast_value X op (getType_val v) t (eval_val c v)"
  from r True have v': "v' = Inst ?n t" and s': "s' = snd (CreateCast op v t s)"
    by (simp_all add: castIf_def CreateCast_def prod_eq_iff)
  from ae have ib: "insertBlock s = Some ?b" and pc: "c_pc c = length (blocks s ?b)"
    and st: "c_status c = Running" and lt: "?b < nextBlock s"
    by (simp_all add: at_end_def)
  have bl: "blocks s' = (blocks s)(?b := blocks s ?b @ [?i])"
    using ib by (simp add: s' CreateCast_def)
  define c' where "c' = set_reg ?n ?x c"
  have nb: "nextBlock s' = nextBlock s" by (simp add: s' CreateCast_def)
  have step: "step X B c = c'" if "extends (nextBlock s') (blocks s') B" for B
    using step_at [OF that _ _ pc st, of ?i "[]" X] exec_cast [OF ok [OF True] tv] lt
    by (simp add: bl c'_def nb)
  have "lowers X s c s' c'"
    unfolding lowers_def at_end_def
    using ib lt pc st step
    by (auto simp: c'_def s' CreateCast_def bl extends_upd_append intro: reaches_step)
  moreover have "defined_before s' v'" by (simp add: v' s' CreateCast_def)
  moreover have "rt_typed c' v'"
    using cast_value_typed [OF ok [OF True] tv, of X]
    by (simp add: rt_typed_def v' c'_def split: rtval.splits)
  moreover have "rt_zero c v \<longrightarrow> rt_zero c' v'"
    using cast_value_zero [OF ok [OF True] _ X, of c] cast_value_typed [OF ok [OF True] tv, of X]
    by (auto simp: rt_zero_def v' c'_def split: rtval.splits)
  moreover have "\<forall>u. defined_before s u \<longrightarrow> eval_val c' u = eval_val c u"
    by (simp add: c'_def eval_val_set_reg)
  moreover have "getType_val v' = (if cond then t else getType_val v)"
    using True by (simp add: v')
  ultimately show ?thesis by blast
qed

lemma rt_zero_typed: "rt_zero c v \<Longrightarrow> rt_typed c v"
  by (auto simp: rt_zero_def rt_typed_def split: rtval.splits)

lemma rt_typed_cong: "eval_val c' v = eval_val c v \<Longrightarrow> rt_typed c' v = rt_typed c v"
  by (simp add: rt_typed_def)

lemma rt_zero_cong: "eval_val c' v = eval_val c v \<Longrightarrow> rt_zero c' v = rt_zero c v"
  by (simp add: rt_zero_def)

text \<open>The two operands at a point of the lowering: both defined, the left one typed,
  the right one a zero.\<close>

definition opnds :: "cg \<Rightarrow> config \<Rightarrow> val \<Rightarrow> val \<Rightarrow> bool" where
  "opnds s c l r = (defined_before s l \<and> defined_before s r \<and> rt_typed c l \<and> rt_zero c r)"

lemma castIf_left:
  assumes "at_end s c" "opnds s c l r" "castIf cond op t l s = (l', s')"
    "cond \<Longrightarrow> cast_ok op (getType_val l) t" "conv_zero X"
  shows "\<exists>c'. lowers X s c s' c' \<and> opnds s' c' l' r \<and>
              getType_val l' = (if cond then t else getType_val l)"
proof -
  from assms(2) have d: "defined_before s l" "defined_before s r" "rt_typed c l" "rt_zero c r"
    by (simp_all add: opnds_def)
  from castIf_run [OF assms(1) d(1) d(3) assms(3) assms(4) assms(5)]
  obtain c' where c': "lowers X s c s' c'" "defined_before s' l'" "rt_typed c' l'"
    "\<forall>u. defined_before s u \<longrightarrow> eval_val c' u = eval_val c u"
    "getType_val l' = (if cond then t else getType_val l)" by blast
  from c'(4) d(2) have "eval_val c' r = eval_val c r" by simp
  with d(4) have "rt_zero c' r" by (simp add: rt_zero_def)
  moreover from c'(1) d(2) have "defined_before s' r"
    by (auto simp: lowers_def intro: defined_before_mono)
  ultimately show ?thesis using c' by (auto simp: opnds_def)
qed

lemma castIf_right:
  assumes "at_end s c" "opnds s c l r" "castIf cond op t r s = (r', s')"
    "cond \<Longrightarrow> cast_ok op (getType_val r) t" "conv_zero X"
  shows "\<exists>c'. lowers X s c s' c' \<and> opnds s' c' l r' \<and>
              getType_val r' = (if cond then t else getType_val r)"
proof -
  from assms(2) have d: "defined_before s l" "defined_before s r" "rt_typed c l" "rt_zero c r"
    by (simp_all add: opnds_def)
  from castIf_run [OF assms(1) d(2) rt_zero_typed [OF d(4)] assms(3) assms(4) assms(5)] d(4)
  obtain c' where c': "lowers X s c s' c'" "defined_before s' r'" "rt_zero c' r'"
    "\<forall>u. defined_before s u \<longrightarrow> eval_val c' u = eval_val c u"
    "getType_val r' = (if cond then t else getType_val r)" by blast
  from c'(4) d(1) have "eval_val c' l = eval_val c l" by simp
  with d(3) have "rt_typed c' l" by (simp add: rt_typed_def)
  moreover from c'(1) d(1) have "defined_before s' l"
    by (auto simp: lowers_def intro: defined_before_mono)
  ultimately show ?thesis using c' by (auto simp: opnds_def)
qed

lemma lowers_at_end: "lowers X s c s' c' \<Longrightarrow> at_end s' c'"
  by (simp add: lowers_def)

lemma let_pairE:
  assumes "(let (a, b) = f in g a b) = y"
  obtains a b where "f = (a, b)" "g a b = y"
  using assms by (cases f) simp

lemma promoteOperands_run:
  assumes ae: "at_end s c" and op: "opnds s c l r" and X: "conv_zero X"
    and r: "promoteOperands l r s = ((l', r'), s')"
  shows "\<exists>c'. lowers X s c s' c' \<and> opnds s' c' l' r'"
  apply (insert r)
  apply (unfold promoteOperands_def)
  apply (elim let_pairE)
  subgoal premises p for l1 s1 r1 s2 l2 s3 r2 s4 l3 s5 r3 s6 r4 s7 l4 s8
  proof -
    have e1: "castIf (getType_val l = I1) ZExt I32 l s = (l1, s1)" by fact
    have e2: "castIf (getType_val r = I1) ZExt I32 r s1 = (r1, s2)" by fact
    have e3: "castIf (getType_val l1 = I8) SExt I32 l1 s2 = (l2, s3)" by fact
    have e4: "castIf (getType_val r1 = I8) SExt I32 r1 s3 = (r2, s4)" by fact
    have e5: "castIf (getType_val l2 = I16) SExt I32 l2 s4 = (l3, s5)" by fact
    have e6: "castIf (getType_val r2 = I16) SExt I32 r2 s5 = (r3, s6)" by fact
    have e7: "castIf (getType_val l3 = DoubleTy \<and> isIntegerTy (getType_val r3))
                           SIToFP DoubleTy r3 s6 = (r4, s7)" by fact
    have e8: "castIf (\<not> (getType_val l3 = DoubleTy \<and> isIntegerTy (getType_val r3))
                                  \<and> getType_val r3 = DoubleTy \<and> isIntegerTy (getType_val l3))
                           SIToFP DoubleTy l3 s7 = (l4, s8)" by fact
    have "((l4, r4), s8) = ((l', r'), s')" by fact
    then have res: "l' = l4" "r' = r4" "s' = s8" by simp_all
    have ok: "\<And>v. getType_val v = I1 \<Longrightarrow> cast_ok ZExt (getType_val v) I32"
      "\<And>v. getType_val v = I8 \<Longrightarrow> cast_ok SExt (getType_val v) I32"
      "\<And>v. getType_val v = I16 \<Longrightarrow> cast_ok SExt (getType_val v) I32"
      "\<And>v P. P \<and> isIntegerTy (getType_val v) \<Longrightarrow> cast_ok SIToFP (getType_val v) DoubleTy"
      "\<And>v P Q. P \<and> Q \<and> isIntegerTy (getType_val v) \<Longrightarrow> cast_ok SIToFP (getType_val v) DoubleTy"
      by simp_all
    from castIf_left [OF ae op e1 ok(1) X] obtain c1 where
      c1: "lowers X s c s1 c1" "opnds s1 c1 l1 r" by blast
    from castIf_right [OF lowers_at_end [OF c1(1)] c1(2) e2 ok(1) X] obtain c2 where
      c2: "lowers X s1 c1 s2 c2" "opnds s2 c2 l1 r1" by blast
    from castIf_left [OF lowers_at_end [OF c2(1)] c2(2) e3 ok(2) X] obtain c3 where
      c3: "lowers X s2 c2 s3 c3" "opnds s3 c3 l2 r1" by blast
    from castIf_right [OF lowers_at_end [OF c3(1)] c3(2) e4 ok(2) X] obtain c4 where
      c4: "lowers X s3 c3 s4 c4" "opnds s4 c4 l2 r2" by blast
    from castIf_left [OF lowers_at_end [OF c4(1)] c4(2) e5 ok(3) X] obtain c5 where
      c5: "lowers X s4 c4 s5 c5" "opnds s5 c5 l3 r2" by blast
    from castIf_right [OF lowers_at_end [OF c5(1)] c5(2) e6 ok(3) X] obtain c6 where
      c6: "lowers X s5 c5 s6 c6" "opnds s6 c6 l3 r3" by blast
    from castIf_right [OF lowers_at_end [OF c6(1)] c6(2) e7 ok(4) X] obtain c7 where
      c7: "lowers X s6 c6 s7 c7" "opnds s7 c7 l3 r4" by blast
    from castIf_left [OF lowers_at_end [OF c7(1)] c7(2) e8 ok(5) X] obtain c8 where
      c8: "lowers X s7 c7 s8 c8" "opnds s8 c8 l4 r4" by blast
    have "lowers X s c s8 c8"
      by (rule lowers_trans [OF c1(1)], rule lowers_trans [OF c2(1)], rule lowers_trans [OF c3(1)],
          rule lowers_trans [OF c4(1)], rule lowers_trans [OF c5(1)], rule lowers_trans [OF c6(1)],
          rule lowers_trans [OF c7(1)], rule c8(1))
    with c8(2) res show ?thesis by blast
  qed
  done

lemma createDivisionWithZeroCheck_int_shape:
  assumes "insertBlock s = Some b" "b < nextBlock s"
    and "createDivisionWithZeroCheck left right msg True s = (phi, s')"
  shows "phi = Inst (nextInst s + 3) (getType_val left)"
   and "blocks s' = (blocks s)
         (nextBlock s := [Call (nextInst s + 1) ''printf'' [GlobalString msg], Br (Some (nextBlock s + 2))],
          nextBlock s + 1 := [BinOp (nextInst s + 2) SDiv left right, Br (Some (nextBlock s + 2))],
          nextBlock s + 2 := [Phi (nextInst s + 3) (getType_val left)
               [(ConstInt (getType_val left) 0, Some (nextBlock s)),
                (Inst (nextInst s + 2) (getType_val left), Some (nextBlock s + 1))]],
          b := blocks s b @ [ICmp (nextInst s) ICMP_EQ right (ConstInt (getType_val right) 0),
                             CondBr (Inst (nextInst s) I1) (nextBlock s) (nextBlock s + 1)])"
   and "insertBlock s' = Some (nextBlock s + 2)"
   and "nextBlock s' = nextBlock s + 3" and "nextInst s' = nextInst s + 4"
   and "blockName s' (nextBlock s + 2) = ''div_merge''"
  using assms(1,2) assms(3)[symmetric]
  by (simp_all add: createDivisionWithZeroCheck_def create_defs GetInsertParent_def Let_def split_beta prod_eq_iff fun_eq_iff)

lemma createDivisionWithZeroCheck_float_shape:
  assumes "insertBlock s = Some b" "b < nextBlock s"
    and "createDivisionWithZeroCheck left right msg False s = (phi, s')"
  shows "phi = Inst (nextInst s + 3) DoubleTy"
   and "blocks s' = (blocks s)
         (nextBlock s := [Call (nextInst s + 1) ''printf'' [GlobalString msg], Br (Some (nextBlock s + 2))],
          nextBlock s + 1 := [BinOp (nextInst s + 2) FDiv left right, Br (Some (nextBlock s + 2))],
          nextBlock s + 2 := [Phi (nextInst s + 3) DoubleTy
               [(ConstNaN, Some (nextBlock s)),
                (Inst (nextInst s + 2) (getType_val left), Some (nextBlock s + 1))]],
          b := blocks s b @ [FCmp (nextInst s) FCMP_OEQ right (ConstFP 0),
                             CondBr (Inst (nextInst s) I1) (nextBlock s) (nextBlock s + 1)])"
   and "insertBlock s' = Some (nextBlock s + 2)"
   and "nextBlock s' = nextBlock s + 3" and "nextInst s' = nextInst s + 4"
   and "blockName s' (nextBlock s + 2) = ''div_merge''"
  using assms(1,2) assms(3)[symmetric]
  by (simp_all add: createDivisionWithZeroCheck_def create_defs GetInsertParent_def Let_def split_beta prod_eq_iff fun_eq_iff)

lemma printf_call:
  "exec_call X n ''printf'' [VPtr (PStr fmt)] c =
     set_reg n (call_result X ''printf'' [VPtr (PStr fmt)]) (c\<lparr>c_trace := c_trace c @ [EvPrintf fmt []]\<rparr>)"
  by (simp add: exec_call_def)

text \<open>The code of a guard runs from the insertion point before it to the insertion
  point after it, prints the diagnostic, and leaves the default in the result.\<close>

definition guard_runs :: "ext \<Rightarrow> cg \<Rightarrow> config \<Rightarrow> cg \<Rightarrow> val \<Rightarrow> string \<Rightarrow> string \<Rightarrow> rtval \<Rightarrow> bool" where
  "guard_runs X s c s' result mergeName msg dflt =
     (\<exists>c'. (\<forall>B. extends (nextBlock s') (blocks s') B \<longrightarrow> reaches X B c c') \<and>
           extends (nextBlock s) (blocks s) (blocks s') \<and> nextBlock s \<le> nextBlock s' \<and>
           at_end s' c' \<and> blockName s' (c_block c') = mergeName \<and>
           eval_val c' result = dflt \<and> c_trace c' = c_trace c @ [EvPrintf msg []] \<and>
           c_mem c' = c_mem c)"

lemma guard_runs_after_lowers:
  assumes "lowers X s c s1 c1" "guard_runs X s1 c1 s' result mergeName msg dflt"
  shows "guard_runs X s c s' result mergeName msg dflt"
proof -
  from assms(2) obtain c' where c':
    "\<And>B. extends (nextBlock s') (blocks s') B \<Longrightarrow> reaches X B c1 c'"
    "extends (nextBlock s1) (blocks s1) (blocks s')" "nextBlock s1 \<le> nextBlock s'"
    "at_end s' c'" "blockName s' (c_block c') = mergeName"
    "eval_val c' result = dflt" "c_trace c' = c_trace c1 @ [EvPrintf msg []]"
    "c_mem c' = c_mem c1"
    unfolding guard_runs_def by blast
  from assms(1) have l: "extends (nextBlock s) (blocks s) (blocks s1)" "nextBlock s \<le> nextBlock s1"
    "c_trace c1 = c_trace c" "\<And>B. extends (nextBlock s1) (blocks s1) B \<Longrightarrow> reaches X B c c1"
    "c_mem c1 = c_mem c"
    by (simp_all add: lowers_def)
  have "reaches X B c c'" if B: "extends (nextBlock s') (blocks s') B" for B
  proof -
    from c'(2) B c'(3) have "extends (nextBlock s1) (blocks s1) B" by (rule extends_trans)
    then have "reaches X B c c1" by (rule l(4))
    moreover from B have "reaches X B c1 c'" by (rule c'(1))
    ultimately show ?thesis by (rule reaches_trans)
  qed
  moreover from l(1) c'(2) l(2) have "extends (nextBlock s) (blocks s) (blocks s')"
    by (rule extends_trans)
  ultimately show ?thesis
    unfolding guard_runs_def using c' l by (intro exI [of _ c']) simp
qed

lemma zero_check_guard_runs:
  assumes ae: "at_end s c" and b: "c_block c = b"
    and bl: "blocks s' = (blocks s)
         (e := [Call k ''printf'' [GlobalString msg], Br (Some m)],
          e' := cmp, m := [Phi p t [(dflt, Some e), (other, Some e')]],
          b := blocks s b @ [test, CondBr (Inst n I1) e e'])"
    and ids: "e = nextBlock s" "e' = nextBlock s + 1" "m = nextBlock s + 2" "nextBlock s' = nextBlock s + 3"
    and ib: "insertBlock s' = Some m" and nm: "blockName s' m = mergeName"
    and test: "exec X test c = set_reg n (VInt (- 1)) c"
    and dflt: "\<And>c'. eval_val c' dflt = dv"
  shows "guard_runs X s c s' (Inst p t) mergeName msg dv"
proof -
  from ae b have lt: "b < nextBlock s" and pc: "c_pc c = length (blocks s b)" and st: "c_status c = Running"
    by (auto simp: at_end_def)
  let ?cbr = "CondBr (Inst n I1) e e'"
  have b0: "blocks s' b = blocks s b @ test # [?cbr]"
    and b0': "blocks s' b = (blocks s b @ [test]) @ ?cbr # []"
    and be: "blocks s' e = [] @ Call k ''printf'' [GlobalString msg] # [Br (Some m)]"
    and be': "blocks s' e = [Call k ''printf'' [GlobalString msg]] @ Br (Some m) # []"
    and bm: "blocks s' m = [] @ Phi p t [(dflt, Some e), (other, Some e')] # []"
    using lt by (simp_all add: bl ids)
  have lts: "b < nextBlock s'" "e < nextBlock s'" "m < nextBlock s'"
    using lt by (simp_all add: ids)
  define c1 where "c1 = set_reg n (VInt (- 1)) c"
  define c2 where "c2 = goto e c1"
  define c3 where "c3 = set_reg k (call_result X ''printf'' [VPtr (PStr msg)])
      (c2\<lparr>c_trace := c_trace c2 @ [EvPrintf msg []]\<rparr>)"
  define c4 where "c4 = goto m c3"
  define c5 where "c5 = set_reg p dv c4"
  have run: "reaches X B c c5" if B: "extends (nextBlock s') (blocks s') B" for B
  proof -
    have s1: "step X B c = c1"
      using step_at [OF B _ _ pc st, of test "[?cbr]" X] b0 b lts test
      by (simp add: c1_def)
    have s2: "step X B c1 = c2"
      using step_at [OF B, of c1 "blocks s b @ [test]" ?cbr "[]" X] b0' b lts pc st
      by (simp add: c1_def c2_def)
    have s3: "step X B c2 = c3"
      using step_at [OF B, of c2 "[]" "Call k ''printf'' [GlobalString msg]" "[Br (Some m)]" X] be lts st
      by (simp add: c1_def c2_def c3_def printf_call)
    have s4: "step X B c3 = c4"
      using step_at [OF B, of c3 "[Call k ''printf'' [GlobalString msg]]" "Br (Some m)" "[]" X] be' lts st
      by (simp add: c1_def c2_def c3_def c4_def)
    have s5: "step X B c4 = c5"
      using step_at [OF B, of c4 "[]" _ "[]" X] bm lts st dflt
      by (simp add: c1_def c2_def c3_def c4_def c5_def)
    have "run X B 5 c = c5"
      by (simp add: eval_nat_numeral s1 s2 s3 s4 s5)
    then show ?thesis unfolding reaches_def by blast
  qed
  have ex: "extends (nextBlock s) (blocks s) (blocks s')"
    using lt by (auto simp: extends_def bl ids)
  have "at_end s' c5"
    using st lts by (simp add: at_end_def ib bm c1_def c2_def c3_def c4_def c5_def)
  moreover have "blockName s' (c_block c5) = mergeName" "eval_val c5 (Inst p t) = dv"
    "c_trace c5 = c_trace c @ [EvPrintf msg []]" "c_mem c5 = c_mem c"
    by (simp_all add: nm c1_def c2_def c3_def c4_def c5_def)
  ultimately show ?thesis
    unfolding guard_runs_def using run ex ids
    by (intro exI [of _ c5]) simp
qed

lemma division_int_run:
  assumes ae: "at_end s c" and z: "eval_val c right = VInt 0"
    and r: "createDivisionWithZeroCheck left right msg True s = (phi, s')"
  shows "guard_runs X s c s' phi ''div_merge'' msg (VInt 0)"
proof -
  from ae have ib: "insertBlock s = Some (c_block c)" "c_block c < nextBlock s"
    by (simp_all add: at_end_def)
  note sh = createDivisionWithZeroCheck_int_shape [OF ib r]
  show ?thesis
    unfolding sh(1)
    by (rule zero_check_guard_runs [OF ae refl sh(2) refl refl refl sh(4) sh(3) sh(6)])
       (simp_all add: z vbool_def)
qed

lemma is_fzero_not_nan: "is_fzero d \<Longrightarrow> \<not> is_nan d"
proof -
  assume "is_fzero d"
  then have z: "d AND 0x7FFFFFFFFFFFFFFF = 0" by (simp add: is_fzero_def)
  have "d AND 0x7FF0000000000000 = (d AND 0x7FFFFFFFFFFFFFFF) AND 0x7FF0000000000000"
    by (simp add: and.assoc)
  with z have "d AND 0x7FF0000000000000 = 0" by simp
  then show ?thesis by (simp add: is_nan_def)
qed

lemma fcmp_oeq_zero: "is_fzero d \<Longrightarrow> fcmp_oeq d 0"
  using is_fzero_not_nan [of d] by (simp add: fcmp_oeq_def is_nan_def is_fzero_def)

lemma division_float_run:
  assumes ae: "at_end s c" and z: "eval_val c right = VDouble d" "is_fzero d"
    and r: "createDivisionWithZeroCheck left right msg False s = (phi, s')"
  shows "guard_runs X s c s' phi ''div_merge'' msg (VDouble qNaN)"
proof -
  from ae have ib: "insertBlock s = Some (c_block c)" "c_block c < nextBlock s"
    by (simp_all add: at_end_def)
  note sh = createDivisionWithZeroCheck_float_shape [OF ib r]
  show ?thesis
    unfolding sh(1)
    by (rule zero_check_guard_runs [OF ae refl sh(2) refl refl refl sh(4) sh(3) sh(6)])
       (simp_all add: z vbool_def fcmp_oeq_zero)
qed

lemma rt_typed_not_double: "rt_typed c v \<Longrightarrow> getType_val v \<noteq> DoubleTy \<Longrightarrow> isIntegerTy (getType_val v)"
  by (auto simp: rt_typed_def split: rtval.splits)

lemma rt_zero_int: "rt_zero c v \<Longrightarrow> getType_val v \<noteq> DoubleTy \<Longrightarrow> eval_val c v = VInt 0"
  by (auto simp: rt_zero_def split: rtval.splits)

lemma rt_zero_double: "rt_zero c v \<Longrightarrow> getType_val v = DoubleTy \<Longrightarrow> \<exists>d. eval_val c v = VDouble d \<and> is_fzero d"
  by (auto simp: rt_zero_def split: rtval.splits)

lemma applyOperator_floordiv:
  assumes ae: "at_end s c" and op: "opnds s c l r" and X: "conv_zero X"
  shows "\<exists>phi s'. applyOperator ''//'' l r s = (Some phi, s') \<and>
           guard_runs X s c s' phi ''div_merge'' msgIntegerDivisionByZero (VInt 0)"
proof -
  obtain l1 s1 where e1: "castIf (getType_val l = DoubleTy) FPToSI I32 l s = (l1, s1)" by fastforce
  obtain r1 s2 where e2: "castIf (getType_val r = DoubleTy) FPToSI I32 r s1 = (r1, s2)" by fastforce
  obtain phi s' where d: "createDivisionWithZeroCheck l1 r1 msgIntegerDivisionByZero True s2 = (phi, s')"
    by fastforce
  have res: "applyOperator ''//'' l r s = (Some phi, s')"
    by (simp add: applyOperator_def e1 e2 d some_result_def)
  have ok: "\<And>v. getType_val v = DoubleTy \<Longrightarrow> cast_ok FPToSI (getType_val v) I32" by simp
  from castIf_left [OF ae op e1 ok X] obtain c1 where
    c1: "lowers X s c s1 c1" "opnds s1 c1 l1 r" by blast
  from castIf_right [OF lowers_at_end [OF c1(1)] c1(2) e2 ok X] obtain c2 where
    c2: "lowers X s1 c1 s2 c2" "opnds s2 c2 l1 r1"
      "getType_val r1 = (if getType_val r = DoubleTy then I32 else getType_val r)" by blast
  from c2(3) have "getType_val r1 \<noteq> DoubleTy" by (simp split: if_splits)
  with c2(2) have z: "eval_val c2 r1 = VInt 0" by (simp add: opnds_def rt_zero_int)
  have "guard_runs X s2 c2 s' phi ''div_merge'' msgIntegerDivisionByZero (VInt 0)"
    by (rule division_int_run [OF lowers_at_end [OF c2(1)] z d])
  with lowers_trans [OF c1(1) c2(1)]
  have "guard_runs X s c s' phi ''div_merge'' msgIntegerDivisionByZero (VInt 0)"
    by (rule guard_runs_after_lowers)
  with res show ?thesis by blast
qed

lemma applyOperator_div:
  assumes ae: "at_end s c" and op: "opnds s c l r" and X: "conv_zero X"
  shows "\<exists>phi s'. applyOperator ''/'' l r s = (Some phi, s') \<and>
           guard_runs X s c s' phi ''div_merge'' msgDivisionByZero (VDouble qNaN)"
proof -
  obtain l1 s1 where e1: "castIf (getType_val l \<noteq> DoubleTy) SIToFP DoubleTy l s = (l1, s1)" by fastforce
  obtain r1 s2 where e2: "castIf (getType_val r \<noteq> DoubleTy) SIToFP DoubleTy r s1 = (r1, s2)" by fastforce
  obtain phi s' where d: "createDivisionWithZeroCheck l1 r1 msgDivisionByZero False s2 = (phi, s')"
    by fastforce
  have res: "applyOperator ''/'' l r s = (Some phi, s')"
    by (simp add: applyOperator_def e1 e2 d some_result_def)
  from op have okl: "getType_val l \<noteq> DoubleTy \<Longrightarrow> cast_ok SIToFP (getType_val l) DoubleTy"
    by (auto simp: opnds_def dest: rt_typed_not_double)
  from castIf_left [OF ae op e1 okl X] obtain c1 where
    c1: "lowers X s c s1 c1" "opnds s1 c1 l1 r" by blast
  from op have okr: "getType_val r \<noteq> DoubleTy \<Longrightarrow> cast_ok SIToFP (getType_val r) DoubleTy"
    by (auto simp: opnds_def dest: rt_typed_not_double rt_zero_typed)
  from castIf_right [OF lowers_at_end [OF c1(1)] c1(2) e2 okr X] obtain c2 where
    c2: "lowers X s1 c1 s2 c2" "opnds s2 c2 l1 r1"
      "getType_val r1 = (if getType_val r \<noteq> DoubleTy then DoubleTy else getType_val r)" by blast
  from c2(3) have "getType_val r1 = DoubleTy" by (simp split: if_splits)
  with c2(2) obtain dz where z: "eval_val c2 r1 = VDouble dz" "is_fzero dz"
    using rt_zero_double by (auto simp: opnds_def)
  have "guard_runs X s2 c2 s' phi ''div_merge'' msgDivisionByZero (VDouble qNaN)"
    by (rule division_float_run [OF lowers_at_end [OF c2(1)] z d])
  with lowers_trans [OF c1(1) c2(1)]
  have "guard_runs X s c s' phi ''div_merge'' msgDivisionByZero (VDouble qNaN)"
    by (rule guard_runs_after_lowers)
  with res show ?thesis by blast
qed

lemma codegenBinaryOp_operands:
  assumes "op \<noteq> ''&&''" "op \<noteq> ''||''" "cgE l s = (Some lv, s1)" "cgE r s1 = (Some rv, s2)"
    "promoteOperands lv rv s2 = ((lv', rv'), s3)"
  shows "codegenBinaryOp cgE op l r s = applyOperator op lv' rv' s3"
  using assms by (simp add: codegenBinaryOp_def)

text \<open>
  C3. Let the operands of \<open>a // b\<close> or of \<open>a / b\<close> be lowered, and let the machine stand
  at the insertion point behind their code, with the left operand a number of its type
  and the right operand a zero (the integer 0, or a floating-point zero). Then the code
  lowered for the division runs without a fault to the insertion point behind it, in
  the merge block of the guard; it prints the diagnostic of the operator, once; and the
  value of the expression is the integer 0 for \<open>//\<close> and NaN for \<open>/\<close>.
\<close>

theorem division_by_zero_guard:
  assumes l: "cgE l s = (Some lv, s1)" and r: "cgE r s1 = (Some rv, s2)"
    and ae: "at_end s2 c"
    and dl: "defined_before s2 lv" and dr: "defined_before s2 rv"
    and tl: "rt_typed c lv" and zr: "rt_zero c rv"
    and X: "conv_zero X"
  shows "(\<exists>phi s'. codegenBinaryOp cgE ''//'' l r s = (Some phi, s') \<and>
            guard_runs X s2 c s' phi ''div_merge'' msgIntegerDivisionByZero (VInt 0)) \<and>
         (\<exists>phi s'. codegenBinaryOp cgE ''/'' l r s = (Some phi, s') \<and>
            guard_runs X s2 c s' phi ''div_merge'' msgDivisionByZero (VDouble qNaN)) \<and>
         is_nan qNaN"
proof -
  obtain lv' rv' s3 where p: "promoteOperands lv rv s2 = ((lv', rv'), s3)"
    by (metis prod.exhaust)
  from dl dr tl zr have "opnds s2 c lv rv" by (simp add: opnds_def)
  from promoteOperands_run [OF ae this X p] obtain c3 where
    c3: "lowers X s2 c s3 c3" "opnds s3 c3 lv' rv'" by blast
  from applyOperator_floordiv [OF lowers_at_end [OF c3(1)] c3(2) X] obtain phi1 t1 where
    a1: "applyOperator ''//'' lv' rv' s3 = (Some phi1, t1)"
      "guard_runs X s3 c3 t1 phi1 ''div_merge'' msgIntegerDivisionByZero (VInt 0)" by blast
  from applyOperator_div [OF lowers_at_end [OF c3(1)] c3(2) X] obtain phi2 t2 where
    a2: "applyOperator ''/'' lv' rv' s3 = (Some phi2, t2)"
      "guard_runs X s3 c3 t2 phi2 ''div_merge'' msgDivisionByZero (VDouble qNaN)" by blast
  have "codegenBinaryOp cgE ''//'' l r s = (Some phi1, t1)"
    using codegenBinaryOp_operands [OF _ _ l r p, of "''//''"] a1(1) by simp
  moreover have "guard_runs X s2 c t1 phi1 ''div_merge'' msgIntegerDivisionByZero (VInt 0)"
    by (rule guard_runs_after_lowers [OF c3(1) a1(2)])
  moreover have "codegenBinaryOp cgE ''/'' l r s = (Some phi2, t2)"
    using codegenBinaryOp_operands [OF _ _ l r p, of "''/''"] a2(1) by simp
  moreover have "guard_runs X s2 c t2 phi2 ''div_merge'' msgDivisionByZero (VDouble qNaN)"
    by (rule guard_runs_after_lowers [OF c3(1) a2(2)])
  moreover have "is_nan qNaN" by (simp add: is_nan_def qNaN_def)
  ultimately show ?thesis by blast
qed


subsection \<open>A concrete point of a lowering\<close>

text \<open>The state of the code generator on entry to the body of a function \<open>main\<close>, a
  machine at the start of that body, and an environment for the conversions.\<close>

definition function_entry :: cg where
  "function_entry =
     SetInsertPoint 0 (snd (BasicBlock_Create ''entry'' (Some ''main'')
       (CodeGenerator_new\<lparr>currentFunction := Some ''main''\<rparr>)))"

definition machine_start :: config where
  "machine_start =
     \<lparr>c_block = 0, c_pc = 0, c_prev = None, c_regs = (\<lambda>_. VPoison), c_args = (\<lambda>_. VPoison),
      c_mem = (\<lambda>_. None), c_heap = 0, c_freed = {}, c_trace = [], c_status = Running\<rparr>"

text \<open>A dispatcher for programs without interpolated strings, array literals, member
  access and built-in functions with arguments.\<close>

definition no_other :: expr_lowering where
  "no_other e s = (None, s)"

definition example_ext :: ext where
  "example_ext =
     \<lparr>fp_arith = (\<lambda>op a b. a), fp_less = (\<lambda>a b. False), sitofp = (\<lambda>n. 0), fptosi = (\<lambda>d. 0),
      strlen_of = (\<lambda>p. 0), call_result = (\<lambda>f args. VInt 0)\<rparr>"

lemma function_entry_sel [simp]:
  "insertBlock function_entry = Some 0" "nextBlock function_entry = 1"
  "nextInst function_entry = 0" "blocks function_entry 0 = []"
  by (simp_all add: function_entry_def CodeGenerator_new_def)

lemma at_end_function_entry: "at_end function_entry machine_start"
  by (simp add: at_end_def machine_start_def)

lemma conv_zero_example: "conv_zero example_ext"
  by (simp add: conv_zero_def example_ext_def is_fzero_def)

text \<open>The theorem of C3 at the point of entry of a function, for \<open>7 // 0\<close> and \<open>7 / 0\<close>.\<close>

theorem division_by_zero_guard_witness:
  "(\<exists>phi s' c'. codegenBinaryOp (codegenExpr no_other) ''//'' (IntLiteralNode 7) (IntLiteralNode 0) function_entry
        = (Some phi, s') \<and>
      reaches example_ext (blocks s') machine_start c' \<and> at_end s' c' \<and>
      eval_val c' phi = VInt 0 \<and> c_trace c' = [EvPrintf msgIntegerDivisionByZero []]) \<and>
   (\<exists>phi s' c'. codegenBinaryOp (codegenExpr no_other) ''/'' (IntLiteralNode 7) (IntLiteralNode 0) function_entry
        = (Some phi, s') \<and>
      reaches example_ext (blocks s') machine_start c' \<and> at_end s' c' \<and>
      eval_val c' phi = VDouble qNaN \<and> c_trace c' = [EvPrintf msgDivisionByZero []])"
proof -
  have l: "codegenExpr no_other (IntLiteralNode 7) function_entry = (Some (ConstInt I32 7), function_entry)"
    and r: "codegenExpr no_other (IntLiteralNode 0) function_entry = (Some (ConstInt I32 0), function_entry)"
    by (simp_all add: codegenIntLiteral_def)
  have d: "defined_before function_entry (ConstInt I32 7)" "defined_before function_entry (ConstInt I32 0)"
    by simp_all
  have t: "rt_typed machine_start (ConstInt I32 7)" by (simp add: rt_typed_def)
  have z: "rt_zero machine_start (ConstInt I32 0)" by (simp add: rt_zero_def)
  have tr: "c_trace machine_start = []" by (simp add: machine_start_def)
  from division_by_zero_guard [where cgE = "codegenExpr no_other" and l = "IntLiteralNode 7"
      and r = "IntLiteralNode 0", OF l r at_end_function_entry d t z conv_zero_example]
  show ?thesis
    unfolding guard_runs_def tr by (metis append_Nil extends_refl)
qed


section \<open>Break and continue: properties\<close>

text \<open>
  With a context on the stack and no temporaries outstanding, the statement appends
  to the insertion block one branch, to the break (continue) block of the top context,
  moves the insertion point to a fresh block, and leaves the error count as it is.
\<close>

lemma codegenBreakStmt_branch:
  assumes "loopContextStack s \<noteq> []" and "insertBlock s = Some b" and "b < nextBlock s"
    and "tempMemoryStack s = []"
  shows "blocks (codegenBreakStmt s) b = blocks s b @ [Br (breakBlock (last (loopContextStack s)))]"
    and "insertBlock (codegenBreakStmt s) = Some (nextBlock s)"
  using assms
  by (simp_all add: codegenBreakStmt_def clearTempMemory_def CreateBr_def Let_def split_beta)

lemma codegenContinueStmt_branch:
  assumes "loopContextStack s \<noteq> []" and "insertBlock s = Some b" and "b < nextBlock s"
    and "tempMemoryStack s = []"
  shows "blocks (codegenContinueStmt s) b = blocks s b @ [Br (continueBlock (last (loopContextStack s)))]"
    and "insertBlock (codegenContinueStmt s) = Some (nextBlock s)"
  using assms
  by (simp_all add: codegenContinueStmt_def clearTempMemory_def CreateBr_def Let_def split_beta)

lemma function_entry_tables [simp]:
  "loopContextStack function_entry = []" "errorCount function_entry = 0"
  "stderr function_entry = []" "tempMemoryStack function_entry = []"
  "g_errorCount function_entry = 0"
  by (simp_all add: function_entry_def CodeGenerator_new_def SetInsertPoint_def BasicBlock_Create_def)

text \<open>
  C7. A \<^verbatim>\<open>break\<close> or \<^verbatim>\<open>continue\<close> lowered in the body of a function, outside every loop
  and switch, writes its diagnostic to the error stream and emits nothing, but the
  error count stays zero: \<^verbatim>\<open>hasErrors\<close> does not hold afterwards, so the statement
  does not suppress code emission.
\<close>

theorem break_continue_outside_loop_not_counted:
  "loopContextStack function_entry = [] \<and>
   stderr (codegenBreakStmt function_entry) =
     [''Error: '' @ sq ''break'' @ '' statement not in loop or switch''] \<and>
   errorCount (codegenBreakStmt function_entry) = 0 \<and>
   \<not> hasErrors (codegenBreakStmt function_entry) \<and>
   blocks (codegenBreakStmt function_entry) = blocks function_entry \<and>
   stderr (codegenContinueStmt function_entry) =
     [''Error: '' @ sq ''continue'' @ '' statement not in loop''] \<and>
   errorCount (codegenContinueStmt function_entry) = 0 \<and>
   \<not> hasErrors (codegenContinueStmt function_entry) \<and>
   blocks (codegenContinueStmt function_entry) = blocks function_entry"
  by (simp add: codegenBreakStmt_def codegenContinueStmt_def hasErrors_def)


section \<open>Functions that fall off their end\<close>

lemma freeAll_frame [simp]:
  "stderr (freeAll ps s) = stderr s" "warningCount (freeAll ps s) = warningCount s"
  "errorCount (freeAll ps s) = errorCount s" "insertBlock (freeAll ps s) = insertBlock s"
  "nextBlock (freeAll ps s) = nextBlock s" "moduleFns (freeAll ps s) = moduleFns s"
  by (induction ps arbitrary: s) (simp_all add: CreateCall_def)

lemma clearTempMemory_insertBlock [simp]: "insertBlock (clearTempMemory s) = insertBlock s"
  by (simp add: clearTempMemory_def)

lemma clearTempMemory_quiet:
  "tempMemoryStack s = [] \<or> moduleFns s ''free'' \<noteq> None \<Longrightarrow>
   stderr (clearTempMemory s) = stderr s \<and> warningCount (clearTempMemory s) = warningCount s"
  by (auto simp: clearTempMemory_def)

text \<open>
  C4. When the lowering of the body leaves the insertion block without a terminator,
  \<^verbatim>\<open>codegenFunctionDecl\<close> ends the block with a return: of nothing for the return type
  void, of the null value of the return type otherwise. In neither case is anything
  written to the error stream or counted as a warning (provided the pending temporaries
  can be released): the non-void case returns the default silently.
\<close>

theorem fall_off_end_returns_without_warning:
  assumes "insertBlock s = Some b" and "getTerminator (blocks s b) = None"
    and "tempMemoryStack s = [] \<or> moduleFns s ''free'' \<noteq> None"
  shows "getTerminator (blocks (fallOffReturn t s) b) =
           Some (Ret (if t = VoidTy then None else Some (ConstNull t))) \<and>
         stderr (fallOffReturn t s) = stderr s \<and>
         warningCount (fallOffReturn t s) = warningCount s"
  using assms clearTempMemory_quiet [OF assms(3)]
  by (simp add: fallOffReturn_def blockTerminated_def CreateRet_def getTerminator_def Let_def)

theorem fall_off_end_returns_without_warning_witness:
  "insertBlock function_entry = Some 0 \<and> getTerminator (blocks function_entry 0) = None \<and>
   getTerminator (blocks (fallOffReturn I32 function_entry) 0) = Some (Ret (Some (ConstNull I32))) \<and>
   getTerminator (blocks (fallOffReturn VoidTy function_entry) 0) = Some (Ret None) \<and>
   stderr (fallOffReturn I32 function_entry) = [] \<and>
   warningCount (fallOffReturn I32 function_entry) = 0"
  using fall_off_end_returns_without_warning [of function_entry 0 I32]
    fall_off_end_returns_without_warning [of function_entry 0 VoidTy]
  by (simp add: getTerminator_def function_entry_def CodeGenerator_new_def)

text \<open>The declarations \<^verbatim>\<open>func f(): int { }\<close> and \<^verbatim>\<open>func g() { }\<close> in a fresh code
  generator.\<close>

definition intType :: TypeNode where
  "intType = \<lparr>typeName = ''int'', arrayDimensions = []\<rparr>"

lemma function_without_return_example:
  "blocks (codegenFunctionDecl cgS ''f'' [] (Some intType) (Some []) CodeGenerator_new) 0 =
     [Ret (Some (ConstNull I32))] \<and>
   stderr (codegenFunctionDecl cgS ''f'' [] (Some intType) (Some []) CodeGenerator_new) = [] \<and>
   warningCount (codegenFunctionDecl cgS ''f'' [] (Some intType) (Some []) CodeGenerator_new) = 0 \<and>
   blocks (codegenFunctionDecl cgS ''g'' [] None (Some []) CodeGenerator_new) 0 = [Ret None] \<and>
   stderr (codegenFunctionDecl cgS ''g'' [] None (Some []) CodeGenerator_new) = []"
  by (simp add: codegenFunctionDecl_def intType_def getType_def codegenBlock_def fallOffReturn_def
      blockTerminated_def CreateRet_def getTerminator_def clearTempMemory_def Let_def split_beta
      CodeGenerator_new_def builtinFunctions_def)

section \<open>The built-in print without arguments\<close>

text \<open>
  C10. A call \<^verbatim>\<open>print()\<close> is lowered to exactly one instruction, a call of \<^verbatim>\<open>printf\<close>
  with the constant string of one newline character and no further argument; no
  diagnostic is written. Executing it writes that newline and nothing else.
\<close>

theorem print_without_arguments:
  assumes ae: "at_end s c"
  shows "\<exists>v s' c'. codegenExpr other (FunctionCallNode ''print'' [] None) s = (Some v, s') \<and>
           blocks s' = (blocks s)(c_block c := blocks s (c_block c) @
                          [Call (nextInst s) ''printf'' [GlobalString [CHR 0x0A]]]) \<and>
           stderr s' = stderr s \<and> errorCount s' = errorCount s \<and>
           at_end s' c' \<and> (\<forall>B. extends (nextBlock s') (blocks s') B \<longrightarrow> step X B c = c') \<and>
           c_trace c' = c_trace c @ [EvPrintf [CHR 0x0A] []] \<and>
           written (EvPrintf [CHR 0x0A] []) = Some [CHR 0x0A]"
proof -
  let ?b = "c_block c" and ?n = "nextInst s"
  let ?i = "Call ?n ''printf'' [GlobalString [CHR 0x0A]]"
  let ?r = "CreateCall ''printf'' I32 [CreateGlobalString [CHR 0x0A]] s"
  from ae have ib: "insertBlock s = Some ?b" and pc: "c_pc c = length (blocks s ?b)"
    and st: "c_status c = Running" and lt: "?b < nextBlock s"
    by (simp_all add: at_end_def)
  have e: "codegenExpr other (FunctionCallNode ''print'' [] None) s = (Some (fst ?r), snd ?r)"
    by (simp add: codegenFunctionCall_def plainCall_def some_result_def)
  have bl: "blocks (snd ?r) = (blocks s)(?b := blocks s ?b @ [?i])"
    using ib by (simp add: CreateCall_def CreateGlobalString_def)
  define c' where "c' = exec X ?i c"
  have c': "c' = set_reg ?n (call_result X ''printf'' [VPtr (PStr [CHR 0x0A])])
                   (c\<lparr>c_trace := c_trace c @ [EvPrintf [CHR 0x0A] []]\<rparr>)"
    by (simp add: c'_def exec_call_def)
  have nb: "nextBlock (snd ?r) = nextBlock s" by (simp add: CreateCall_def)
  have step: "step X B c = c'" if "extends (nextBlock (snd ?r)) (blocks (snd ?r)) B" for B
    using step_at [OF that _ _ pc st, of ?i "[]" X] lt by (simp add: bl c'_def nb)
  have "at_end (snd ?r) c'"
    using ib lt pc st by (simp add: at_end_def c' bl CreateCall_def)
  moreover have "c_trace c' = c_trace c @ [EvPrintf [CHR 0x0A] []]" by (simp add: c')
  moreover have "stderr (snd ?r) = stderr s" "errorCount (snd ?r) = errorCount s"
    by (simp_all add: CreateCall_def)
  moreover have "written (EvPrintf [CHR 0x0A] []) = Some [CHR 0x0A]" by simp
  ultimately show ?thesis using e bl step by blast
qed

theorem print_without_arguments_witness:
  "\<exists>v s' c'. codegenExpr no_other (FunctionCallNode ''print'' [] None) function_entry = (Some v, s') \<and>
      blocks s' 0 = [Call 0 ''printf'' [GlobalString [CHR 0x0A]]] \<and>
      stderr s' = [] \<and> step example_ext (blocks s') machine_start = c' \<and>
      c_trace c' = [EvPrintf [CHR 0x0A] []]"
proof -
  from print_without_arguments [OF at_end_function_entry, of no_other example_ext]
  obtain v s' c' where
    h: "codegenExpr no_other (FunctionCallNode ''print'' [] None) function_entry = (Some v, s')"
      "blocks s' = (blocks function_entry)(c_block machine_start :=
          blocks function_entry (c_block machine_start) @
          [Call (nextInst function_entry) ''printf'' [GlobalString [CHR 0x0A]]])"
      "stderr s' = stderr function_entry"
      "\<forall>B. extends (nextBlock s') (blocks s') B \<longrightarrow> step example_ext B machine_start = c'"
      "c_trace c' = c_trace machine_start @ [EvPrintf [CHR 0x0A] []]"
    by blast
  have b0: "c_block machine_start = 0" "c_trace machine_start = []"
    by (simp_all add: machine_start_def)
  from h(4) have "step example_ext (blocks s') machine_start = c'" by simp
  with h(1,2,3,5) show ?thesis by (simp add: b0)
qed


section \<open>Loading a module: the tables\<close>

text \<open>The tables in which functions and globals are looked up.\<close>

definition tables ::
  "cg \<Rightarrow> (string \<rightharpoonup> funsig) \<times> (string \<rightharpoonup> (string \<rightharpoonup> string)) \<times>
        (string \<rightharpoonup> (string \<rightharpoonup> val option)) \<times> (string \<rightharpoonup> val option)" where
  "tables s = (moduleFns s, moduleFunctions s, moduleGlobals s, globalValues s)"

text \<open>A statement lowering keeps the tables when it declares no function and no global
  and imports no module.\<close>

definition keeps_tables :: "(cg \<Rightarrow> cg) \<Rightarrow> bool" where
  "keeps_tables f = (\<forall>t. tables (f t) = tables t \<and> currentFunction (f t) = currentFunction t)"

lemma tables_builder [simp]:
  "tables (emit i s) = tables s" "tables (snd (emitv mk t s)) = tables s"
  "tables (snd (BasicBlock_Create name parent s)) = tables s"
  "tables (SetInsertPoint b s) = tables s" "tables (Function_insert f b s) = tables s"
  "tables (cerr line s) = tables s"
  by (simp_all add: tables_def)

lemma tables_updates [simp]:
  "tables (s\<lparr>currentFunction := cf\<rparr>) = tables s"
  "tables (s\<lparr>namedValues := nv\<rparr>) = tables s"
  "tables (s\<lparr>variableTypes := vt\<rparr>) = tables s"
  "tables (s\<lparr>functions_tab := ft\<rparr>) = tables s"
  "tables (s\<lparr>tempMemoryStack := tm\<rparr>) = tables s"
  "tables (s\<lparr>loadedModules := lm\<rparr>) = tables s"
  "tables (s\<lparr>moduleAliases := ma\<rparr>) = tables s"
  "tables (s\<lparr>nextInst := n\<rparr>) = tables s"
  "tables (s\<lparr>blocks := bl\<rparr>) = tables s"
  "tables (s\<lparr>globalVars := gv\<rparr>) = tables s"
  "tables (s\<lparr>globalInitializers := gi\<rparr>) = tables s"
  by (simp_all add: tables_def)

lemma freeAll_tables [simp]:
  "tables (freeAll ps s) = tables s" "currentFunction (freeAll ps s) = currentFunction s"
  by (induction ps arbitrary: s) (simp_all add: CreateCall_def)

lemma clearTempMemory_tables [simp]:
  "tables (clearTempMemory s) = tables s"
  "currentFunction (clearTempMemory s) = currentFunction s"
  by (simp_all add: clearTempMemory_def)

lemma getType_tables [simp]:
  "tables (snd (getType n s)) = tables s" "currentFunction (snd (getType n s)) = currentFunction s"
  by (simp_all add: getType_def)

lemma getType_fst: "fst (getType n s) = fst (getType n t)"
  by (simp add: getType_def)

lemma parameterTypes_tables':
  "tables (snd (parameterTypes ps s)) = tables s \<and>
   currentFunction (snd (parameterTypes ps s)) = currentFunction s"
proof (induction ps arbitrary: s)
  case (Cons p ps)
  obtain n tn where p: "p = (n, tn)" by (cases p)
  show ?case using Cons.IH by (simp add: p split_beta Let_def)
qed simp

lemmas parameterTypes_tables [simp] =
  parameterTypes_tables' [THEN conjunct1] parameterTypes_tables' [THEN conjunct2]

lemma parameterTypes_fst: "fst (parameterTypes ps s) = fst (parameterTypes ps t)"
proof (induction ps arbitrary: s t)
  case (Cons p ps)
  obtain n tn where p: "p = (n, tn)" by (cases p)
  show ?case
    using Cons.IH [of "snd (getType (typeName tn) s)" "snd (getType (typeName tn) t)"]
      getType_fst [of "typeName tn" s t]
    by (simp add: p split_beta Let_def)
qed simp

lemma createEntryBlockAlloca_tables [simp]:
  "tables (snd (createEntryBlockAlloca f t s)) = tables s"
  "currentFunction (snd (createEntryBlockAlloca f t s)) = currentFunction s"
  by (simp_all add: createEntryBlockAlloca_def split: option.splits)

lemma storeArguments_tables':
  "tables (storeArguments f as s) = tables s \<and>
   currentFunction (storeArguments f as s) = currentFunction s"
proof (induction as arbitrary: s)
  case (Cons p ps)
  obtain n t where p: "p = (n, t)" by (cases p)
  show ?case using Cons.IH by (simp add: p split_beta Let_def CreateStore_def)
qed simp

lemmas storeArguments_tables [simp] =
  storeArguments_tables' [THEN conjunct1] storeArguments_tables' [THEN conjunct2]

lemma fallOffReturn_tables [simp]:
  "tables (fallOffReturn t s) = tables s" "currentFunction (fallOffReturn t s) = currentFunction s"
  by (simp_all add: fallOffReturn_def CreateRet_def Let_def)

lemma fold_keeps:
  assumes "\<forall>st. keeps_tables (cgS st)"
  shows "tables (fold cgS sts s) = tables s \<and> currentFunction (fold cgS sts s) = currentFunction s"
  using assms by (induction sts arbitrary: s) (simp_all add: keeps_tables_def)

lemma codegenBlock_keeps:
  assumes "\<forall>st. keeps_tables (cgS st)"
  shows "tables (codegenBlock cgS sts s) = tables s"
    "currentFunction (codegenBlock cgS sts s) = currentFunction s"
  using fold_keeps [OF assms] by (simp_all add: codegenBlock_def)

text \<open>The signature that a declaration gives its function.\<close>

definition declaredSignature :: "(string \<times> TypeNode) list \<Rightarrow> TypeNode option \<Rightarrow> funsig" where
  "declaredSignature ps rt =
     \<lparr>retTy = (case rt of Some tn \<Rightarrow> fst (getType (typeName tn) CodeGenerator_new) | None \<Rightarrow> VoidTy),
      paramTys = fst (parameterTypes ps CodeGenerator_new), isVarArg = False\<rparr>"

lemma codegenFunctionDecl_tables:
  assumes k: "\<forall>st. keeps_tables (cgS st)"
  shows "tables (codegenFunctionDecl cgS f ps rt body s) =
           (if moduleFns s f \<noteq> None then tables s
            else ((moduleFns s)(f \<mapsto> declaredSignature ps rt), moduleFunctions s,
                  moduleGlobals s, globalValues s))"
    and "currentFunction (codegenFunctionDecl cgS f ps rt body s) = currentFunction s"
proof -
  have rt: "fst (case rt of Some tn \<Rightarrow> getType (typeName tn) s | None \<Rightarrow> (VoidTy, s)) =
            retTy (declaredSignature ps rt)"
    using getType_fst by (auto simp: declaredSignature_def split: option.splits)
  have pt: "fst (parameterTypes ps t) = paramTys (declaredSignature ps rt)" for t
    using parameterTypes_fst [of ps t CodeGenerator_new] by (simp add: declaredSignature_def)
  have st: "tables (snd (case rt of Some tn \<Rightarrow> getType (typeName tn) s | None \<Rightarrow> (VoidTy, s))) = tables s"
    by (simp split: option.splits)
  have b: "tables (case body of Some sts \<Rightarrow> codegenBlock cgS sts t | None \<Rightarrow> t) = tables t" for t
    using codegenBlock_keeps [OF k] by (simp split: option.splits)
  define s1 where "s1 = snd (case rt of Some tn \<Rightarrow> getType (typeName tn) s | None \<Rightarrow> (VoidTy, s))"
  define s2 where "s2 = snd (parameterTypes ps s1)"
  have t2: "tables s2 = tables s" by (simp add: s2_def s1_def st)
  have u: "tables (t\<lparr>moduleFns := x\<rparr>) = (x, moduleFunctions t, moduleGlobals t, globalValues t)" for t x
    by (simp add: tables_def)
  have "tables (codegenFunctionDecl cgS f ps rt body s) =
          (if moduleFns s f \<noteq> None then tables s
           else ((moduleFns s2)(f \<mapsto> declaredSignature ps rt), moduleFunctions s2,
                 moduleGlobals s2, globalValues s2))"
    by (simp add: codegenFunctionDecl_def Let_def split_beta b rt pt u s2_def s1_def)
       (simp add: declaredSignature_def)
  with t2 show "tables (codegenFunctionDecl cgS f ps rt body s) =
           (if moduleFns s f \<noteq> None then tables s
            else ((moduleFns s)(f \<mapsto> declaredSignature ps rt), moduleFunctions s,
                  moduleGlobals s, globalValues s))"
    by (simp add: tables_def)
  show "currentFunction (codegenFunctionDecl cgS f ps rt body s) = currentFunction s"
    by (simp add: codegenFunctionDecl_def Let_def split_beta split: option.splits)
qed

definition declaredGlobalType :: "TypeNode \<Rightarrow> ty" where
  "declaredGlobalType tn = fst (declaredType tn CodeGenerator_new)"

lemma declaredType_tables [simp]:
  "tables (snd (declaredType tn s)) = tables s"
  "currentFunction (snd (declaredType tn s)) = currentFunction s"
  "fst (declaredType tn s) = declaredGlobalType tn"
  using getType_fst [of "typeName tn" s CodeGenerator_new]
  by (simp_all add: declaredType_def declaredGlobalType_def split_beta)

lemma globalInitializer_tables [simp]:
  "tables (snd (globalInitializer fp n ty e s)) = tables s"
  "currentFunction (snd (globalInitializer fp n ty e s)) = currentFunction s"
  by (simp_all add: globalInitializer_def split: expr.splits option.splits prod.splits)

lemma codegenVarDecl_top:
  assumes "currentFunction s = None"
  shows "tables (codegenVarDecl fp cgE c x tn init s) =
           (moduleFns s, moduleFunctions s, moduleGlobals s,
            if globalValues s x \<noteq> None then globalValues s
            else (globalValues s)(x \<mapsto> Some (GlobalVar x (declaredGlobalType tn))))"
    and "currentFunction (codegenVarDecl fp cgE c x tn init s) = None"
proof -
  define s1 where "s1 = snd (declaredType tn s)"
  have t1: "tables s1 = tables s" "currentFunction s1 = None"
    using assms by (simp_all add: s1_def)
  have g: "tables (snd (globalInitializer fp n ty e s1)) = tables s" for n ty e
    using t1 by simp
  have u: "tables (createGlobal n ty k v t) =
      (moduleFns t, moduleFunctions t, moduleGlobals t, (globalValues t)(n \<mapsto> Some (GlobalVar n ty)))"
    "currentFunction (createGlobal n ty k v t) = currentFunction t" for n ty k v t
    by (simp_all add: createGlobal_def tables_def)
  have e: "codegenVarDecl fp cgE c x tn init s =
             codegenGlobalVarDecl fp c x (declaredGlobalType tn) init s1"
    using t1 by (simp add: codegenVarDecl_def split_beta s1_def)
  have gv: "globalValues s1 = globalValues s" "moduleFns s1 = moduleFns s"
    "moduleFunctions s1 = moduleFunctions s" "moduleGlobals s1 = moduleGlobals s"
    using t1(1) by (simp_all add: tables_def)
  have gi: "moduleFns (snd (globalInitializer fp n ty e s1)) = moduleFns s"
    "moduleFunctions (snd (globalInitializer fp n ty e s1)) = moduleFunctions s"
    "moduleGlobals (snd (globalInitializer fp n ty e s1)) = moduleGlobals s"
    "globalValues (snd (globalInitializer fp n ty e s1)) = globalValues s"
    "currentFunction (snd (globalInitializer fp n ty e s1)) = None" for n ty e
    using g [of n ty e] t1(2) by (simp_all add: tables_def)
  have ts: "tables s = (moduleFns s, moduleFunctions s, moduleGlobals s, globalValues s)"
    by (simp add: tables_def)
  show "tables (codegenVarDecl fp cgE c x tn init s) =
           (moduleFns s, moduleFunctions s, moduleGlobals s,
            if globalValues s x \<noteq> None then globalValues s
            else (globalValues s)(x \<mapsto> Some (GlobalVar x (declaredGlobalType tn))))"
    unfolding e
    by (simp add: codegenGlobalVarDecl_def u gv gi t1 ts Let_def case_prod_beta split: option.splits)
  show "currentFunction (codegenVarDecl fp cgE c x tn init s) = None"
    unfolding e
    by (simp add: codegenGlobalVarDecl_def u gi t1 Let_def case_prod_beta split: option.splits)
qed

fun declaresFunction :: "string \<Rightarrow> stmt \<Rightarrow> bool" where
  "declaresFunction f (FunctionDeclNode g ps rt body) = (g = f)"
| "declaresFunction f st = False"

fun declaresVariable :: "string \<Rightarrow> stmt \<Rightarrow> bool" where
  "declaresVariable x (VarDeclNode c y tn init) = (y = x)"
| "declaresVariable x st = False"

text \<open>One step of the loop of \<^verbatim>\<open>loadModule\<close>, at the top level.\<close>

lemma registerDeclaration_tables:
  assumes k: "\<forall>st. keeps_tables (cgS st)" and top: "currentFunction s = None"
  shows "tables (registerDeclaration fp cgE cgS m st s) =
     (case st of
        FunctionDeclNode g ps rt body \<Rightarrow>
          ((if moduleFns s g \<noteq> None then moduleFns s
            else (moduleFns s)(g \<mapsto> declaredSignature ps rt)),
           (moduleFunctions s)
             (m \<mapsto> (case moduleFunctions s m of None \<Rightarrow> Map.empty | Some fs \<Rightarrow> fs)(g \<mapsto> g)),
           moduleGlobals s, globalValues s)
      | VarDeclNode c x tn init \<Rightarrow>
          (moduleFns s, moduleFunctions s,
           (moduleGlobals s)
             (m \<mapsto> (case moduleGlobals s m of None \<Rightarrow> Map.empty | Some gs \<Rightarrow> gs)
                      (x \<mapsto> (case globalValues s x of
                                 None \<Rightarrow> Some (GlobalVar x (declaredGlobalType tn))
                               | Some g \<Rightarrow> g))),
           (if globalValues s x \<noteq> None then globalValues s
            else (globalValues s)(x \<mapsto> Some (GlobalVar x (declaredGlobalType tn)))))
      | _ \<Rightarrow> tables s)"
    and "currentFunction (registerDeclaration fp cgE cgS m st s) = None"
proof -
  have f: "moduleFns (codegenFunctionDecl cgS g ps rt body s) =
             (if moduleFns s g \<noteq> None then moduleFns s
              else (moduleFns s)(g \<mapsto> declaredSignature ps rt))"
    "moduleFunctions (codegenFunctionDecl cgS g ps rt body s) = moduleFunctions s"
    "moduleGlobals (codegenFunctionDecl cgS g ps rt body s) = moduleGlobals s"
    "globalValues (codegenFunctionDecl cgS g ps rt body s) = globalValues s"
    "currentFunction (codegenFunctionDecl cgS g ps rt body s) = None" for g ps rt body
    using codegenFunctionDecl_tables [OF k, of g ps rt body s] top
    by (simp_all add: tables_def split: if_splits)
  have v: "moduleFns (codegenVarDecl fp cgE c x tn init s) = moduleFns s"
    "moduleFunctions (codegenVarDecl fp cgE c x tn init s) = moduleFunctions s"
    "moduleGlobals (codegenVarDecl fp cgE c x tn init s) = moduleGlobals s"
    "globalValues (codegenVarDecl fp cgE c x tn init s) =
       (if globalValues s x \<noteq> None then globalValues s
        else (globalValues s)(x \<mapsto> Some (GlobalVar x (declaredGlobalType tn))))"
    "currentFunction (codegenVarDecl fp cgE c x tn init s) = None" for c x tn init
    using codegenVarDecl_top [OF top, of fp cgE c x tn init]
    by (simp_all add: tables_def)
  show "tables (registerDeclaration fp cgE cgS m st s) =
     (case st of
        FunctionDeclNode g ps rt body \<Rightarrow>
          ((if moduleFns s g \<noteq> None then moduleFns s
            else (moduleFns s)(g \<mapsto> declaredSignature ps rt)),
           (moduleFunctions s)
             (m \<mapsto> (case moduleFunctions s m of None \<Rightarrow> Map.empty | Some fs \<Rightarrow> fs)(g \<mapsto> g)),
           moduleGlobals s, globalValues s)
      | VarDeclNode c x tn init \<Rightarrow>
          (moduleFns s, moduleFunctions s,
           (moduleGlobals s)
             (m \<mapsto> (case moduleGlobals s m of None \<Rightarrow> Map.empty | Some gs \<Rightarrow> gs)
                      (x \<mapsto> (case globalValues s x of
                                 None \<Rightarrow> Some (GlobalVar x (declaredGlobalType tn))
                               | Some g \<Rightarrow> g))),
           (if globalValues s x \<noteq> None then globalValues s
            else (globalValues s)(x \<mapsto> Some (GlobalVar x (declaredGlobalType tn)))))
      | _ \<Rightarrow> tables s)"
    by (cases st) (auto simp: registerDeclaration_def Let_def tables_def f v)
  show "currentFunction (registerDeclaration fp cgE cgS m st s) = None"
    using top by (cases st) (auto simp: registerDeclaration_def Let_def f v split: option.splits)
qed

text \<open>The loop keeps what an earlier step entered, and enters nothing under a name
  that no statement declares.\<close>

definition function_entered :: "string \<Rightarrow> string \<Rightarrow> funsig \<Rightarrow> cg \<Rightarrow> bool" where
  "function_entered m f sig s =
     (currentFunction s = None \<and> moduleFns s f = Some sig \<and> findModuleFunction m f s = Some f)"

definition global_entered :: "string \<Rightarrow> string \<Rightarrow> val \<Rightarrow> cg \<Rightarrow> bool" where
  "global_entered m x g s =
     (currentFunction s = None \<and> globalValues s x = Some (Some g) \<and>
      (\<exists>gs. moduleGlobals s m = Some gs \<and> gs x = Some (Some g)))"

lemma step_top:
  assumes "\<forall>st. keeps_tables (cgS st)" "currentFunction s = None"
  shows "currentFunction (fold (registerDeclaration fp cgE cgS m) sts s) = None"
  using assms(2)
  by (induction sts arbitrary: s) (simp_all add: registerDeclaration_tables(2) [OF assms(1)])

lemma function_kept:
  assumes k: "\<forall>st. keeps_tables (cgS st)" and e: "function_entered m f sig s"
  shows "function_entered m f sig (fold (registerDeclaration fp cgE cgS m) sts s)"
  using e
proof (induction sts arbitrary: s)
  case (Cons st sts)
  from Cons.prems have top: "currentFunction s = None" by (simp add: function_entered_def)
  have "function_entered m f sig (registerDeclaration fp cgE cgS m st s)"
    using registerDeclaration_tables [OF k top, of fp cgE m st] Cons.prems
    by (cases st) (auto simp: function_entered_def tables_def findModuleFunction_def split: option.splits)
  then show ?case using Cons.IH by simp
qed simp

lemma function_not_entered:
  assumes k: "\<forall>st. keeps_tables (cgS st)" and top: "currentFunction s = None"
    and n: "moduleFns s f = None" and d: "\<forall>st\<in>set sts. \<not> declaresFunction f st"
  shows "moduleFns (fold (registerDeclaration fp cgE cgS m) sts s) f = None \<and>
         currentFunction (fold (registerDeclaration fp cgE cgS m) sts s) = None"
  using top n d
proof (induction sts arbitrary: s)
  case (Cons st sts)
  have "moduleFns (registerDeclaration fp cgE cgS m st s) f = None"
    using registerDeclaration_tables(1) [OF k Cons.prems(1), of fp cgE m st] Cons.prems(2,3)
    by (cases st) (auto simp: tables_def)
  moreover have "currentFunction (registerDeclaration fp cgE cgS m st s) = None"
    by (rule registerDeclaration_tables(2) [OF k Cons.prems(1)])
  ultimately show ?case using Cons.IH Cons.prems(3) by simp
qed simp

lemma function_declared:
  assumes k: "\<forall>st. keeps_tables (cgS st)" and top: "currentFunction s = None"
    and n: "moduleFns s f = None"
  shows "function_entered m f (declaredSignature ps rt)
           (registerDeclaration fp cgE cgS m (FunctionDeclNode f ps rt body) s)"
  using registerDeclaration_tables [OF k top, of fp cgE m "FunctionDeclNode f ps rt body"] n
  by (auto simp: function_entered_def tables_def findModuleFunction_def)

lemma global_kept:
  assumes k: "\<forall>st. keeps_tables (cgS st)" and e: "global_entered m x g s"
  shows "global_entered m x g (fold (registerDeclaration fp cgE cgS m) sts s)"
  using e
proof (induction sts arbitrary: s)
  case (Cons st sts)
  from Cons.prems have top: "currentFunction s = None" by (simp add: global_entered_def)
  have "global_entered m x g (registerDeclaration fp cgE cgS m st s)"
    using registerDeclaration_tables [OF k top, of fp cgE m st] Cons.prems
    by (cases st) (auto simp: global_entered_def tables_def split: option.splits)
  then show ?case using Cons.IH by simp
qed simp

lemma global_not_entered:
  assumes k: "\<forall>st. keeps_tables (cgS st)" and top: "currentFunction s = None"
    and n: "globalValues s x = None" and d: "\<forall>st\<in>set sts. \<not> declaresVariable x st"
  shows "globalValues (fold (registerDeclaration fp cgE cgS m) sts s) x = None \<and>
         currentFunction (fold (registerDeclaration fp cgE cgS m) sts s) = None"
  using top n d
proof (induction sts arbitrary: s)
  case (Cons st sts)
  have "globalValues (registerDeclaration fp cgE cgS m st s) x = None"
    using registerDeclaration_tables(1) [OF k Cons.prems(1), of fp cgE m st] Cons.prems(2,3)
    by (cases st) (auto simp: tables_def)
  moreover have "currentFunction (registerDeclaration fp cgE cgS m st s) = None"
    by (rule registerDeclaration_tables(2) [OF k Cons.prems(1)])
  ultimately show ?case using Cons.IH Cons.prems(3) by simp
qed simp

lemma global_declared:
  assumes k: "\<forall>st. keeps_tables (cgS st)" and top: "currentFunction s = None"
    and n: "globalValues s x = None"
  shows "global_entered m x (GlobalVar x (declaredGlobalType tn))
           (registerDeclaration fp cgE cgS m (VarDeclNode c x tn init) s)"
  using registerDeclaration_tables [OF k top, of fp cgE m "VarDeclNode c x tn init"] n
  by (auto simp: global_entered_def tables_def)

lemma loadModule_parsed:
  assumes "m \<notin> loadedModules s" "findModuleFile F m \<noteq> []"
    "parse_file F (findModuleFile F m) = Parsed statements"
  shows "loadModule F fp cgE cgS m s =
     (let s1 = (if moduleFunctions s m = None then
                  s\<lparr>moduleFunctions := (moduleFunctions s)(m \<mapsto> Map.empty),
                    moduleGlobals := (moduleGlobals s)(m \<mapsto> Map.empty)\<rparr>
                else s);
          s2 = fold (registerDeclaration fp cgE cgS m) statements s1
      in (True, s2\<lparr>loadedModules := insert m (loadedModules s2)\<rparr>))"
  using assms by (simp add: loadModule_def Let_def)

lemma loadModule_success:
  assumes "loadModule F fp cgE cgS m s = (True, s1)" "m \<notin> loadedModules s"
  shows "findModuleFile F m \<noteq> []"
  using assms by (auto simp: loadModule_def Let_def split: if_splits)

lemma entered_loaded [simp]:
  "function_entered m f sig (s\<lparr>loadedModules := l\<rparr>) = function_entered m f sig s"
  "global_entered m x g (s\<lparr>loadedModules := l\<rparr>) = global_entered m x g s"
  by (simp_all add: function_entered_def global_entered_def findModuleFunction_def)

text \<open>The first load of a module enters a function that the module declares, and that
  was not defined before, in the target module and in the table of the module.\<close>

lemma load_function:
  assumes nl: "m \<notin> loadedModules s" and fl: "findModuleFile F m \<noteq> []"
    and parse: "parse_file F (findModuleFile F m) = Parsed sts"
    and top: "currentFunction s = None" and k: "\<forall>st. keeps_tables (cgS st)"
    and sts: "sts = pre @ FunctionDeclNode f ps rt body # post"
    and first: "\<forall>st\<in>set pre. \<not> declaresFunction f st" and fresh: "moduleFns s f = None"
  shows "function_entered m f (declaredSignature ps rt) (snd (loadModule F fp cgE cgS m s))"
proof -
  define s0 where "s0 = (if moduleFunctions s m = None then
                  s\<lparr>moduleFunctions := (moduleFunctions s)(m \<mapsto> Map.empty),
                    moduleGlobals := (moduleGlobals s)(m \<mapsto> Map.empty)\<rparr>
                else s)"
  let ?reg = "registerDeclaration fp cgE cgS m"
  have t0: "currentFunction s0 = None" "moduleFns s0 f = None"
    using top fresh by (simp_all add: s0_def)
  from function_not_entered [OF k t0 first, of fp cgE m]
  have p: "moduleFns (fold ?reg pre s0) f = None" "currentFunction (fold ?reg pre s0) = None"
    by simp_all
  from function_declared [OF k p(2) p(1), of m ps rt fp cgE body]
  have "function_entered m f (declaredSignature ps rt)
          (?reg (FunctionDeclNode f ps rt body) (fold ?reg pre s0))" .
  from function_kept [OF k this, of fp cgE post]
  have "function_entered m f (declaredSignature ps rt) (fold ?reg sts s0)"
    by (simp add: sts)
  then show ?thesis
    unfolding loadModule_parsed [OF nl fl parse] by (simp add: Let_def s0_def)
qed

lemma load_global:
  assumes nl: "m \<notin> loadedModules s" and fl: "findModuleFile F m \<noteq> []"
    and parse: "parse_file F (findModuleFile F m) = Parsed sts"
    and top: "currentFunction s = None" and k: "\<forall>st. keeps_tables (cgS st)"
    and sts: "sts = pre @ VarDeclNode c x tn init # post"
    and first: "\<forall>st\<in>set pre. \<not> declaresVariable x st" and fresh: "globalValues s x = None"
  shows "global_entered m x (GlobalVar x (declaredGlobalType tn))
           (snd (loadModule F fp cgE cgS m s))"
proof -
  define s0 where "s0 = (if moduleFunctions s m = None then
                  s\<lparr>moduleFunctions := (moduleFunctions s)(m \<mapsto> Map.empty),
                    moduleGlobals := (moduleGlobals s)(m \<mapsto> Map.empty)\<rparr>
                else s)"
  let ?reg = "registerDeclaration fp cgE cgS m"
  have t0: "currentFunction s0 = None" "globalValues s0 x = None"
    using top fresh by (simp_all add: s0_def)
  from global_not_entered [OF k t0 first, of fp cgE m]
  have p: "globalValues (fold ?reg pre s0) x = None" "currentFunction (fold ?reg pre s0) = None"
    by simp_all
  from global_declared [OF k p(2) p(1), of m tn fp cgE c init]
  have "global_entered m x (GlobalVar x (declaredGlobalType tn))
          (?reg (VarDeclNode c x tn init) (fold ?reg pre s0))" .
  from global_kept [OF k this, of fp cgE post]
  have "global_entered m x (GlobalVar x (declaredGlobalType tn)) (fold ?reg sts s0)"
    by (simp add: sts)
  then show ?thesis
    unfolding loadModule_parsed [OF nl fl parse] by (simp add: Let_def s0_def)
qed

lemma parameterTypes_length: "length (fst (parameterTypes ps s)) = length ps"
proof (induction ps arbitrary: s)
  case (Cons p ps)
  obtain n tn where p: "p = (n, tn)" by (cases p)
  show ?case using Cons.IH by (simp add: p split_beta Let_def)
qed simp

text \<open>What a function of the target module means for calls and declarations.\<close>

lemma unqualified_call:
  assumes "moduleFns s f = Some sig" "\<not> isVarArg sig" "length args = length (paramTys sig)"
    "f \<noteq> ''print''" "f \<notin> set builtinNames"
  shows "codegenFunctionCall cgE bi f args None s =
           (case callArgs cgE f (paramTys sig) 0 args s of
              (None, t) \<Rightarrow> (None, t)
            | (Some vs, t) \<Rightarrow> some_result (CreateCall f (retTy sig) vs t))"
  using assms by (simp add: codegenFunctionCall_def plainCall_def userCall_def)

lemma qualified_call:
  assumes "moduleAliases s a = Some m" "findModuleFunction m f s = Some f" "moduleFns s f = Some sig"
  shows "codegenFunctionCall cgE bi f args (Some (IdentifierNode a)) s =
           (case moduleCallArgs cgE (paramTys sig) args s of
              (None, t) \<Rightarrow> (None, t)
            | (Some vs, t) \<Rightarrow> some_result (CreateCall f (retTy sig) vs t))"
  using assms by (simp add: codegenFunctionCall_def moduleCall_def)

lemma redeclaration_refused:
  assumes "moduleFns s f = Some sig"
  shows "codegenFunctionDecl cgS f ps rt body s =
           cerr (''Error: Function '' @ sq f @ '' is already defined'') s"
  using assms by (simp add: codegenFunctionDecl_def)

lemma global_redeclaration_refused:
  assumes "currentFunction s = None" "globalValues s x = Some g"
  shows "codegenVarDecl fp cgE c x tn init s =
           cerr (''Error: Global variable '' @ sq x @ '' is already defined'')
             (snd (declaredType tn s))"
proof -
  have "globalValues (snd (declaredType tn s)) x = Some g"
    using declaredType_tables(1) [of tn s] assms(2) by (simp add: tables_def)
  then show ?thesis
    using assms(1) by (simp add: codegenVarDecl_def split_beta codegenGlobalVarDecl_def)
qed

lemma global_identifier:
  assumes "namedValues s x = None" "globalValues s x = Some (Some g)"
  shows "codegenIdentifier x s =
           some_result (CreateLoad (getAllocatedType g) g (s\<lparr>namedValues := (namedValues s)(x \<mapsto> None)\<rparr>))"
  using assms by (simp add: codegenIdentifier_def map_index_def)

section \<open>Loading a module once\<close>


text \<open>A module file \<^verbatim>\<open>m.ppx\<close> with the declarations \<^verbatim>\<open>func one(): int { }\<close> and
  \<^verbatim>\<open>let x: int = 1\<close>, and a dispatcher for bodies without statements.\<close>

definition example_module :: "stmt list" where
  "example_module =
     [FunctionDeclNode ''one'' [] (Some intType) (Some []),
      VarDeclNode False ''x'' intType (Some (IntLiteralNode 1))]"

definition example_files :: files where
  "example_files =
     \<lparr>file_exists = (\<lambda>p. p = ''m.ppx''),
      parse_file = (\<lambda>p. if p = ''m.ppx'' then Parsed example_module else CannotOpen),
      sourceDirectory = [], currentDirectory = ''.''\<rparr>"

definition no_stmt :: stmt_lowering where
  "no_stmt st s = s"

definition after_import :: cg where
  "after_import =
     codegenImport example_files (fp_arith example_ext) (codegenExpr no_other) no_stmt ''m'' []
       CodeGenerator_new"

lemma findModuleFile_example: "findModuleFile example_files ''m'' = ''m.ppx''"
  by (simp add: findModuleFile_def example_files_def)

lemma parse_example: "parse_file example_files ''m.ppx'' = Parsed example_module"
  by (simp add: example_files_def)

lemma keeps_no_stmt: "\<forall>st. keeps_tables (no_stmt st)"
  by (simp add: keeps_tables_def no_stmt_def)

lemma fresh_tables [simp]:
  "moduleFns CodeGenerator_new ''one'' = None" "moduleFunctions CodeGenerator_new ''m'' = None"
  "loadedModules CodeGenerator_new = {}" "tempMemoryStack CodeGenerator_new = []"
  "stderr CodeGenerator_new = []" "insertBlock CodeGenerator_new = None"
  "nextBlock CodeGenerator_new = 0" "nextInst CodeGenerator_new = 0"
  "currentFunction CodeGenerator_new = None" "globalValues CodeGenerator_new = Map.empty"
  by (simp_all add: CodeGenerator_new_def builtinFunctions_def)

lemma load_example:
  "\<exists>s1. loadModule example_files (fp_arith example_ext) (codegenExpr no_other) no_stmt ''m''
           CodeGenerator_new = (True, s1)"
  using loadModule_parsed [of "''m''" CodeGenerator_new example_files example_module]
  by (simp add: findModuleFile_example parse_example Let_def)

lemma signature_one: "declaredSignature [] (Some intType) = \<lparr>retTy = I32, paramTys = [], isVarArg = False\<rparr>"
  by (simp add: declaredSignature_def intType_def getType_def)


section \<open>Module declarations and the tables of the importing file\<close>


lemma global_type_int: "declaredGlobalType intType = I32"
  by (simp add: declaredGlobalType_def declaredType_def intType_def getType_def)

lemma ex_result: "\<exists>s'. r = (True, s') \<and> Q s' \<Longrightarrow> r = (True, snd r) \<and> Q (snd r)"
  by auto


lemma empty_function_sel:
  assumes "moduleFns s f = None" "tempMemoryStack s = []"
  shows "stderr (registerDeclaration fp cgE cgS m (FunctionDeclNode f [] (Some intType) (Some [])) s) = stderr s"
    and "nextInst (registerDeclaration fp cgE cgS m (FunctionDeclNode f [] (Some intType) (Some [])) s) = nextInst s"
    and "functions_tab (registerDeclaration fp cgE cgS m (FunctionDeclNode f [] (Some intType) (Some [])) s) f = Some f"
  using assms
  by (simp_all add: registerDeclaration_def codegenFunctionDecl_def intType_def getType_def
      codegenBlock_def fallOffReturn_def blockTerminated_def CreateRet_def clearTempMemory_def
      getTerminator_def Let_def split_beta)

lemma int_global_sel:
  assumes "currentFunction s = None" "globalValues s x = None"
  shows "stderr (registerDeclaration fp cgE cgS m (VarDeclNode c x intType (Some (IntLiteralNode v))) s) = stderr s"
    and "nextInst (registerDeclaration fp cgE cgS m (VarDeclNode c x intType (Some (IntLiteralNode v))) s) = nextInst s"
    and "functions_tab (registerDeclaration fp cgE cgS m (VarDeclNode c x intType (Some (IntLiteralNode v))) s) = functions_tab s"
  using assms
  by (simp_all add: registerDeclaration_def codegenVarDecl_def declaredType_def intType_def
      getType_def codegenGlobalVarDecl_def globalInitializer_def createGlobal_def Let_def split_beta)

lemma after_import_tables:
  "moduleFns after_import ''one'' = Some \<lparr>retTy = I32, paramTys = [], isVarArg = False\<rparr>"
  "functions_tab after_import ''one'' = Some ''one''"
  "findModuleFunction ''m'' ''one'' after_import = Some ''one''"
  "stderr after_import = []"
  "nextInst after_import = 0"
proof -
  let ?fp = "fp_arith example_ext" and ?cgE = "codegenExpr no_other"
  let ?d1 = "FunctionDeclNode ''one'' [] (Some intType) (Some [])"
  let ?d2 = "VarDeclNode False ''x'' intType (Some (IntLiteralNode 1))"
  define s0 where "s0 = CodeGenerator_new\<lparr>moduleFunctions := (moduleFunctions CodeGenerator_new)(''m'' \<mapsto> Map.empty),
                    moduleGlobals := (moduleGlobals CodeGenerator_new)(''m'' \<mapsto> Map.empty)\<rparr>"
  define sA where "sA = registerDeclaration ?fp ?cgE no_stmt ''m'' ?d1 s0"
  define sB where "sB = registerDeclaration ?fp ?cgE no_stmt ''m'' ?d2 sA"
  have a: "after_import = sB\<lparr>loadedModules := insert ''m'' (loadedModules sB)\<rparr>
                            \<lparr>moduleAliases := (moduleAliases sB)(''m'' \<mapsto> ''m'')\<rparr>"
    using loadModule_parsed [of "''m''" CodeGenerator_new example_files example_module ?fp ?cgE no_stmt]
    by (simp add: after_import_def codegenImport_def findModuleFile_example parse_example Let_def
        example_module_def sB_def sA_def s0_def)
  have p0: "moduleFns s0 ''one'' = None" "tempMemoryStack s0 = []" "currentFunction s0 = None"
    "globalValues s0 ''x'' = None" "stderr s0 = []" "nextInst s0 = 0"
    by (simp_all add: s0_def)
  have tA: "currentFunction sA = None" "globalValues sA ''x'' = None"
    "moduleFns sA ''one'' = Some (declaredSignature [] (Some intType))"
    "findModuleFunction ''m'' ''one'' sA = Some ''one''"
    using registerDeclaration_tables [OF keeps_no_stmt p0(3), of ?fp ?cgE "''m''" ?d1] p0
    by (simp_all add: sA_def tables_def findModuleFunction_def)
  have tB: "moduleFns sB ''one'' = Some (declaredSignature [] (Some intType))"
    "findModuleFunction ''m'' ''one'' sB = Some ''one''"
    using registerDeclaration_tables [OF keeps_no_stmt tA(1), of ?fp ?cgE "''m''" ?d2] tA
    by (simp_all add: sB_def tables_def findModuleFunction_def)
  have eA: "stderr sA = []" "nextInst sA = 0" "functions_tab sA ''one'' = Some ''one''"
    unfolding sA_def using empty_function_sel [OF p0(1,2), of ?fp ?cgE no_stmt "''m''"] p0 by simp_all
  have eB: "stderr sB = []" "nextInst sB = 0" "functions_tab sB ''one'' = Some ''one''"
    unfolding sB_def using int_global_sel [OF tA(1,2), of ?fp ?cgE no_stmt "''m''" False 1] eA
    by (simp_all add: sA_def)
  show "moduleFns after_import ''one'' = Some \<lparr>retTy = I32, paramTys = [], isVarArg = False\<rparr>"
    "functions_tab after_import ''one'' = Some ''one''"
    "findModuleFunction ''m'' ''one'' after_import = Some ''one''"
    "stderr after_import = []"
    "nextInst after_import = 0"
    using tB eB by (simp_all add: a signature_one findModuleFunction_def)
qed



end
